(* ===== verification/Prelude.thy ===== *)
theory Prelude
  imports Complex_Main "HOL-Library.Word"
begin

text \<open>
  Shared vocabulary of the development. The viewer (\<^verbatim>\<open>src/js\<close>) stores every
  vector and matrix in a \<^verbatim>\<open>Float32Array\<close>; the model reads those entries as exact
  real numbers (single-precision rounding is not modelled). A 3-vector is
  \<open>vec3\<close>, indexed \<open>[0]\<close>, \<open>[1]\<close>, \<open>[2]\<close> in the source as \<open>vx\<close>, \<open>vy\<close>,
  \<open>vz\<close> here; a 4x4 matrix is \<open>mat4\<close>, the list of its 16 entries in the
  column-major order WebGL's \<^verbatim>\<open>uniformMatrix4fv(loc, false, m)\<close> reads them.
  The theory also holds the generic lemmas the component proofs share, grouped in
  the collections \<open>vec_simps\<close> (componentwise equations of the vector operations) and
  \<open>mat4_simps\<close> (entry reading of 16-element matrices).
\<close>

named_theorems vec_simps "componentwise equations of the 3-vector operations"
named_theorems mat4_simps "reading the entries of a 16-element matrix"

datatype vec3 = V3 (vx: real) (vy: real) (vz: real)

datatype vec4 = V4 (wx: real) (wy: real) (wz: real) (ww: real)

type_synonym mat4 = "real list"

definition vadd :: "vec3 \<Rightarrow> vec3 \<Rightarrow> vec3" where
  "vadd a b = V3 (vx a + vx b) (vy a + vy b) (vz a + vz b)"

definition vsub :: "vec3 \<Rightarrow> vec3 \<Rightarrow> vec3" where
  "vsub a b = V3 (vx a - vx b) (vy a - vy b) (vz a - vz b)"

definition vscale :: "real \<Rightarrow> vec3 \<Rightarrow> vec3" where
  "vscale k a = V3 (k * vx a) (k * vy a) (k * vz a)"

definition dot3 :: "vec3 \<Rightarrow> vec3 \<Rightarrow> real" where
  "dot3 a b = vx a * vx b + vy a * vy b + vz a * vz b"

text \<open>The cross product in the component order the source writes it out.\<close>

definition cross3 :: "vec3 \<Rightarrow> vec3 \<Rightarrow> vec3" where
  "cross3 a b = V3 (vy a * vz b - vz a * vy b) (vz a * vx b - vx a * vz b) (vx a * vy b - vy a * vx b)"

definition len3 :: "vec3 \<Rightarrow> real" where
  "len3 v = sqrt (vx v ^ 2 + vy v ^ 2 + vz v ^ 2)"

definition vneg :: "vec3 \<Rightarrow> vec3" where
  "vneg a = V3 (- vx a) (- vy a) (- vz a)"

definition world_up :: vec3 where
  "world_up = V3 0 1 0"

text \<open>\<^verbatim>\<open>Math.max(lo, Math.min(hi, x))\<close>, the clamp idiom of the source.\<close>

definition js_clamp :: "real \<Rightarrow> real \<Rightarrow> real \<Rightarrow> real" where
  "js_clamp lo hi x = max lo (min hi x)"

text \<open>\<^verbatim>\<open>deg * Math.PI / 180\<close>.\<close>

definition rad :: "real \<Rightarrow> real" where
  "rad d = d * pi / 180"

text \<open>A JavaScript array read \<^verbatim>\<open>a[i]\<close>: \<^verbatim>\<open>undefined\<close> (here \<open>None\<close>) out of range.\<close>

fun js_index :: "'a list \<Rightarrow> nat \<Rightarrow> 'a option" where
  "js_index [] i = None"
| "js_index (x # xs) 0 = Some x"
| "js_index (x # xs) (Suc i) = js_index xs i"

declare vadd_def [vec_simps] vsub_def [vec_simps] vscale_def [vec_simps] dot3_def [vec_simps]
  cross3_def [vec_simps] world_up_def [vec_simps] vneg_def [vec_simps]

subsection \<open>Generic lemmas\<close>

lemma vec3_eqI [intro]:
  "vx a = vx b \<Longrightarrow> vy a = vy b \<Longrightarrow> vz a = vz b \<Longrightarrow> a = b"
  by (cases a, cases b) simp

lemma len3_dot3: "len3 v = sqrt (dot3 v v)"
  by (simp add: len3_def dot3_def power2_eq_square)

lemma len3_nonneg [simp]: "0 \<le> len3 v"
  by (simp add: len3_def)

lemma len3_sq: "len3 v ^ 2 = vx v ^ 2 + vy v ^ 2 + vz v ^ 2"
  by (simp add: len3_def)

lemma len3_V3 [simp]: "len3 (V3 a b c) = sqrt (a\<^sup>2 + b\<^sup>2 + c\<^sup>2)"
  by (simp add: len3_def)

lemma abs_vx_le_len3: "\<bar>vx v\<bar> \<le> len3 v"
proof -
  have "sqrt (vx v ^ 2) \<le> len3 v" unfolding len3_def by (rule real_sqrt_le_mono) simp
  then show ?thesis by simp
qed

lemma js_clamp_bounds [simp]:
  "lo \<le> hi \<Longrightarrow> lo \<le> js_clamp lo hi x" "lo \<le> hi \<Longrightarrow> js_clamp lo hi x \<le> hi"
  by (auto simp: js_clamp_def)

lemma js_clamp_id: "lo \<le> x \<Longrightarrow> x \<le> hi \<Longrightarrow> js_clamp lo hi x = x"
  by (simp add: js_clamp_def)

lemma js_index_nth: "i < length xs \<Longrightarrow> js_index xs i = Some (xs ! i)"
  by (induction xs i rule: js_index.induct) auto

lemma js_index_none: "length xs \<le> i \<Longrightarrow> js_index xs i = None"
  by (induction xs i rule: js_index.induct) auto

lemma dot3_comm: "dot3 a b = dot3 b a"
  by (simp add: dot3_def algebra_simps)

lemma dot3_self_len: "dot3 v v = (len3 v)\<^sup>2"
  by (simp add: len3_def dot3_def power2_eq_square)

lemma dot3_cross3_left [simp]: "dot3 (cross3 a b) a = 0"
  by (simp add: dot3_def cross3_def algebra_simps)

lemma dot3_cross3_right [simp]: "dot3 (cross3 a b) b = 0"
  by (simp add: dot3_def cross3_def algebra_simps)

lemma vsub_vadd [simp]: "vsub (vadd a b) a = b"
  by (simp add: vsub_def vadd_def)

text \<open>Lagrange's identity: the length of a cross product.\<close>

lemma lagrange3: "dot3 (cross3 a b) (cross3 a b) = dot3 a a * dot3 b b - (dot3 a b)\<^sup>2"
  by (simp add: dot3_def cross3_def power2_eq_square algebra_simps)

lemma dot3_vscale [simp]: "dot3 (vscale k a) b = k * dot3 a b" "dot3 a (vscale k b) = k * dot3 a b"
  by (simp_all add: dot3_def vscale_def algebra_simps)

lemma vneg_vneg [simp]: "vneg (vneg v) = v"
  by (simp add: vneg_def)

lemma cross3_swap: "cross3 b a = vneg (cross3 a b)"
  by (simp add: cross3_def vneg_def)

lemma dot3_vneg [simp]: "dot3 (vneg a) b = - dot3 a b" "dot3 a (vneg b) = - dot3 a b"
  by (simp_all add: dot3_def vneg_def)

text \<open>A list of sixteen entries is the literal of its entries: the form in which
  the simplifier compares matrices entry by entry.\<close>

lemma mat4_eta:
  assumes "length m = 16"
  shows "m = [m!0, m!1, m!2, m!3, m!4, m!5, m!6, m!7, m!8, m!9, m!10, m!11, m!12, m!13, m!14, m!15]"
proof -
  have "m = map (\<lambda>i. m ! i) [0..<length m]"
    by (simp add: map_nth)
  also have "\<dots> = map (\<lambda>i. m ! i) [0..<16]"
    by (simp add: assms)
  finally show ?thesis
    by (simp add: upt_rec numeral_eq_Suc)
qed

end
