(* ===== verification/MatrixMath.thy ===== *)
theory MatrixMath
  imports Prelude
begin

text \<open>
  MatrixMath: the pure matrix and vector code of the viewer. The source has no
  matrix library; each operation is written out inline where it is used:
  the guarded normalisation and the look-at construction inside
  \<^verbatim>\<open>FlybyCamera.updateViewMatrix\<close> (\<^verbatim>\<open>src/js/camera.js\<close>) and again inside
  \<^verbatim>\<open>WebGLApp.calculateReflectionViewMatrix\<close> (\<^verbatim>\<open>src/js/main.js\<close>), the perspective
  projection inside \<^verbatim>\<open>updateProjectionMatrix\<close>, the product
  \<^verbatim>\<open>WebGLApp.multiplyMatrices\<close>, and the model matrices \<^verbatim>\<open>createModelMatrix\<close> and
  \<^verbatim>\<open>createVerticalPlaneMatrix\<close>. Each becomes one definition here.
  \<open>mat4_apply\<close> is the meaning WebGL gives a matrix (GLSL \<^verbatim>\<open>M * v\<close> on a
  column-major array); it is the yardstick of the lemmas, not code of the viewer,
  as is \<open>mat4_mul_ref\<close>, the product as a sum over \<open>k\<close>, against which the
  unrolled \<^verbatim>\<open>multiplyMatrices\<close> is checked.
\<close>

definition normalize3 :: "vec3 \<Rightarrow> vec3" where
  "normalize3 v =
     (let len = len3 v in
      if len > 0.0001 then V3 (vx v / len) (vy v / len) (vz v / len) else v)"

definition look_at :: "vec3 \<Rightarrow> vec3 \<Rightarrow> vec3 \<Rightarrow> mat4" where
  "look_at eye center up =
     (let f = normalize3 (vsub center eye);
          s = normalize3 (cross3 f up);
          u = cross3 s f
      in [vx s, vx u, - vx f, 0,
          vy s, vy u, - vy f, 0,
          vz s, vz u, - vz f, 0,
          - (vx s * vx eye + vy s * vy eye + vz s * vz eye),
          - (vx u * vx eye + vy u * vy eye + vz u * vz eye),
          vx f * vx eye + vy f * vy eye + vz f * vz eye, 1])"

text \<open>The perspective projection of \<^verbatim>\<open>updateProjectionMatrix\<close> for a given aspect
  ratio: field of view 45 degrees, near plane 0.1, far plane 100.\<close>

definition perspective :: "real \<Rightarrow> mat4" where
  "perspective aspect =
     (let fov = 45 * pi / 180; near = 0.1; far = 100;
          f = 1 / tan (fov / 2)
      in [f / aspect, 0, 0, 0,
          0, f, 0, 0,
          0, 0, (far + near) / (near - far), -1,
          0, 0, (2 * far * near) / (near - far), 0])"

definition multiplyMatrices :: "mat4 \<Rightarrow> mat4 \<Rightarrow> mat4" where
  "multiplyMatrices a b =
     (let a00 = a!0; a01 = a!1; a02 = a!2; a03 = a!3;
          a10 = a!4; a11 = a!5; a12 = a!6; a13 = a!7;
          a20 = a!8; a21 = a!9; a22 = a!10; a23 = a!11;
          a30 = a!12; a31 = a!13; a32 = a!14; a33 = a!15;
          b00 = b!0; b01 = b!1; b02 = b!2; b03 = b!3;
          b10 = b!4; b11 = b!5; b12 = b!6; b13 = b!7;
          b20 = b!8; b21 = b!9; b22 = b!10; b23 = b!11;
          b30 = b!12; b31 = b!13; b32 = b!14; b33 = b!15
      in [a00 * b00 + a10 * b01 + a20 * b02 + a30 * b03,
          a01 * b00 + a11 * b01 + a21 * b02 + a31 * b03,
          a02 * b00 + a12 * b01 + a22 * b02 + a32 * b03,
          a03 * b00 + a13 * b01 + a23 * b02 + a33 * b03,
          a00 * b10 + a10 * b11 + a20 * b12 + a30 * b13,
          a01 * b10 + a11 * b11 + a21 * b12 + a31 * b13,
          a02 * b10 + a12 * b11 + a22 * b12 + a32 * b13,
          a03 * b10 + a13 * b11 + a23 * b12 + a33 * b13,
          a00 * b20 + a10 * b21 + a20 * b22 + a30 * b23,
          a01 * b20 + a11 * b21 + a21 * b22 + a31 * b23,
          a02 * b20 + a12 * b21 + a22 * b22 + a32 * b23,
          a03 * b20 + a13 * b21 + a23 * b22 + a33 * b23,
          a00 * b30 + a10 * b31 + a20 * b32 + a30 * b33,
          a01 * b30 + a11 * b31 + a21 * b32 + a31 * b33,
          a02 * b30 + a12 * b31 + a22 * b32 + a32 * b33,
          a03 * b30 + a13 * b31 + a23 * b32 + a33 * b33])"

text \<open>\<^verbatim>\<open>createModelMatrix(translation, rotation, scale)\<close>: the \<^verbatim>\<open>rotation\<close>
  argument is accepted and never read.\<close>

definition createModelMatrix :: "vec3 \<Rightarrow> vec3 \<Rightarrow> vec3 \<Rightarrow> mat4" where
  "createModelMatrix translation rotation scale =
     [vx scale, 0, 0, 0,
      0, vy scale, 0, 0,
      0, 0, vz scale, 0,
      vx translation, vy translation, vz translation, 1]"

definition createVerticalPlaneMatrix :: "vec3 \<Rightarrow> mat4" where
  "createVerticalPlaneMatrix translation =
     (let cos90 = 0; sin90 = 1
      in [cos90, sin90, 0, 0,
          - sin90, cos90, 0, 0,
          0, 0, 1, 0,
          vx translation, vy translation, vz translation, 1])"

subsection \<open>Meaning of a matrix\<close>

definition mat4_apply :: "mat4 \<Rightarrow> vec4 \<Rightarrow> vec4" where
  "mat4_apply m v =
     V4 (m!0 * wx v + m!4 * wy v + m!8 * wz v + m!12 * ww v)
        (m!1 * wx v + m!5 * wy v + m!9 * wz v + m!13 * ww v)
        (m!2 * wx v + m!6 * wy v + m!10 * wz v + m!14 * ww v)
        (m!3 * wx v + m!7 * wy v + m!11 * wz v + m!15 * ww v)"

definition identity4 :: mat4 where
  "identity4 = [1, 0, 0, 0,  0, 1, 0, 0,  0, 0, 1, 0,  0, 0, 0, 1]"

text \<open>A point and a direction in homogeneous coordinates.\<close>

definition point4 :: "vec3 \<Rightarrow> vec4" where
  "point4 p = V4 (vx p) (vy p) (vz p) 1"

definition dir4 :: "vec3 \<Rightarrow> vec4" where
  "dir4 d = V4 (vx d) (vy d) (vz d) 0"

text \<open>Row \<open>i\<close> of the upper-left 3x3 block: the \<open>i\<close>-th camera axis of a view matrix.\<close>

definition basis_row :: "mat4 \<Rightarrow> nat \<Rightarrow> vec3" where
  "basis_row m i = V3 (m ! i) (m ! (4 + i)) (m ! (8 + i))"

text \<open>The textbook product of two column-major 4x4 matrices, entry \<open>(i, j)\<close> at
  position \<open>i + 4 j\<close>: the reference \<^verbatim>\<open>multiplyMatrices\<close> is measured against.\<close>

definition mat4_mul_ref :: "mat4 \<Rightarrow> mat4 \<Rightarrow> mat4" where
  "mat4_mul_ref a b =
     map (\<lambda>n. sum_list (map (\<lambda>k. a ! (n mod 4 + 4 * k) * b ! (4 * (n div 4) + k)) [0..<4]))
       [0..<16]"

definition orthonormal3 :: "vec3 \<Rightarrow> vec3 \<Rightarrow> vec3 \<Rightarrow> bool" where
  "orthonormal3 a b c \<longleftrightarrow> dot3 a a = 1 \<and> dot3 b b = 1 \<and> dot3 c c = 1 \<and>
     dot3 a b = 0 \<and> dot3 a c = 0 \<and> dot3 b c = 0"

subsection \<open>Guarded normalisation\<close>

lemma normalize3_scale:
  "0.0001 < len3 v \<Longrightarrow> normalize3 v = vscale (1 / len3 v) v"
  by (simp add: normalize3_def vscale_def Let_def)

lemma normalize3_small: "\<not> 0.0001 < len3 v \<Longrightarrow> normalize3 v = v"
  by (simp add: normalize3_def Let_def)

lemma normalize3_unit: "0.0001 < len3 v \<Longrightarrow> dot3 (normalize3 v) (normalize3 v) = 1"
proof -
  assume h: "0.0001 < len3 v"
  then have "len3 v \<noteq> 0" by simp
  moreover have "dot3 v v = (len3 v)\<^sup>2" by (rule dot3_self_len)
  ultimately show ?thesis using h
    by (simp add: normalize3_scale power2_eq_square)
qed

lemma normalize3_orth: "dot3 v w = 0 \<Longrightarrow> dot3 (normalize3 v) w = 0"
  by (cases "0.0001 < len3 v") (simp_all add: normalize3_scale normalize3_small)

subsection \<open>Products\<close>

lemma length_multiplyMatrices [simp]: "length (multiplyMatrices a b) = 16"
  by (simp add: multiplyMatrices_def Let_def)

lemma length_look_at [simp]: "length (look_at e c u) = 16"
  by (simp add: look_at_def Let_def)

lemma length_perspective [simp]: "length (perspective a) = 16"
  by (simp add: perspective_def Let_def)

lemma upt_16: "[0..<16] = [0, 1, 2, 3, 4, 5, 6, 7, 8, 9, 10, 11, 12, 13, 14, 15::nat]"
  by (simp add: upt_rec)

lemma upt_4: "[0..<4] = [0, 1, 2, 3::nat]"
  by (simp add: upt_rec)

lemma mat4_apply_multiply [simp]:
  "mat4_apply (multiplyMatrices a b) v = mat4_apply a (mat4_apply b v)"
  by (simp add: multiplyMatrices_def mat4_apply_def Let_def algebra_simps)

subsection \<open>Look-at\<close>

lemma createModelMatrix_point:
  "mat4_apply (createModelMatrix t r sc) (point4 v)
   = V4 (vx sc * vx v + vx t) (vy sc * vy v + vy t) (vz sc * vz v + vz t) 1"
  by (simp add: createModelMatrix_def mat4_apply_def point4_def)

lemma normalize3_vneg: "normalize3 (vneg v) = vneg (normalize3 v)"
  by (simp add: normalize3_def len3_def vneg_def Let_def)

lemma look_at_rows:
  fixes c e up :: vec3
  defines "f \<equiv> normalize3 (vsub c e)"
  defines "s \<equiv> normalize3 (cross3 f up)"
  shows "basis_row (look_at e c up) 0 = s" "basis_row (look_at e c up) 1 = cross3 s f"
        "basis_row (look_at e c up) 2 = vneg f"
  by (simp_all add: basis_row_def look_at_def vneg_def Let_def f_def s_def)

text \<open>When neither guard of the construction falls back to the unnormalised vector,
  the three camera axes of a look-at matrix are orthonormal.\<close>

lemma look_at_orthonormal:
  assumes f: "0.0001 < len3 (vsub c e)"
    and s: "0.0001 < len3 (cross3 (normalize3 (vsub c e)) up)"
  shows "orthonormal3 (basis_row (look_at e c up) 0) (basis_row (look_at e c up) 1)
                      (basis_row (look_at e c up) 2)"
proof -
  define fv where "fv = normalize3 (vsub c e)"
  define sv where "sv = normalize3 (cross3 fv up)"
  have ff: "dot3 fv fv = 1" using f by (simp add: fv_def normalize3_unit)
  have ss: "dot3 sv sv = 1" using s by (simp add: sv_def fv_def normalize3_unit)
  have sf: "dot3 sv fv = 0" by (simp add: sv_def normalize3_orth)
  have uu: "dot3 (cross3 sv fv) (cross3 sv fv) = 1" by (simp add: lagrange3 ff ss sf)
  have us: "dot3 sv (cross3 sv fv) = 0" by (simp add: dot3_comm [of sv])
  have r0: "basis_row (look_at e c up) 0 = sv"
    and r1: "basis_row (look_at e c up) 1 = cross3 sv fv"
    and r2: "basis_row (look_at e c up) 2 = vneg fv"
    by (simp_all only: look_at_rows fv_def sv_def)
  show ?thesis
    unfolding orthonormal3_def r0 r1 r2
    using ff ss sf uu us by simp
qed

subsection \<open>Properties\<close>

text \<open>C26. \<^verbatim>\<open>multiplyMatrices(a, b)\<close> is the matrix that applies \<open>b\<close> and then
  \<open>a\<close> to a column vector, for every pair of matrices, and the product is associative.\<close>

theorem multiplyMatrices_compose:
  "mat4_apply (multiplyMatrices a b) v = mat4_apply a (mat4_apply b v)
   \<and> multiplyMatrices (multiplyMatrices a b) c = multiplyMatrices a (multiplyMatrices b c)"
proof
  show "mat4_apply (multiplyMatrices a b) v = mat4_apply a (mat4_apply b v)"
    by (simp add: multiplyMatrices_def mat4_apply_def Let_def algebra_simps)
  show "multiplyMatrices (multiplyMatrices a b) c = multiplyMatrices a (multiplyMatrices b c)"
    by (simp add: multiplyMatrices_def Let_def algebra_simps)
qed

text \<open>The identity matrix is a left and a right unit of \<^verbatim>\<open>multiplyMatrices\<close> on
  every 16-entry matrix.\<close>

lemma multiplyMatrices_identity:
  assumes "length m = 16"
  shows "multiplyMatrices identity4 m = m \<and> multiplyMatrices m identity4 = m"
proof
  show "multiplyMatrices identity4 m = m"
    by (subst (2) mat4_eta [OF assms]) (simp add: multiplyMatrices_def identity4_def Let_def)
  show "multiplyMatrices m identity4 = m"
    by (subst (2) mat4_eta [OF assms]) (simp add: multiplyMatrices_def identity4_def Let_def)
qed

text \<open>C27. \<^verbatim>\<open>multiplyMatrices(a, b)\<close>, written out as sixteen sums over named
  entries, is the textbook matrix product: entry \<open>(i, j)\<close> is the sum over \<open>k\<close> of
  \<open>a(i, k) b(k, j)\<close>, for any two arrays.\<close>

theorem multiplyMatrices_equiv: "multiplyMatrices a b = mat4_mul_ref a b"
  unfolding mat4_mul_ref_def upt_16 upt_4
  by (simp add: multiplyMatrices_def Let_def add.assoc numeral_2_eq_2 [symmetric])

text \<open>The look-at matrix sends the eye point to the origin of eye space, whatever
  the target and up vector (the guards included).\<close>

lemma look_at_eye_origin: "mat4_apply (look_at e c up) (point4 e) = V4 0 0 0 1"
  by (simp add: look_at_def mat4_apply_def point4_def Let_def)

text \<open>C29. The projection maps the near plane (eye-space \<open>z = -0.1\<close>) to normalised
  depth \<open>-1\<close> and the far plane (\<open>z = -100\<close>) to \<open>+1\<close>, for every aspect ratio.\<close>

theorem perspective_depth_range:
  "wz (mat4_apply (perspective a) (V4 x y (-0.1) 1)) / ww (mat4_apply (perspective a) (V4 x y (-0.1) 1)) = -1
   \<and> wz (mat4_apply (perspective a) (V4 x y (-100) 1)) / ww (mat4_apply (perspective a) (V4 x y (-100) 1)) = 1"
  by (simp add: perspective_def mat4_apply_def Let_def)

text \<open>The aspect ratio enters the projection in entry 0 only: the projections for
  two aspect ratios differ at most there.\<close>

lemma perspective_aspect_only: "perspective a' = (perspective a)[0 := perspective a' ! 0]"
  by (simp add: perspective_def Let_def)

end
