(* ===== verification/Camera.thy ===== *)
theory Camera
  imports MatrixMath
begin

text \<open>
  CameraController: the class \<^verbatim>\<open>FlybyCamera\<close> of \<^verbatim>\<open>src/js/camera.js\<close>. Its fields
  are the record \<open>camera\<close>; the DOM it reads (the canvas size, whether the
  browser offers \<^verbatim>\<open>requestPointerLock\<close> and \<^verbatim>\<open>exitPointerLock\<close>) is the record
  \<open>dom\<close>. The event listeners that \<^verbatim>\<open>setupEventListeners\<close> and
  \<^verbatim>\<open>setupFallbackMouseControls\<close> register are modelled in theory \<open>Input\<close>; the
  state their closures keep (one \<^verbatim>\<open>isMouseDown\<close>, \<^verbatim>\<open>lastX\<close>, \<^verbatim>\<open>lastY\<close> per
  registration) is the list \<open>fallback_listeners\<close> of this record, and the
  key map \<^verbatim>\<open>this.keys\<close> is a function to \<open>bool\<close>: a key never pressed reads
  \<^verbatim>\<open>undefined\<close>, which the code tests as false. Each method that changes the camera
  is a function \<open>camera \<Rightarrow> camera\<close>; \<^verbatim>\<open>performance.now()\<close> is an argument.
  \<open>move_intent\<close> is the movement of the specification, the abstract side of the
  refinement lemma for \<^verbatim>\<open>update\<close>.
\<close>

record dom =
  canvas_width :: nat
  canvas_height :: nat
  canvas_request_lock :: bool
  document_exit_lock :: bool

record fallback_listener =
  isMouseDown :: bool
  lastX :: real
  lastY :: real

record camera =
  dom :: dom
  position :: vec3
  yaw :: real
  pitch :: real
  moveSpeed :: real
  rotationSpeed :: real
  isPointerLocked :: bool
  lastMouseX :: real
  lastMouseY :: real
  viewMatrix :: mat4
  projectionMatrix :: mat4
  lastFrameTime :: real
  keys :: "string \<Rightarrow> bool"
  fallback_listeners :: "fallback_listener list"

text \<open>The forward vector of \<^verbatim>\<open>getForward\<close>; \<^verbatim>\<open>update\<close> and
  \<^verbatim>\<open>updateViewMatrix\<close> compute it with the same three lines.\<close>

definition forward_of :: "real \<Rightarrow> real \<Rightarrow> vec3" where
  "forward_of yawDeg pitchDeg =
     (let yawRad = yawDeg * pi / 180; pitchRad = pitchDeg * pi / 180
      in V3 (cos pitchRad * cos yawRad) (sin pitchRad) (cos pitchRad * sin yawRad))"

definition getForward :: "camera \<Rightarrow> vec3" where
  "getForward c = forward_of (yaw c) (pitch c)"

definition getPosition :: "camera \<Rightarrow> vec3" where
  "getPosition c = position c"

definition updateViewMatrix :: "camera \<Rightarrow> camera" where
  "updateViewMatrix c =
     (let forward = forward_of (yaw c) (pitch c);
          target = vadd (position c) forward
      in c\<lparr>viewMatrix := look_at (position c) target world_up\<rparr>)"

definition updateProjectionMatrix :: "camera \<Rightarrow> camera" where
  "updateProjectionMatrix c =
     (let aspect = real (canvas_width (dom c)) / real (canvas_height (dom c))
      in c\<lparr>projectionMatrix := perspective aspect\<rparr>)"

text \<open>The constructor: fields, \<^verbatim>\<open>setupEventListeners\<close> (which sets
  \<^verbatim>\<open>this.keys = {}\<close>), then the two matrix updates.\<close>

definition new_camera :: "dom \<Rightarrow> real \<Rightarrow> camera" where
  "new_camera d now =
     updateViewMatrix (updateProjectionMatrix
       \<lparr>dom = d, position = V3 0 5 15, yaw = -90, pitch = -20,
        moveSpeed = 5, rotationSpeed = 0.1, isPointerLocked = False,
        lastMouseX = 0, lastMouseY = 0,
        viewMatrix = replicate 16 0, projectionMatrix = replicate 16 0,
        lastFrameTime = now, keys = (\<lambda>_. False), fallback_listeners = []\<rparr>)"

text \<open>The body of the pointer-locked \<^verbatim>\<open>mousemove\<close> listener (and, with
  client-position deltas, of the fallback one): turn, clamp the pitch, rebuild the view.\<close>

definition look_delta :: "real \<Rightarrow> real \<Rightarrow> camera \<Rightarrow> camera" where
  "look_delta dx dy c =
     (let yaw' = yaw c + dx * rotationSpeed c;
          pitch' = pitch c - dy * rotationSpeed c
      in updateViewMatrix (c\<lparr>yaw := yaw', pitch := js_clamp (-89) 89 pitch'\<rparr>))"

text \<open>The \<^verbatim>\<open>wheel\<close> listener (its \<^verbatim>\<open>preventDefault\<close> has no effect on the state).\<close>

definition wheel :: "real \<Rightarrow> camera \<Rightarrow> camera" where
  "wheel deltaY c = c\<lparr>moveSpeed := js_clamp 0.5 20 (moveSpeed c + deltaY * 0.1)\<rparr>"

definition update :: "real \<Rightarrow> camera \<Rightarrow> camera" where
  "update currentTime c =
     (let deltaTime = (currentTime - lastFrameTime c) / 1000;
          c = c\<lparr>lastFrameTime := currentTime\<rparr>;
          dt = min deltaTime 0.1;
          forward = forward_of (yaw c) (pitch c);
          right = normalize3 (cross3 world_up forward);
          speed = moveSpeed c * dt;
          p = position c;
          p = (if keys c ''w'' then vadd p (vscale speed forward) else p);
          p = (if keys c ''s'' then vsub p (vscale speed forward) else p);
          p = (if keys c ''a'' then vadd p (vscale speed right) else p);
          p = (if keys c ''d'' then vsub p (vscale speed right) else p);
          p = (if keys c '' '' then V3 (vx p) (vy p + speed) (vz p) else p);
          p = (if keys c ''shift'' then V3 (vx p) (vy p - speed) (vz p) else p)
      in updateViewMatrix (c\<lparr>position := p\<rparr>))"

definition reset :: "real \<Rightarrow> camera \<Rightarrow> camera" where
  "reset now c =
     updateViewMatrix (c\<lparr>position := V3 0 5 15, yaw := -90, pitch := -20, lastFrameTime := now\<rparr>)"

text \<open>The position \<^verbatim>\<open>update\<close> computes for a clamped time step \<open>dt\<close>: its
  lines from the forward vector to the last key test, taken out of \<open>update\<close> so that
  the lemmas can speak of the displacement alone (\<open>update_displace\<close>).\<close>

definition displace :: "real \<Rightarrow> camera \<Rightarrow> vec3" where
  "displace dt c =
     (let forward = forward_of (yaw c) (pitch c);
          right = normalize3 (cross3 world_up forward);
          speed = moveSpeed c * dt;
          p = position c;
          p = (if keys c ''w'' then vadd p (vscale speed forward) else p);
          p = (if keys c ''s'' then vsub p (vscale speed forward) else p);
          p = (if keys c ''a'' then vadd p (vscale speed right) else p);
          p = (if keys c ''d'' then vsub p (vscale speed right) else p);
          p = (if keys c '' '' then V3 (vx p) (vy p + speed) (vz p) else p)
      in (if keys c ''shift'' then V3 (vx p) (vy p - speed) (vz p) else p))"

text \<open>The movement the specification asks of \<^verbatim>\<open>update\<close> (not code of the viewer): the
  sum of the directions of the held move intents, forward and backward along the view
  direction, strafing right and left along \<open>right = normalize(forward \<times> worldUp)\<close>,
  ascending and descending along the world up, bound to the keys \<^verbatim>\<open>w s d a\<close>, space
  and shift; \<^verbatim>\<open>update\<close> is to move the camera by this vector scaled by the speed and
  the clamped elapsed time.\<close>

definition move_intent :: "camera \<Rightarrow> vec3" where
  "move_intent c =
     (let forward = forward_of (yaw c) (pitch c);
          right = normalize3 (cross3 forward world_up);
          held = (\<lambda>k v. if keys c k then v else V3 0 0 0)
      in vadd (held ''w'' forward) (vadd (held ''s'' (vneg forward))
           (vadd (held ''d'' right) (vadd (held ''a'' (vneg right))
           (vadd (held '' '' world_up) (held ''shift'' (vneg world_up)))))))"

text \<open>The camera invariant: the pitch is in the clamp range, the speed in the wheel
  range, the sensitivity is the constructor's, and the stored view matrix is the one
  \<open>updateViewMatrix\<close> computes from the current position and orientation.\<close>

definition cam_inv :: "camera \<Rightarrow> bool" where
  "cam_inv c \<longleftrightarrow> -89 \<le> pitch c \<and> pitch c \<le> 89 \<and> 0.5 \<le> moveSpeed c \<and> moveSpeed c \<le> 20
     \<and> rotationSpeed c = 0.1 \<and> viewMatrix c = viewMatrix (updateViewMatrix c)"

subsection \<open>Trigonometric bounds\<close>

lemma sin_one_degree_bound: "0.0001 < sin (pi / 180)"
proof -
  let ?x = "pi / 180"
  have b: "\<bar>sin ?x - (\<Sum>m<2. sin_coeff m * ?x ^ m)\<bar> \<le> inverse (fact 2) * \<bar>?x\<bar> ^ 2"
    by (rule Maclaurin_sin_bound)
  have s: "(\<Sum>m<2. sin_coeff m * ?x ^ m) = ?x"
    by (simp add: sin_coeff_def numeral_2_eq_2)
  have x0: "2 / 180 \<le> ?x" using pi_ge_two by (simp add: divide_right_mono)
  have x1: "?x \<le> 4 / 180" using pi_less_4 by (simp add: divide_right_mono)
  have "?x\<^sup>2 \<le> (4 / 180)\<^sup>2" using x0 x1 by (intro power_mono) simp_all
  then have sq: "?x\<^sup>2 \<le> 16 / 32400" by (simp add: power_divide)
  have "\<bar>sin ?x - ?x\<bar> \<le> ?x\<^sup>2 / 2" using b unfolding s by simp
  then have "?x - ?x\<^sup>2 / 2 \<le> sin ?x" unfolding abs_le_iff by linarith
  moreover have "1 / 10000 < ?x - ?x\<^sup>2 / 2" using x0 sq by linarith
  ultimately show ?thesis by simp
qed

text \<open>Within the pitch clamp the cosine of the pitch stays above the guard of the
  normalisations: \<open>cos 89\<degree> = sin 1\<degree> > 0.0001\<close>.\<close>

lemma cos_pitch_bound:
  assumes "-89 \<le> p" "p \<le> 89"
  shows "0.0001 < cos (p * pi / 180)"
proof -
  have "cos (89 * pi / 180) = sin (pi / 180)"
    by (simp add: cos_sin_eq)
  moreover have "cos (89 * pi / 180) \<le> cos (\<bar>p\<bar> * pi / 180)"
  proof -
    have a: "\<bar>p\<bar> * pi / 180 \<le> 89 * pi / 180" using assms by (simp add: divide_right_mono)
    have b: "89 * pi / 180 \<le> pi" by simp
    show ?thesis using a b by (subst cos_mono_le_eq) simp_all
  qed
  moreover have "cos (\<bar>p\<bar> * pi / 180) = cos (p * pi / 180)"
    by (cases "0 \<le> p") (simp_all add: abs_if)
  ultimately show ?thesis using sin_one_degree_bound by linarith
qed

subsection \<open>Forward and right vectors\<close>

lemma forward_of_dot: "dot3 (forward_of y p) (forward_of y p) = 1"
proof -
  let ?a = "y * pi / 180" and ?b = "p * pi / 180"
  have "dot3 (forward_of y p) (forward_of y p)
      = (cos ?b)\<^sup>2 * ((cos ?a)\<^sup>2 + (sin ?a)\<^sup>2) + (sin ?b)\<^sup>2"
    by (simp add: forward_of_def dot3_def Let_def power2_eq_square algebra_simps
        del: sin_cos_squared_add sin_cos_squared_add2 sin_cos_squared_add3)
  also have "\<dots> = 1" by simp
  finally show ?thesis .
qed

lemma len3_forward_of [simp]: "len3 (forward_of y p) = 1"
  using forward_of_dot [of y p] by (simp add: len3_dot3)

lemma normalize3_forward_of [simp]: "normalize3 (forward_of y p) = forward_of y p"
  by (simp add: normalize3_def Let_def)

lemma len3_cross_forward_up: "len3 (cross3 (forward_of y p) world_up) = \<bar>cos (p * pi / 180)\<bar>"
proof -
  let ?a = "y * pi / 180" and ?b = "p * pi / 180"
  have "len3 (cross3 (forward_of y p) world_up)
      = sqrt ((cos ?b)\<^sup>2 * (cos ?a)\<^sup>2 + (cos ?b)\<^sup>2 * (sin ?a)\<^sup>2)"
    by (simp add: cross3_def world_up_def forward_of_def Let_def len3_def power_mult_distrib)
  also have "(cos ?b)\<^sup>2 * (cos ?a)\<^sup>2 + (cos ?b)\<^sup>2 * (sin ?a)\<^sup>2 = (cos ?b)\<^sup>2"
    by (simp add: distrib_left [symmetric])
  finally show ?thesis by simp
qed

subsection \<open>Frame lemmas of the operations\<close>

lemma updateViewMatrix_idem [simp]: "updateViewMatrix (updateViewMatrix c) = updateViewMatrix c"
  by (simp add: updateViewMatrix_def Let_def)

lemma updateViewMatrix_fields [simp]:
  "position (updateViewMatrix c) = position c" "yaw (updateViewMatrix c) = yaw c"
  "pitch (updateViewMatrix c) = pitch c" "moveSpeed (updateViewMatrix c) = moveSpeed c"
  "rotationSpeed (updateViewMatrix c) = rotationSpeed c" "keys (updateViewMatrix c) = keys c"
  "dom (updateViewMatrix c) = dom c" "lastFrameTime (updateViewMatrix c) = lastFrameTime c"
  "isPointerLocked (updateViewMatrix c) = isPointerLocked c"
  "fallback_listeners (updateViewMatrix c) = fallback_listeners c"
  "projectionMatrix (updateViewMatrix c) = projectionMatrix c"
  by (simp_all add: updateViewMatrix_def Let_def)

lemma update_displace:
  "update now c = updateViewMatrix (c\<lparr>lastFrameTime := now,
     position := displace (min ((now - lastFrameTime c) / 1000) 0.1) c\<rparr>)"
  by (simp add: update_def displace_def Let_def)

lemma displace_zero: "displace 0 c = position c"
  by (simp add: displace_def Let_def vadd_def vsub_def vscale_def)

text \<open>Each key test of \<^verbatim>\<open>update\<close> adds the speed times the key's direction, or
  nothing.\<close>

lemma held_step:
  "(if b then vadd p (vscale s v) else p) = vadd p (vscale s (if b then v else V3 0 0 0))"
  "(if b then vsub p (vscale s v) else p) = vadd p (vscale s (if b then vneg v else V3 0 0 0))"
  "(if b then V3 (vx p) (vy p + s) (vz p) else p) = vadd p (vscale s (if b then world_up else V3 0 0 0))"
  "(if b then V3 (vx p) (vy p - s) (vz p) else p) = vadd p (vscale s (if b then vneg world_up else V3 0 0 0))"
  by (simp_all add: vadd_def vsub_def vscale_def vneg_def world_up_def)

lemma displace_move_intent:
  "displace dt c = vadd (position c) (vscale (moveSpeed c * dt) (move_intent c))"
  unfolding displace_def move_intent_def Let_def held_step cross3_swap [of world_up] normalize3_vneg
  by (simp add: vadd_def vscale_def algebra_simps)

lemma move_intent_moved [simp]:
  "move_intent (updateViewMatrix (c\<lparr>lastFrameTime := t, position := p\<rparr>)) = move_intent c"
  by (simp add: move_intent_def)

lemma updateViewMatrix_moved [simp]:
  "updateViewMatrix ((updateViewMatrix c)\<lparr>lastFrameTime := t, position := p\<rparr>)
   = updateViewMatrix (c\<lparr>lastFrameTime := t, position := p\<rparr>)"
  by (simp add: updateViewMatrix_def Let_def)

subsection \<open>Camera invariant\<close>

lemma cam_inv_look_delta: "cam_inv c \<Longrightarrow> cam_inv (look_delta dx dy c)"
  by (simp add: cam_inv_def look_delta_def Let_def js_clamp_def)

lemma cam_inv_wheel: "cam_inv c \<Longrightarrow> cam_inv (wheel d c)"
  by (auto simp: cam_inv_def wheel_def js_clamp_def updateViewMatrix_def Let_def)

lemma cam_inv_update: "cam_inv c \<Longrightarrow> cam_inv (update now c)"
  by (simp add: cam_inv_def update_displace)

lemma cam_inv_reset: "cam_inv c \<Longrightarrow> cam_inv (reset now c)"
  by (simp add: cam_inv_def reset_def)

lemma cam_inv_updateProjectionMatrix: "cam_inv c \<Longrightarrow> cam_inv (updateProjectionMatrix c)"
  by (auto simp: cam_inv_def updateProjectionMatrix_def updateViewMatrix_def Let_def)

lemma cam_inv_new_camera: "cam_inv (new_camera d now)"
  by (simp add: cam_inv_def new_camera_def updateProjectionMatrix_def Let_def)

lemmas cam_inv_ops = cam_inv_look_delta cam_inv_wheel cam_inv_update cam_inv_reset
  cam_inv_updateProjectionMatrix cam_inv_new_camera

lemma look_at_camera_orthonormal:
  assumes "-89 \<le> pitch c" "pitch c \<le> 89"
  shows "orthonormal3 (basis_row (viewMatrix (updateViewMatrix c)) 0)
           (basis_row (viewMatrix (updateViewMatrix c)) 1) (basis_row (viewMatrix (updateViewMatrix c)) 2)"
proof -
  let ?f = "forward_of (yaw c) (pitch c)"
  have f: "0.0001 < len3 (vsub (vadd (position c) ?f) (position c))" by simp
  have "0.0001 < \<bar>cos (pitch c * pi / 180)\<bar>" using cos_pitch_bound [OF assms] by simp
  then have s: "0.0001 < len3 (cross3 (normalize3 (vsub (vadd (position c) ?f) (position c))) world_up)"
    by (simp add: len3_cross_forward_up)
  show ?thesis
    using look_at_orthonormal [OF f s] by (simp add: updateViewMatrix_def Let_def)
qed

lemma new_camera_fields [simp]:
  "position (new_camera d now) = V3 0 5 15" "yaw (new_camera d now) = -90"
  "pitch (new_camera d now) = -20" "moveSpeed (new_camera d now) = 5"
  "lastFrameTime (new_camera d now) = now" "keys (new_camera d now) = (\<lambda>_. False)"
  "isPointerLocked (new_camera d now) = False" "fallback_listeners (new_camera d now) = []"
  "rotationSpeed (new_camera d now) = 0.1" "dom (new_camera d now) = d"
  by (simp_all add: new_camera_def updateProjectionMatrix_def Let_def)

subsection \<open>Properties\<close>

text \<open>C8. In every camera state satisfying the invariant, the stored view matrix is a
  rigid camera frame: its three axis rows (right, up, backward) are orthonormal. The
  pitch clamp is what keeps the look-at construction away from its degenerate branch.\<close>

theorem camera_view_orthonormal:
  assumes "cam_inv c"
  shows "orthonormal3 (basis_row (viewMatrix c) 0) (basis_row (viewMatrix c) 1)
           (basis_row (viewMatrix c) 2)"
proof -
  from assms have "-89 \<le> pitch c" "pitch c \<le> 89" "viewMatrix c = viewMatrix (updateViewMatrix c)"
    by (simp_all add: cam_inv_def)
  then show ?thesis using look_at_camera_orthonormal by simp
qed

theorem camera_view_orthonormal_witness:
  "cam_inv (new_camera \<lparr>canvas_width = 800, canvas_height = 600, canvas_request_lock = True,
              document_exit_lock = True\<rparr> 0)
   \<and> orthonormal3 (basis_row (viewMatrix (new_camera \<lparr>canvas_width = 800, canvas_height = 600,
              canvas_request_lock = True, document_exit_lock = True\<rparr> 0)) 0)
       (basis_row (viewMatrix (new_camera \<lparr>canvas_width = 800, canvas_height = 600,
              canvas_request_lock = True, document_exit_lock = True\<rparr> 0)) 1)
       (basis_row (viewMatrix (new_camera \<lparr>canvas_width = 800, canvas_height = 600,
              canvas_request_lock = True, document_exit_lock = True\<rparr> 0)) 2)"
  using camera_view_orthonormal [OF cam_inv_new_camera] cam_inv_new_camera by simp

text \<open>C9. \<^verbatim>\<open>update\<close> clamps the elapsed time: after 100 ms or more, the camera moves
  exactly as it does after 100 ms; only the recorded timestamp differs.\<close>

theorem update_dt_clamp:
  assumes "100 \<le> now - lastFrameTime c"
  shows "update now c = (update (lastFrameTime c + 100) c)\<lparr>lastFrameTime := now\<rparr>"
proof -
  have h1: "min ((now - lastFrameTime c) / 1000) 0.1 = (0.1::real)" using assms by simp
  have h2: "min ((lastFrameTime c + 100 - lastFrameTime c) / 1000) 0.1 = (0.1::real)" by simp
  show ?thesis unfolding update_displace h1 h2 by (simp add: updateViewMatrix_def Let_def)
qed

theorem update_dt_clamp_witness:
  "let c = new_camera \<lparr>canvas_width = 800, canvas_height = 600, canvas_request_lock = True,
             document_exit_lock = True\<rparr> 0
   in 100 \<le> 2500 - lastFrameTime c \<and>
      update 2500 c = (update (lastFrameTime c + 100) c)\<lparr>lastFrameTime := 2500\<rparr>"
  unfolding Let_def by (rule conjI, simp, rule update_dt_clamp, simp)

text \<open>C10. Whatever the pointer deltas, a look step leaves the pitch in \<open>[-89, 89]\<close>.\<close>

theorem look_delta_pitch_range: "-89 \<le> pitch (look_delta dx dy c) \<and> pitch (look_delta dx dy c) \<le> 89"
  by (simp add: look_delta_def Let_def js_clamp_def)

text \<open>C18. A wheel step leaves the move speed in \<open>[0.5, 20]\<close>, and a request past
  either end lands on it exactly.\<close>

theorem wheel_speed_clamp:
  "0.5 \<le> moveSpeed (wheel d c) \<and> moveSpeed (wheel d c) \<le> 20
   \<and> (moveSpeed c + d * 0.1 \<le> 0.5 \<longrightarrow> moveSpeed (wheel d c) = 0.5)
   \<and> (20 \<le> moveSpeed c + d * 0.1 \<longrightarrow> moveSpeed (wheel d c) = 20)"
  by (simp add: wheel_def js_clamp_def)

theorem wheel_speed_clamp_witness:
  "let c = new_camera \<lparr>canvas_width = 800, canvas_height = 600, canvas_request_lock = True,
             document_exit_lock = True\<rparr> 0
   in moveSpeed c + 400 * 0.1 \<ge> 20 \<and> moveSpeed (wheel 400 c) = 20
      \<and> moveSpeed c + (-100) * 0.1 \<le> 0.5 \<and> moveSpeed (wheel (-100) c) = 0.5"
proof -
  let ?c = "new_camera \<lparr>canvas_width = 800, canvas_height = 600, canvas_request_lock = True,
             document_exit_lock = True\<rparr> 0"
  have "moveSpeed ?c + 400 * 0.1 \<ge> 20" "moveSpeed ?c + (-100) * 0.1 \<le> 0.5" by simp_all
  then show ?thesis using wheel_speed_clamp [of 400 ?c] wheel_speed_clamp [of "-100" ?c]
    unfolding Let_def by simp
qed

text \<open>C25. \<^verbatim>\<open>reset\<close> restores the spawn position \<open>(0, 5, 15)\<close>, yaw \<open>-90\<close> and pitch
  \<open>-20\<close> from any state, leaves the move speed as it was, and its view matrix is the
  one of the spawn pose.\<close>

theorem reset_spawn:
  "position (reset now c) = V3 0 5 15 \<and> yaw (reset now c) = -90 \<and> pitch (reset now c) = -20
   \<and> moveSpeed (reset now c) = moveSpeed c \<and> lastFrameTime (reset now c) = now
   \<and> viewMatrix (reset now c) = look_at (V3 0 5 15) (vadd (V3 0 5 15) (forward_of (-90) (-20))) world_up"
  by (simp add: reset_def updateViewMatrix_def Let_def)

text \<open>\<^verbatim>\<open>getForward()\<close> returns a unit vector for every yaw and pitch.\<close>

lemma getForward_unit: "len3 (getForward c) = 1"
  by (simp add: getForward_def)

text \<open>C28. With no time elapsed since the last frame, \<^verbatim>\<open>update\<close> changes nothing in a
  camera that satisfies the invariant: it is idempotent at elapsed time 0.\<close>

theorem update_zero_elapsed:
  assumes "cam_inv c"
  shows "update (lastFrameTime c) c = c"
proof -
  from assms have v: "viewMatrix c = viewMatrix (updateViewMatrix c)" by (simp add: cam_inv_def)
  have "update (lastFrameTime c) c = updateViewMatrix c"
    by (simp add: update_displace displace_zero)
  also have "\<dots> = c" using v by (simp add: updateViewMatrix_def Let_def)
  finally show ?thesis .
qed

theorem update_zero_elapsed_witness:
  "let c = new_camera \<lparr>canvas_width = 800, canvas_height = 600, canvas_request_lock = True,
             document_exit_lock = True\<rparr> 7
   in cam_inv c \<and> update (lastFrameTime c) c = c"
  unfolding Let_def using update_zero_elapsed [OF cam_inv_new_camera] cam_inv_new_camera by simp

text \<open>C11. \<^verbatim>\<open>update\<close> implements the movement of the specification: it moves the
  camera by \<open>move_intent\<close>, the sum of the held intents' directions, scaled by the
  move speed and the elapsed time clamped to 0.1 s, and leaves the orientation alone.\<close>

theorem update_refines_move_intent:
  "position (update now c)
     = vadd (position c) (vscale (moveSpeed c * min ((now - lastFrameTime c) / 1000) 0.1) (move_intent c))
   \<and> yaw (update now c) = yaw c \<and> pitch (update now c) = pitch c"
  by (simp add: update_displace displace_move_intent)

text \<open>C12. The motion is frame-rate independent: as long as no step reaches the 100 ms
  clamp, two frames at \<open>t1\<close> and \<open>t2\<close> leave the camera exactly where one frame at
  \<open>t2\<close> leaves it.\<close>

theorem update_split:
  assumes "t1 - lastFrameTime c \<le> 100" "t2 - t1 \<le> 100" "t2 - lastFrameTime c \<le> 100"
  shows "update t2 (update t1 c) = update t2 c"
proof -
  have m: "min ((t1 - lastFrameTime c) / 1000) 0.1 = (t1 - lastFrameTime c) / 1000"
     "min ((t2 - t1) / 1000) 0.1 = (t2 - t1) / 1000"
     "min ((t2 - lastFrameTime c) / 1000) 0.1 = (t2 - lastFrameTime c) / 1000"
    using assms by simp_all
  show ?thesis
    by (simp add: update_displace displace_move_intent m vadd_def vscale_def algebra_simps
        add_divide_distrib [symmetric])
qed

theorem update_split_witness:
  "let c = new_camera \<lparr>canvas_width = 800, canvas_height = 600, canvas_request_lock = True,
             document_exit_lock = True\<rparr> 0
   in 16 - lastFrameTime c \<le> 100 \<and> (33 :: real) - 16 \<le> 100 \<and> 33 - lastFrameTime c \<le> 100
      \<and> update 33 (update 16 c) = update 33 c"
  unfolding Let_def using update_split [of 16 "new_camera \<lparr>canvas_width = 800, canvas_height = 600,
    canvas_request_lock = True, document_exit_lock = True\<rparr> 0" 33] by simp

text \<open>C13. Strafing follows the view: in a consistent camera holding only \<^verbatim>\<open>d\<close>, a frame
  moves the camera along the first axis of its view matrix, the screen's right. The
  source's variable \<^verbatim>\<open>right\<close> is \<open>worldUp \<times> forward\<close>, the camera's left; adding it
  for \<^verbatim>\<open>a\<close> and subtracting it for \<^verbatim>\<open>d\<close> makes the two mistakes cancel.\<close>

theorem strafe_matches_view:
  assumes "cam_inv c" and "keys c = (\<lambda>k. k = ''d'')"
  shows "position (update now c)
           = vadd (position c) (vscale (moveSpeed c * min ((now - lastFrameTime c) / 1000) 0.1)
                                  (basis_row (viewMatrix c) 0))"
proof -
  have v: "viewMatrix c = look_at (position c) (vadd (position c) (forward_of (yaw c) (pitch c))) world_up"
    using assms(1) by (simp add: cam_inv_def updateViewMatrix_def Let_def)
  have "basis_row (viewMatrix c) 0 = normalize3 (cross3 (forward_of (yaw c) (pitch c)) world_up)"
    unfolding v by (simp add: look_at_def basis_row_def Let_def)
  moreover have "move_intent c = normalize3 (cross3 (forward_of (yaw c) (pitch c)) world_up)"
    using assms(2) by (simp add: move_intent_def vadd_def vneg_def)
  ultimately show ?thesis by (simp add: update_displace displace_move_intent)
qed

theorem strafe_matches_view_witness:
  "let c = (new_camera \<lparr>canvas_width = 800, canvas_height = 600, canvas_request_lock = True,
             document_exit_lock = True\<rparr> 0)\<lparr>keys := \<lambda>k. k = ''d''\<rparr>
   in cam_inv c \<and> keys c = (\<lambda>k. k = ''d'')
      \<and> position (update 16 c)
          = vadd (position c) (vscale (moveSpeed c * min ((16 - lastFrameTime c) / 1000) 0.1)
                                 (basis_row (viewMatrix c) 0))"
proof -
  let ?c = "(new_camera \<lparr>canvas_width = 800, canvas_height = 600, canvas_request_lock = True,
             document_exit_lock = True\<rparr> 0)\<lparr>keys := \<lambda>k. k = ''d''\<rparr>"
  have i: "cam_inv ?c"
    using cam_inv_new_camera [of "\<lparr>canvas_width = 800, canvas_height = 600, canvas_request_lock = True,
             document_exit_lock = True\<rparr>" 0]
    by (simp add: cam_inv_def updateViewMatrix_def Let_def)
  show ?thesis unfolding Let_def using strafe_matches_view [OF i, of 16] i by simp
qed

end
