(* ===== verification/Reflection.thy ===== *)
theory Reflection
  imports Camera
begin

text \<open>
  ReflectionTransform: \<^verbatim>\<open>WebGLApp.calculateReflectionViewMatrix\<close> of
  \<^verbatim>\<open>src/js/main.js\<close>. It reads the camera through \<^verbatim>\<open>getPosition()\<close> and
  \<^verbatim>\<open>getForward()\<close>, mirrors the eye and the look target across the glass plane
  \<open>x = 0\<close> by negating their \<open>x\<close> components, and runs the same look-at
  construction as \<^verbatim>\<open>updateViewMatrix\<close>, written out again in the source
  component by component: \<open>reflection_look_at\<close>, proved equal to the camera's
  \<open>look_at\<close>. \<open>mirror_x\<close> is that reflection of a point and \<open>flip_x4\<close> its
  matrix \<open>diag(-1, 1, 1, 1)\<close>; \<open>flip4\<close> negates the \<open>x\<close> coordinate of a
  homogeneous vector. The main lemma: the mirrored view is the camera's view matrix
  conjugated by the reflection, so the reflection pass renders the mirror image of
  the world, seen from the camera and flipped left to right on screen.
\<close>

text \<open>The look-at code inside \<^verbatim>\<open>calculateReflectionViewMatrix\<close>, array entry by
  array entry (\<^verbatim>\<open>f[0] * f[0]\<close> where \<^verbatim>\<open>updateViewMatrix\<close> writes \<^verbatim>\<open>f[0]**2\<close>).\<close>

definition reflection_look_at :: "vec3 \<Rightarrow> vec3 \<Rightarrow> vec3 \<Rightarrow> mat4" where
  "reflection_look_at eye center up =
     (let f0 = vx center - vx eye; f1 = vy center - vy eye; f2 = vz center - vz eye;
          len = sqrt (f0 * f0 + f1 * f1 + f2 * f2);
          (f0, f1, f2) = (if len > 0.0001 then (f0 / len, f1 / len, f2 / len) else (f0, f1, f2));
          s0 = f1 * vz up - f2 * vy up; s1 = f2 * vx up - f0 * vz up; s2 = f0 * vy up - f1 * vx up;
          slen = sqrt (s0 * s0 + s1 * s1 + s2 * s2);
          (s0, s1, s2) = (if slen > 0.0001 then (s0 / slen, s1 / slen, s2 / slen) else (s0, s1, s2));
          u0 = s1 * f2 - s2 * f1; u1 = s2 * f0 - s0 * f2; u2 = s0 * f1 - s1 * f0
      in [s0, u0, - f0, 0,
          s1, u1, - f1, 0,
          s2, u2, - f2, 0,
          - (s0 * vx eye + s1 * vy eye + s2 * vz eye),
          - (u0 * vx eye + u1 * vy eye + u2 * vz eye),
          f0 * vx eye + f1 * vy eye + f2 * vz eye, 1])"

definition calculateReflectionViewMatrix :: "camera \<Rightarrow> mat4" where
  "calculateReflectionViewMatrix c =
     (let cameraPos = getPosition c;
          cameraFwd = getForward c;
          cameraTarget = vadd cameraPos cameraFwd;
          eye = V3 (- vx cameraPos) (vy cameraPos) (vz cameraPos);
          center = V3 (- vx cameraTarget) (vy cameraTarget) (vz cameraTarget);
          up = V3 0 1 0
      in reflection_look_at eye center up)"

definition mirror_x :: "vec3 \<Rightarrow> vec3" where
  "mirror_x p = V3 (- vx p) (vy p) (vz p)"

definition flip_x4 :: mat4 where
  "flip_x4 = [-1, 0, 0, 0,  0, 1, 0, 0,  0, 0, 1, 0,  0, 0, 0, 1]"

definition flip4 :: "vec4 \<Rightarrow> vec4" where
  "flip4 v = V4 (- wx v) (wy v) (wz v) (ww v)"

subsection \<open>Reflection commutes with the look-at construction\<close>

lemma len3_mirror_x [simp]: "len3 (mirror_x v) = len3 v"
  by (simp add: len3_def mirror_x_def)

lemma len3_vneg [simp]: "len3 (vneg v) = len3 v"
  by (simp add: len3_def vneg_def)

lemma mirror_x_involutive [simp]: "mirror_x (mirror_x p) = p"
  by (simp add: mirror_x_def)

lemma normalize3_mirror_x: "normalize3 (mirror_x v) = mirror_x (normalize3 v)"
  by (simp add: normalize3_def mirror_x_def Let_def len3_def)

lemma vsub_mirror_x: "vsub (mirror_x a) (mirror_x b) = mirror_x (vsub a b)"
  by (simp add: vsub_def mirror_x_def)

lemma cross3_mirror_up: "cross3 (mirror_x a) world_up = vneg (mirror_x (cross3 a world_up))"
  by (simp add: cross3_def mirror_x_def vneg_def world_up_def)

lemma cross3_mirror_pair: "cross3 (vneg (mirror_x s)) (mirror_x f) = mirror_x (cross3 s f)"
  by (simp add: cross3_def mirror_x_def vneg_def algebra_simps)

text \<open>Mirroring eye and target turns the look-at frame \<open>(s, u, f)\<close> into
  \<open>(-M s, M u, M f)\<close> with \<open>M = mirror_x\<close>; entry by entry that is the conjugate
  \<open>flip_x4 * V * flip_x4\<close>. The guards of both normalisations agree on both sides, since
  the reflection keeps lengths.\<close>

lemma look_at_mirror:
  "look_at (mirror_x e) (mirror_x c) world_up
   = multiplyMatrices flip_x4 (multiplyMatrices (look_at e c world_up) flip_x4)"
proof -
  define f where "f = normalize3 (vsub c e)"
  define s where "s = normalize3 (cross3 f world_up)"
  have f': "normalize3 (vsub (mirror_x c) (mirror_x e)) = mirror_x f"
    by (simp add: f_def vsub_mirror_x normalize3_mirror_x)
  have s': "normalize3 (cross3 (mirror_x f) world_up) = vneg (mirror_x s)"
    by (simp add: s_def cross3_mirror_up normalize3_vneg normalize3_mirror_x)
  have u': "cross3 (vneg (mirror_x s)) (mirror_x f) = mirror_x (cross3 s f)"
    by (rule cross3_mirror_pair)
  show ?thesis
    unfolding look_at_def Let_def f' s' u' f_def [symmetric] s_def [symmetric]
    by (simp add: multiplyMatrices_def flip_x4_def mirror_x_def vneg_def Let_def)
qed

lemma reflection_look_at_world_up: "reflection_look_at e c world_up = look_at e c world_up"
  by (simp add: reflection_look_at_def look_at_def normalize3_def len3_def cross3_def vsub_def
      power2_eq_square Let_def split_def)

lemma reflection_as_look_at:
  "calculateReflectionViewMatrix c
   = look_at (mirror_x (position c)) (mirror_x (vadd (position c) (getForward c))) world_up"
  by (simp add: calculateReflectionViewMatrix_def getPosition_def
      reflection_look_at_world_up [unfolded world_up_def] mirror_x_def world_up_def Let_def)

lemma reflection_view_eq:
  "calculateReflectionViewMatrix c
   = multiplyMatrices flip_x4 (multiplyMatrices (viewMatrix (updateViewMatrix c)) flip_x4)"
  by (simp add: reflection_as_look_at look_at_mirror updateViewMatrix_def getForward_def Let_def)

lemma flip_x4_apply: "mat4_apply flip_x4 v = flip4 v"
  by (simp add: mat4_apply_def flip_x4_def flip4_def)

lemma flip4_point: "flip4 (point4 p) = point4 (mirror_x p)"
  by (simp add: flip4_def point4_def mirror_x_def)

subsection \<open>Properties\<close>

text \<open>C2. In every camera state satisfying the invariant, the reflection view matrix is
  the camera's stored view matrix conjugated by the mirror \<open>x \<mapsto> -x\<close>: it sends each
  world point \<open>p\<close> to where the camera's view sends the mirror image of \<open>p\<close>, with the
  screen \<open>x\<close> axis flipped. The reflection pass therefore renders the scene as seen in
  the plane \<open>x = 0\<close>.\<close>

theorem reflection_view_mirror_image:
  assumes "cam_inv c"
  shows "calculateReflectionViewMatrix c = multiplyMatrices flip_x4 (multiplyMatrices (viewMatrix c) flip_x4)
         \<and> (\<forall>p. mat4_apply (calculateReflectionViewMatrix c) (point4 p)
                 = flip4 (mat4_apply (viewMatrix c) (point4 (mirror_x p))))"
proof -
  from assms have v: "viewMatrix (updateViewMatrix c) = viewMatrix c" by (simp add: cam_inv_def)
  have eq: "calculateReflectionViewMatrix c = multiplyMatrices flip_x4 (multiplyMatrices (viewMatrix c) flip_x4)"
    using reflection_view_eq [of c] v by simp
  show ?thesis
    using eq by (simp add: flip_x4_apply flip4_point)
qed

theorem reflection_view_mirror_image_witness:
  "let c = new_camera \<lparr>canvas_width = 800, canvas_height = 600, canvas_request_lock = True,
             document_exit_lock = True\<rparr> 0
   in cam_inv c \<and> calculateReflectionViewMatrix c
        = multiplyMatrices flip_x4 (multiplyMatrices (viewMatrix c) flip_x4)"
  unfolding Let_def using reflection_view_mirror_image [OF cam_inv_new_camera] cam_inv_new_camera
  by simp

text \<open>C15. The two copies of the look-at code agree: the one written out entry by entry
  in \<^verbatim>\<open>calculateReflectionViewMatrix\<close> computes, for every eye, target and up
  vector, the matrix of the one in \<^verbatim>\<open>updateViewMatrix\<close>, guards included.\<close>

theorem reflection_look_at_equiv: "reflection_look_at e c up = look_at e c up"
  by (simp add: reflection_look_at_def look_at_def normalize3_def len3_def cross3_def vsub_def
      power2_eq_square Let_def split_def)

text \<open>The eye of the reflection camera is the mirror image \<open>(-x, y, z)\<close> of the
  camera position \<open>(x, y, z)\<close>: the reflection view sends that point to the origin of
  eye space. Mirroring it again gives the camera position back.\<close>

lemma reflection_eye:
  "mat4_apply (calculateReflectionViewMatrix c) (point4 (V3 (- vx (position c)) (vy (position c)) (vz (position c))))
     = V4 0 0 0 1
   \<and> mirror_x (V3 (- vx (position c)) (vy (position c)) (vz (position c))) = position c"
  by (simp add: reflection_as_look_at look_at_def mat4_apply_def point4_def mirror_x_def Let_def)

end
