(* ===== verification/Input.thy ===== *)
theory Input
  imports Camera
begin

text \<open>
  InputModeStateMachine: the DOM listeners that \<^verbatim>\<open>FlybyCamera.setupEventListeners\<close>
  and \<^verbatim>\<open>FlybyCamera.setupFallbackMouseControls\<close> (\<^verbatim>\<open>src/js/camera.js\<close>) register.
  An event of the browser is a value of \<open>input_event\<close>; \<open>camera_event\<close> runs every
  listener registered for it, in registration order, and returns the new camera and
  the pointer-lock requests the listeners issued (\<open>effect\<close>). The outcome of
  \<^verbatim>\<open>requestPointerLock()\<close> on a click is part of the click event: the promise
  resolves (the lock arrives later as a \<^verbatim>\<open>pointerlockchange\<close> event), rejects
  (the \<^verbatim>\<open>catch\<close> installs the fallback listeners), or the legacy API returns
  \<^verbatim>\<open>undefined\<close> and \<^verbatim>\<open>.catch\<close> throws a \<^verbatim>\<open>TypeError\<close> (\<open>Inl\<close>). A listener that
  throws is abandoned by the browser, which goes on with the next event.

  Every call of \<^verbatim>\<open>setupFallbackMouseControls\<close> adds three listeners with their own
  closure state \<^verbatim>\<open>isMouseDown\<close>, \<^verbatim>\<open>lastX\<close>, \<^verbatim>\<open>lastY\<close>: one element of
  \<open>fallback_listeners\<close>. Nothing removes them. \<open>camera_events\<close> delivers a
  sequence of events, for the round-trip and progress lemmas.
\<close>

datatype lock_outcome = LockResolves | LockRejects | LockReturnsUndefined

datatype input_event =
    KeyDown string
  | KeyUp string
  | PointerLockChange bool
  | MouseMove real real real real
  | CanvasMouseDown real real
  | MouseUp
  | CanvasClick lock_outcome
  | CanvasWheel real

datatype effect = RequestPointerLock | ExitPointerLock

datatype js_error = TypeError

text \<open>\<^verbatim>\<open>String.prototype.toLowerCase\<close> on the ASCII letters (the key names the code
  compares against are ASCII).\<close>

definition lower_char :: "char \<Rightarrow> char" where
  "lower_char c = (let n = (of_char c :: nat) in if 65 \<le> n \<and> n \<le> 90 then char_of (n + 32) else c)"

definition toLowerCase :: "string \<Rightarrow> string" where
  "toLowerCase s = map lower_char s"

text \<open>The first \<^verbatim>\<open>keydown\<close> listener: record the key, and ask for the pointer lock on
  space or \<^verbatim>\<open>w\<close> (the returned promise is not observed).\<close>

definition keydown_keys :: "string \<Rightarrow> camera \<Rightarrow> camera \<times> effect list" where
  "keydown_keys key c =
     (let c = c\<lparr>keys := (keys c)(toLowerCase key := True)\<rparr>
      in if key = '' '' \<or> toLowerCase key = ''w''
         then (c, if canvas_request_lock (dom c) then [RequestPointerLock] else [])
         else (c, []))"

definition keydown_escape :: "string \<Rightarrow> camera \<Rightarrow> effect list" where
  "keydown_escape key c =
     (if key = ''Escape'' \<and> document_exit_lock (dom c) then [ExitPointerLock] else [])"

definition keyup :: "string \<Rightarrow> camera \<Rightarrow> camera" where
  "keyup key c = c\<lparr>keys := (keys c)(toLowerCase key := False)\<rparr>"

definition pointerlockchange :: "bool \<Rightarrow> camera \<Rightarrow> camera" where
  "pointerlockchange lockedToCanvas c = c\<lparr>isPointerLocked := lockedToCanvas\<rparr>"

definition locked_mousemove :: "real \<Rightarrow> real \<Rightarrow> camera \<Rightarrow> camera" where
  "locked_mousemove movementX movementY c =
     (if isPointerLocked c then look_delta movementX movementY c else c)"

definition setupFallbackMouseControls :: "camera \<Rightarrow> camera" where
  "setupFallbackMouseControls c =
     c\<lparr>fallback_listeners := fallback_listeners c @ [\<lparr>isMouseDown = False, lastX = 0, lastY = 0\<rparr>]\<rparr>"

definition fallback_mousedown :: "real \<Rightarrow> real \<Rightarrow> fallback_listener \<Rightarrow> fallback_listener" where
  "fallback_mousedown clientX clientY l = l\<lparr>isMouseDown := True, lastX := clientX, lastY := clientY\<rparr>"

definition fallback_mouseup :: "fallback_listener \<Rightarrow> fallback_listener" where
  "fallback_mouseup l = l\<lparr>isMouseDown := False\<rparr>"

definition fallback_mousemove ::
  "real \<Rightarrow> real \<Rightarrow> fallback_listener \<Rightarrow> camera \<Rightarrow> fallback_listener \<times> camera" where
  "fallback_mousemove clientX clientY l c =
     (if isMouseDown l \<and> \<not> isPointerLocked c
      then (let deltaX = clientX - lastX l; deltaY = clientY - lastY l
            in (l\<lparr>lastX := clientX, lastY := clientY\<rparr>, look_delta deltaX deltaY c))
      else (l, c))"

text \<open>The fallback \<^verbatim>\<open>mousemove\<close> listeners in registration order, each seeing the
  camera the previous one left.\<close>

fun fallback_mousemoves ::
  "real \<Rightarrow> real \<Rightarrow> fallback_listener list \<Rightarrow> camera \<Rightarrow> fallback_listener list \<times> camera" where
  "fallback_mousemoves clientX clientY [] c = ([], c)"
| "fallback_mousemoves clientX clientY (l # ls) c =
     (let (l', c') = fallback_mousemove clientX clientY l c;
          (ls', c'') = fallback_mousemoves clientX clientY ls c'
      in (l' # ls', c''))"

definition mousemove :: "real \<Rightarrow> real \<Rightarrow> real \<Rightarrow> real \<Rightarrow> camera \<Rightarrow> camera" where
  "mousemove movementX movementY clientX clientY c =
     (let c = locked_mousemove movementX movementY c;
          (ls, c) = fallback_mousemoves clientX clientY (fallback_listeners c) c
      in c\<lparr>fallback_listeners := ls\<rparr>)"

definition canvas_click :: "lock_outcome \<Rightarrow> camera \<Rightarrow> js_error + camera \<times> effect list" where
  "canvas_click outcome c =
     (if canvas_request_lock (dom c)
      then (case outcome of
              LockResolves \<Rightarrow> Inr (c, [RequestPointerLock])
            | LockRejects \<Rightarrow> Inr (setupFallbackMouseControls c, [RequestPointerLock])
            | LockReturnsUndefined \<Rightarrow> Inl TypeError)
      else Inr (setupFallbackMouseControls c, []))"

text \<open>One browser event through every camera listener registered for it. A listener
  that throws leaves the state as it was before it ran; the click listener can only
  throw after its \<^verbatim>\<open>requestPointerLock()\<close> call has been issued.\<close>

fun camera_event :: "input_event \<Rightarrow> camera \<Rightarrow> camera \<times> effect list" where
  "camera_event (KeyDown key) c =
     (let (c', es) = keydown_keys key c in (c', es @ keydown_escape key c'))"
| "camera_event (KeyUp key) c = (keyup key c, [])"
| "camera_event (PointerLockChange b) c = (pointerlockchange b c, [])"
| "camera_event (MouseMove mx my cx cy) c = (mousemove mx my cx cy c, [])"
| "camera_event (CanvasMouseDown x y) c =
     (c\<lparr>fallback_listeners := map (fallback_mousedown x y) (fallback_listeners c)\<rparr>, [])"
| "camera_event MouseUp c = (c\<lparr>fallback_listeners := map fallback_mouseup (fallback_listeners c)\<rparr>, [])"
| "camera_event (CanvasClick r) c =
     (case canvas_click r c of Inl _ \<Rightarrow> (c, [RequestPointerLock]) | Inr ce \<Rightarrow> ce)"
| "camera_event (CanvasWheel deltaY) c = (wheel deltaY c, [])"

text \<open>The input mode of the specification, read off the state: \<open>Locked\<close> while the
  lock is held, \<open>Fallback\<close> once a fallback listener exists, \<open>NoLook\<close> before either.\<close>

datatype input_mode = Locked | Fallback | NoLook

definition input_mode :: "camera \<Rightarrow> input_mode" where
  "input_mode c =
     (if isPointerLocked c then Locked else if fallback_listeners c \<noteq> [] then Fallback else NoLook)"

text \<open>A sequence of browser events delivered one after the other, each through every
  camera listener registered for it (the effects the listeners issue are dropped).\<close>

fun camera_events :: "input_event list \<Rightarrow> camera \<Rightarrow> camera" where
  "camera_events [] c = c"
| "camera_events (e # es) c = camera_events es (fst (camera_event e c))"

text \<open>The camera states the application can reach: the constructor, then any
  sequence of listener runs, frame updates, resets and resizes (the calls
  \<^verbatim>\<open>src/js/main.js\<close> makes on the camera).\<close>

inductive cam_reachable :: "camera \<Rightarrow> bool" where
  init: "cam_reachable (new_camera d now)"
| event: "cam_reachable c \<Longrightarrow> cam_reachable (fst (camera_event e c))"
| frame: "cam_reachable c \<Longrightarrow> cam_reachable (update now c)"
| reset: "cam_reachable c \<Longrightarrow> cam_reachable (reset now c)"
| resize: "cam_reachable c \<Longrightarrow>
     cam_reachable (updateProjectionMatrix (c\<lparr>dom := (dom c)\<lparr>canvas_width := w, canvas_height := h\<rparr>\<rparr>))"

subsection \<open>Frame lemmas and the invariant\<close>

lemma cam_inv_fallback_update [simp]:
  "cam_inv (c\<lparr>fallback_listeners := ls\<rparr>) = cam_inv c"
  by (simp add: cam_inv_def updateViewMatrix_def Let_def)

lemma cam_inv_keys_update [simp]: "cam_inv (c\<lparr>keys := k\<rparr>) = cam_inv c"
  by (simp add: cam_inv_def updateViewMatrix_def Let_def)

lemma cam_inv_lock_update [simp]: "cam_inv (c\<lparr>isPointerLocked := b\<rparr>) = cam_inv c"
  by (simp add: cam_inv_def updateViewMatrix_def Let_def)

lemma fallback_mousemoves_inv:
  "cam_inv c \<Longrightarrow> cam_inv (snd (fallback_mousemoves x y ls c))"
proof (induction ls arbitrary: c)
  case Nil
  then show ?case by simp
next
  case (Cons l ls)
  have "cam_inv (snd (fallback_mousemove x y l c))"
    using Cons.prems by (simp add: fallback_mousemove_def Let_def cam_inv_look_delta)
  then show ?case using Cons.IH by (simp add: split_def Let_def)
qed

lemma fallback_mousemoves_length:
  "length (fst (fallback_mousemoves x y ls c)) = length ls"
  by (induction ls arbitrary: c) (simp_all add: split_def Let_def)

lemma cam_inv_camera_event: "cam_inv c \<Longrightarrow> cam_inv (fst (camera_event e c))"
proof (cases e)
  case (MouseMove mx my cx cy)
  assume "cam_inv c"
  then have "cam_inv (locked_mousemove mx my c)"
    by (simp add: locked_mousemove_def cam_inv_look_delta)
  then show ?thesis using MouseMove
    by (simp add: mousemove_def split_def Let_def fallback_mousemoves_inv)
next
  case (CanvasClick r)
  assume "cam_inv c"
  then show ?thesis using CanvasClick
    by (auto simp: canvas_click_def setupFallbackMouseControls_def split: lock_outcome.splits sum.splits)
qed (simp_all add: keydown_keys_def keyup_def pointerlockchange_def cam_inv_wheel Let_def split_def)

lemma cam_inv_resize:
  "cam_inv c \<Longrightarrow> cam_inv (updateProjectionMatrix (c\<lparr>dom := d\<rparr>))"
  by (rule cam_inv_updateProjectionMatrix) (simp add: cam_inv_def updateViewMatrix_def Let_def)

text \<open>C1. Every camera state the application can reach satisfies the camera invariant:
  pitch in \<open>[-89, 89]\<close>, move speed in \<open>[0.5, 20]\<close>, sensitivity \<open>0.1\<close>, and a view matrix
  equal to the one \<^verbatim>\<open>updateViewMatrix\<close> computes from the current position and
  orientation, whatever events, frames, resets and resizes came before.\<close>

theorem reachable_cam_inv: "cam_reachable c \<Longrightarrow> cam_inv c"
proof (induction rule: cam_reachable.induct)
  case (init d now)
  show ?case by (rule cam_inv_new_camera)
next
  case (event c e)
  from event.IH show ?case by (rule cam_inv_camera_event)
next
  case (frame c now)
  from frame.IH show ?case by (rule cam_inv_update)
next
  case (reset c now)
  from reset.IH show ?case by (rule cam_inv_reset)
next
  case (resize c w h)
  from resize.IH show ?case by (rule cam_inv_resize)
qed

theorem reachable_cam_inv_witness:
  "let c = fst (camera_event (CanvasWheel 300) (new_camera \<lparr>canvas_width = 800, canvas_height = 600,
             canvas_request_lock = True, document_exit_lock = True\<rparr> 0))
   in cam_reachable c \<and> cam_inv c"
proof -
  let ?c = "fst (camera_event (CanvasWheel 300) (new_camera \<lparr>canvas_width = 800, canvas_height = 600,
             canvas_request_lock = True, document_exit_lock = True\<rparr> 0))"
  have r: "cam_reachable ?c" by (rule cam_reachable.event [OF cam_reachable.init])
  show ?thesis unfolding Let_def using r reachable_cam_inv [OF r] by simp
qed

subsection \<open>Look steps\<close>

lemma yaw_look_delta [simp]: "yaw (look_delta dx dy c) = yaw c + dx * rotationSpeed c"
  by (simp add: look_delta_def Let_def)
lemma rs_look_delta [simp]: "rotationSpeed (look_delta dx dy c) = rotationSpeed c"
  by (simp add: look_delta_def Let_def)
lemma lock_look_delta [simp]: "isPointerLocked (look_delta dx dy c) = isPointerLocked c"
  by (simp add: look_delta_def Let_def)

lemma fallback_moves_replicate:
  assumes "\<not> isPointerLocked c"
  shows "yaw (snd (fallback_mousemoves (x0 + dx) y0
                  (replicate n \<lparr>isMouseDown = True, lastX = x0, lastY = y0\<rparr>) c))
         = yaw c + real n * (dx * rotationSpeed c)"
  using assms
proof (induction n arbitrary: c)
  case 0
  then show ?case by simp
next
  case (Suc n)
  let ?c' = "look_delta dx (y0 - y0) c"
  have "\<not> isPointerLocked ?c'" using Suc.prems by simp
  then have "yaw (snd (fallback_mousemoves (x0 + dx) y0
                  (replicate n \<lparr>isMouseDown = True, lastX = x0, lastY = y0\<rparr>) ?c'))
         = yaw ?c' + real n * (dx * rotationSpeed ?c')" by (rule Suc.IH)
  then show ?case using Suc.prems
    by (simp add: fallback_mousemove_def Let_def split_def algebra_simps)
qed

text \<open>C22. With \<open>n\<close> fallback registrations holding the button down at the same point,
  one pointer move of \<open>dx\<close> pixels turns the camera by \<open>n\<close> times the single-step yaw:
  each failed lock request adds another set of drag listeners, and they all apply the
  same delta.\<close>

theorem fallback_look_multiplied:
  assumes "\<not> isPointerLocked c"
    and "fallback_listeners c = replicate n \<lparr>isMouseDown = True, lastX = x0, lastY = y0\<rparr>"
  shows "yaw (fst (camera_event (MouseMove mx my (x0 + dx) y0) c)) = yaw c + real n * (dx * rotationSpeed c)"
  using assms fallback_moves_replicate [OF assms(1)]
  by (simp add: mousemove_def locked_mousemove_def Let_def split_def)

theorem fallback_look_multiplied_witness:
  "let c0 = new_camera \<lparr>canvas_width = 800, canvas_height = 600, canvas_request_lock = True,
              document_exit_lock = True\<rparr> 0;
       c1 = fst (camera_event (CanvasMouseDown 100 50)
              (fst (camera_event (CanvasClick LockRejects) (fst (camera_event (CanvasClick LockRejects) c0)))))
   in \<not> isPointerLocked c1 \<and> fallback_listeners c1 = replicate 2 \<lparr>isMouseDown = True, lastX = 100, lastY = 50\<rparr>
      \<and> yaw (fst (camera_event (MouseMove 0 0 (100 + 10) 50) c1)) = -90 + 2 * (10 * 0.1)"
proof -
  let ?c0 = "new_camera \<lparr>canvas_width = 800, canvas_height = 600, canvas_request_lock = True,
              document_exit_lock = True\<rparr> 0"
  let ?c1 = "fst (camera_event (CanvasMouseDown 100 50)
              (fst (camera_event (CanvasClick LockRejects) (fst (camera_event (CanvasClick LockRejects) ?c0)))))"
  have l: "\<not> isPointerLocked ?c1"
    by (simp add: canvas_click_def setupFallbackMouseControls_def)
  have f: "fallback_listeners ?c1 = replicate 2 \<lparr>isMouseDown = True, lastX = 100, lastY = 50\<rparr>"
    by (simp add: canvas_click_def setupFallbackMouseControls_def fallback_mousedown_def numeral_2_eq_2)
  have y: "yaw ?c1 = -90" "rotationSpeed ?c1 = 0.1"
    by (simp_all add: canvas_click_def setupFallbackMouseControls_def)
  show ?thesis unfolding Let_def
    using l f fallback_look_multiplied [OF l f, of 0 0 10] y by simp
qed
subsection \<open>Pointer modes\<close>

lemma fallback_mousemoves_locked:
  "isPointerLocked c \<Longrightarrow> fallback_mousemoves x y ls c = (ls, c)"
  by (induction ls) (simp_all add: fallback_mousemove_def)

lemma fallback_mousemoves_released:
  "\<forall>l \<in> set ls. \<not> isMouseDown l \<Longrightarrow> fallback_mousemoves x y ls c = (ls, c)"
  by (induction ls) (simp_all add: fallback_mousemove_def)

lemma fallback_listeners_look_delta [simp]:
  "fallback_listeners (look_delta dx dy c) = fallback_listeners c"
  by (simp add: look_delta_def Let_def)

lemma length_fallback_camera_event:
  "length (fallback_listeners c) \<le> length (fallback_listeners (fst (camera_event e c)))"
proof (cases e)
  case (MouseMove mx my cx cy)
  then show ?thesis
    by (simp add: mousemove_def locked_mousemove_def split_def Let_def fallback_mousemoves_length)
next
  case (CanvasClick r)
  then show ?thesis
    by (auto simp: canvas_click_def setupFallbackMouseControls_def split: lock_outcome.splits sum.splits)
qed (simp_all add: keydown_keys_def keyup_def pointerlockchange_def wheel_def Let_def split_def)

text \<open>C30. While the pointer is locked, a pointer move turns the camera by exactly one
  look step with the event's relative movement, and no fallback listener reacts.\<close>

theorem locked_mousemove_exact:
  assumes "isPointerLocked c"
  shows "camera_event (MouseMove mx my cx cy) c = (look_delta mx my c, [])"
proof -
  have "isPointerLocked (look_delta mx my c)" using assms by simp
  then show ?thesis using assms
    by (simp add: mousemove_def locked_mousemove_def fallback_mousemoves_locked)
qed

theorem locked_mousemove_exact_witness:
  "let c = pointerlockchange True (new_camera \<lparr>canvas_width = 800, canvas_height = 600,
             canvas_request_lock = True, document_exit_lock = True\<rparr> 0)
   in isPointerLocked c \<and> camera_event (MouseMove 5 (-3) 0 0) c = (look_delta 5 (-3) c, [])"
proof -
  let ?c = "pointerlockchange True (new_camera \<lparr>canvas_width = 800, canvas_height = 600,
             canvas_request_lock = True, document_exit_lock = True\<rparr> 0)"
  have l: "isPointerLocked ?c" by (simp add: pointerlockchange_def)
  show ?thesis unfolding Let_def using l locked_mousemove_exact [OF l] by simp
qed

text \<open>C31. Without the lock and with the button released in every fallback listener,
  pointer motion changes nothing.\<close>

theorem released_mousemove_ignored:
  assumes "\<not> isPointerLocked c" and "\<forall>l \<in> set (fallback_listeners c). \<not> isMouseDown l"
  shows "camera_event (MouseMove mx my cx cy) c = (c, [])"
  using assms by (simp add: mousemove_def locked_mousemove_def fallback_mousemoves_released)

theorem released_mousemove_ignored_witness:
  "let c = fst (camera_event MouseUp (setupFallbackMouseControls (new_camera
             \<lparr>canvas_width = 800, canvas_height = 600, canvas_request_lock = False,
              document_exit_lock = False\<rparr> 0)))
   in \<not> isPointerLocked c \<and> (\<forall>l \<in> set (fallback_listeners c). \<not> isMouseDown l)
      \<and> camera_event (MouseMove 7 7 40 40) c = (c, [])"
proof -
  let ?c = "fst (camera_event MouseUp (setupFallbackMouseControls (new_camera
             \<lparr>canvas_width = 800, canvas_height = 600, canvas_request_lock = False,
              document_exit_lock = False\<rparr> 0)))"
  have a: "\<not> isPointerLocked ?c" by (simp add: setupFallbackMouseControls_def)
  have b: "\<forall>l \<in> set (fallback_listeners ?c). \<not> isMouseDown l"
    by (simp add: setupFallbackMouseControls_def fallback_mouseup_def)
  show ?thesis unfolding Let_def using a b released_mousemove_ignored [OF a b] by simp
qed

text \<open>C32. Fallback control, once installed, persists: no event removes a fallback
  listener, so the number of registrations never decreases.\<close>

theorem fallback_persists:
  "length (fallback_listeners c) \<le> length (fallback_listeners (fst (camera_event e c)))
   \<and> (fallback_listeners c \<noteq> [] \<longrightarrow> fallback_listeners (fst (camera_event e c)) \<noteq> [])"
  using length_fallback_camera_event [of c e] by auto

theorem fallback_persists_witness:
  "let c = setupFallbackMouseControls (new_camera \<lparr>canvas_width = 800, canvas_height = 600,
             canvas_request_lock = False, document_exit_lock = False\<rparr> 0)
   in fallback_listeners c \<noteq> [] \<and> fallback_listeners (fst (camera_event (PointerLockChange True) c)) \<noteq> []"
proof -
  let ?c = "setupFallbackMouseControls (new_camera \<lparr>canvas_width = 800, canvas_height = 600,
             canvas_request_lock = False, document_exit_lock = False\<rparr> 0)"
  have n: "fallback_listeners ?c \<noteq> []" by (simp add: setupFallbackMouseControls_def)
  show ?thesis unfolding Let_def using n fallback_persists [of ?c "PointerLockChange True"] by simp
qed

lemma fallback_mousemoves_dom:
  "dom (snd (fallback_mousemoves x y ls c)) = dom c"
  by (induction ls arbitrary: c) (simp_all add: fallback_mousemove_def look_delta_def split_def Let_def)

lemma camera_event_dom [simp]: "dom (fst (camera_event e c)) = dom c"
  by (cases e) (simp_all add: keydown_keys_def keyup_def pointerlockchange_def mousemove_def
      locked_mousemove_def fallback_mousemoves_dom look_delta_def wheel_def canvas_click_def
      setupFallbackMouseControls_def Let_def split_def split: lock_outcome.splits sum.splits)

lemma legacy_event_length:
  assumes "canvas_request_lock (dom c)" "e \<noteq> CanvasClick LockResolves" "e \<noteq> CanvasClick LockRejects"
  shows "length (fallback_listeners (fst (camera_event e c))) = length (fallback_listeners c)"
proof (cases e)
  case (CanvasClick r)
  then show ?thesis using assms by (cases r) (simp_all add: canvas_click_def)
qed (simp_all add: keydown_keys_def keyup_def pointerlockchange_def mousemove_def locked_mousemove_def
      fallback_mousemoves_length wheel_def Let_def split_def)

lemma unlocked_event_no_look:
  assumes "fallback_listeners c = []" "\<not> isPointerLocked c"
    and "\<forall>r. e \<noteq> CanvasClick r" "e \<noteq> PointerLockChange True"
  shows "fallback_listeners (fst (camera_event e c)) = [] \<and> \<not> isPointerLocked (fst (camera_event e c))
    \<and> yaw (fst (camera_event e c)) = yaw c \<and> pitch (fst (camera_event e c)) = pitch c"
  using assms
  by (cases e) (simp_all add: keydown_keys_def keyup_def pointerlockchange_def mousemove_def
      locked_mousemove_def wheel_def Let_def split_def)

text \<open>C23. On a browser whose lock request returns \<^verbatim>\<open>undefined\<close> (the prefixed
  legacy API), every click throws a \<^verbatim>\<open>TypeError\<close> at \<^verbatim>\<open>.catch\<close> before the
  fallback could be installed: whatever sequence of events arrives, no fallback listener
  is ever added.\<close>

theorem legacy_api_never_falls_back:
  assumes "canvas_request_lock (dom c)"
    and "\<forall>e \<in> set es. e \<noteq> CanvasClick LockResolves \<and> e \<noteq> CanvasClick LockRejects"
  shows "length (fallback_listeners (camera_events es c)) = length (fallback_listeners c)"
  using assms
proof (induction es arbitrary: c)
  case (Cons e es)
  then show ?case using legacy_event_length [of c e] by simp
qed simp

theorem legacy_api_never_falls_back_witness:
  "let c = new_camera \<lparr>canvas_width = 800, canvas_height = 600, canvas_request_lock = True,
             document_exit_lock = True\<rparr> 0
   in canvas_request_lock (dom c)
      \<and> length (fallback_listeners (camera_events [CanvasClick LockReturnsUndefined, MouseMove 3 4 5 6,
           CanvasClick LockReturnsUndefined] c)) = length (fallback_listeners c)"
  unfolding Let_def
  using legacy_api_never_falls_back [of "new_camera \<lparr>canvas_width = 800, canvas_height = 600,
      canvas_request_lock = True, document_exit_lock = True\<rparr> 0"
      "[CanvasClick LockReturnsUndefined, MouseMove 3 4 5 6, CanvasClick LockReturnsUndefined]"]
  by simp

text \<open>C24. Losing the lock does not fall back to click-and-drag: from any camera state
  without fallback listeners, once the lock is lost, no sequence of events without a
  click or a new lock turns the camera (drags included), and the mode stays
  \<open>NoLook\<close>.\<close>

theorem lock_loss_without_fallback:
  assumes "fallback_listeners c = []"
    and "\<forall>e \<in> set es. (\<forall>r. e \<noteq> CanvasClick r) \<and> e \<noteq> PointerLockChange True"
  shows "input_mode (camera_events (PointerLockChange False # es) c) = NoLook
    \<and> yaw (camera_events (PointerLockChange False # es) c) = yaw c
    \<and> pitch (camera_events (PointerLockChange False # es) c) = pitch c"
proof -
  have "fallback_listeners (camera_events es d) = [] \<and> \<not> isPointerLocked (camera_events es d)
      \<and> yaw (camera_events es d) = yaw d \<and> pitch (camera_events es d) = pitch d"
    if "fallback_listeners d = []" "\<not> isPointerLocked d" for d
    using that assms(2)
  proof (induction es arbitrary: d)
    case (Cons e es)
    then show ?case using unlocked_event_no_look [of d e] by simp
  qed simp
  then show ?thesis using assms(1) by (simp add: pointerlockchange_def input_mode_def)
qed

theorem lock_loss_without_fallback_witness:
  "let c = (new_camera \<lparr>canvas_width = 800, canvas_height = 600, canvas_request_lock = True,
             document_exit_lock = True\<rparr> 0)\<lparr>isPointerLocked := True\<rparr>
   in fallback_listeners c = []
      \<and> input_mode (camera_events [PointerLockChange False, CanvasMouseDown 100 100, MouseMove 30 0 130 100] c)
          = NoLook
      \<and> yaw (camera_events [PointerLockChange False, CanvasMouseDown 100 100, MouseMove 30 0 130 100] c)
          = yaw c"
  unfolding Let_def
  using lock_loss_without_fallback [of "(new_camera \<lparr>canvas_width = 800, canvas_height = 600,
      canvas_request_lock = True, document_exit_lock = True\<rparr> 0)\<lparr>isPointerLocked := True\<rparr>"
      "[CanvasMouseDown 100 100, MouseMove 30 0 130 100]"]
  by simp


subsection \<open>Round trips and progress of the input handlers\<close>

lemma fst_keydown_keys: "fst (keydown_keys k c) = c\<lparr>keys := (keys c)(toLowerCase k := True)\<rparr>"
  by (simp add: keydown_keys_def Let_def)

text \<open>C33. Pressing a key that is not held and releasing it, reported in either case
  (\<^verbatim>\<open>e.key\<close> is \<^verbatim>\<open>W\<close> with Shift and \<^verbatim>\<open>w\<close> without), gives back the camera
  state as it was: both listeners index \<^verbatim>\<open>this.keys\<close> by \<^verbatim>\<open>e.key.toLowerCase()\<close>.\<close>

theorem key_press_release_roundtrip:
  assumes "\<not> keys c (toLowerCase k)" and "toLowerCase k' = toLowerCase k"
  shows "camera_events [KeyDown k, KeyUp k'] c = c"
proof -
  have "((keys c)(toLowerCase k := True))(toLowerCase k := False) = keys c"
    using assms(1) by (simp add: fun_upd_idem)
  then show ?thesis using assms(2) by (simp add: split_def fst_keydown_keys keyup_def)
qed

theorem key_press_release_roundtrip_witness:
  "let c = new_camera \<lparr>canvas_width = 800, canvas_height = 600, canvas_request_lock = True,
             document_exit_lock = True\<rparr> 0
   in \<not> keys c (toLowerCase ''W'') \<and> toLowerCase ''w'' = toLowerCase ''W''
      \<and> camera_events [KeyDown ''W'', KeyUp ''w''] c = c"
proof -
  have h: "toLowerCase ''w'' = toLowerCase ''W''" by code_simp
  show ?thesis unfolding Let_def
    using key_press_release_roundtrip [OF _ h] h by simp
qed

text \<open>C34. Look control is always one click away with a standard pointer-lock API: if
  the browser rejects the request, the click itself installs the drag controls
  (\<open>Fallback\<close>, or \<open>Locked\<close> if the lock was already held); if it grants it, the
  following \<^verbatim>\<open>pointerlockchange\<close> puts the camera in \<open>Locked\<close>; without any lock
  API the click installs the drag controls. Only the legacy API that returns
  \<^verbatim>\<open>undefined\<close> leaves the mode as it was.\<close>

theorem look_control_live:
  "input_mode (camera_events [CanvasClick LockRejects] c) \<noteq> NoLook
   \<and> input_mode (camera_events [CanvasClick LockResolves, PointerLockChange True] c) = Locked
   \<and> input_mode (camera_events [CanvasClick LockReturnsUndefined] c)
       = (if canvas_request_lock (dom c) then input_mode c else if isPointerLocked c then Locked else Fallback)"
  by (simp add: input_mode_def canvas_click_def setupFallbackMouseControls_def pointerlockchange_def
      split: lock_outcome.splits)

end
