(* ===== verification/Geometry.thy ===== *)
theory Geometry
  imports MatrixMath
begin

text \<open>
  Mesh generation, \<^verbatim>\<open>src/js/geometry.js\<close>. A mesh is the object the functions
  return: flat position, normal and texture-coordinate arrays (\<^verbatim>\<open>Float32Array\<close>,
  here exact reals) and an index array. The index array is a \<^verbatim>\<open>Uint16Array\<close>:
  \<^verbatim>\<open>new Uint16Array(indices)\<close> stores each number modulo \<open>2\<^sup>1\<^sup>6\<close>, which is
  \<open>word_of_nat\<close> into \<open>16 word\<close>. \<open>createSphere\<close>'s two nested loops are the
  recursive functions \<open>sphere_vertex_loop\<close> (\<open>lat, lon \<le> segments\<close>) and
  \<open>sphere_index_loop\<close> (\<open>lat, lon < segments\<close>), which carry the counters and the
  arrays the loop bodies push to; they are proved total and equal to the nested
  \<open>concat (map \<dots>)\<close> of \<open>sphere_mesh_ref\<close>, over which the mesh lemmas are proved. \<open>vertex_at a i\<close> reads the
  \<open>i\<close>-th 3-vector of a flat array, as \<^verbatim>\<open>vertexAttribPointer(loc, 3, FLOAT, ...)\<close>
  makes WebGL read it.
\<close>

record mesh =
  positions :: "real list"
  normals :: "real list"
  texCoords :: "real list"
  indices :: "16 word list"

definition createCube :: mesh where
  "createCube =
     \<lparr>positions =
        [-1, -1,  1,   1, -1,  1,   1,  1,  1,  -1,  1,  1,
         -1, -1, -1,  -1,  1, -1,   1,  1, -1,   1, -1, -1,
         -1,  1, -1,  -1,  1,  1,   1,  1,  1,   1,  1, -1,
         -1, -1, -1,   1, -1, -1,   1, -1,  1,  -1, -1,  1,
          1, -1, -1,   1,  1, -1,   1,  1,  1,   1, -1,  1,
         -1, -1, -1,  -1, -1,  1,  -1,  1,  1,  -1,  1, -1],
      normals =
        [ 0,  0,  1,   0,  0,  1,   0,  0,  1,   0,  0,  1,
          0,  0, -1,   0,  0, -1,   0,  0, -1,   0,  0, -1,
          0,  1,  0,   0,  1,  0,   0,  1,  0,   0,  1,  0,
          0, -1,  0,   0, -1,  0,   0, -1,  0,   0, -1,  0,
          1,  0,  0,   1,  0,  0,   1,  0,  0,   1,  0,  0,
         -1,  0,  0,  -1,  0,  0,  -1,  0,  0,  -1,  0,  0],
      texCoords =
        [0, 0,  1, 0,  1, 1,  0, 1,
         1, 0,  1, 1,  0, 1,  0, 0,
         0, 1,  0, 0,  1, 0,  1, 1,
         1, 1,  0, 1,  0, 0,  1, 0,
         1, 0,  1, 1,  0, 1,  0, 0,
         0, 0,  1, 0,  1, 1,  0, 1],
      indices =
        [0,  1,  2,    0,  2,  3,
         4,  5,  6,    4,  6,  7,
         8,  9,  10,   8,  10, 11,
         12, 13, 14,   12, 14, 15,
         16, 17, 18,   16, 18, 19,
         20, 21, 22,   20, 22, 23]\<rparr>"

text \<open>The unit vector of the sphere's vertex \<open>(lat, lon)\<close>: \<^verbatim>\<open>(x, y, z)\<close> of the loop
  body, also its normal.\<close>

definition sphere_unit :: "nat \<Rightarrow> nat \<Rightarrow> nat \<Rightarrow> vec3" where
  "sphere_unit segments lat lon =
     (let theta = real lat * pi / real segments;
          sinTheta = sin theta; cosTheta = cos theta;
          phi = real lon * 2 * pi / real segments;
          sinPhi = sin phi; cosPhi = cos phi
      in V3 (cosPhi * sinTheta) cosTheta (sinPhi * sinTheta))"

definition sphere_index_list :: "nat \<Rightarrow> nat list" where
  "sphere_index_list segments =
     concat (map (\<lambda>lat. concat (map (\<lambda>lon.
        let first = lat * (segments + 1) + lon; second = first + segments + 1
        in [first, second, first + 1, second, second + 1, first + 1])
       [0..<segments])) [0..<segments])"

text \<open>The reference form of the sphere: the vertex grid and the index list as list
  comprehensions over \<open>[0..<segments + 1]\<close> and \<open>[0..<segments]\<close>.\<close>

definition sphere_mesh_ref :: "real \<Rightarrow> nat \<Rightarrow> mesh" where
  "sphere_mesh_ref radius segments =
     (let grid = concat (map (\<lambda>lat. map (\<lambda>lon. sphere_unit segments lat lon)
                   [0..<segments + 1]) [0..<segments + 1])
      in \<lparr>positions = concat (map (\<lambda>v. [radius * vx v, radius * vy v, radius * vz v]) grid),
          normals = concat (map (\<lambda>v. [vx v, vy v, vz v]) grid),
          texCoords = concat (map (\<lambda>lat. concat (map (\<lambda>lon.
                        [real lon / real segments, real lat / real segments])
                        [0..<segments + 1])) [0..<segments + 1]),
          indices = map word_of_nat (sphere_index_list segments)\<rparr>)"

text \<open>The vertex loops of \<^verbatim>\<open>createSphere\<close> as the source runs them: \<open>lat\<close> and then
  \<open>lon\<close> from 0 to \<open>segments\<close> inclusive, each step pushing onto the arrays
  \<^verbatim>\<open>positions\<close>, \<^verbatim>\<open>normals\<close>, \<^verbatim>\<open>texCoords\<close> (here \<open>ps\<close>, \<open>ns\<close>, \<open>ts\<close>: the
  source's names are the mesh's field names).
  What decreases is \<open>segments + 1 - lat\<close>, and within a row \<open>segments + 1 - lon\<close>.\<close>

function sphere_vertex_loop ::
  "real \<Rightarrow> nat \<Rightarrow> nat \<Rightarrow> nat \<Rightarrow> real list \<Rightarrow> real list \<Rightarrow> real list
   \<Rightarrow> real list \<times> real list \<times> real list" where
  "sphere_vertex_loop radius segments lat lon ps ns ts =
     (if lat \<le> segments then
        (if lon \<le> segments then
           (let v = sphere_unit segments lat lon
            in sphere_vertex_loop radius segments lat (Suc lon)
                 (ps @ [radius * vx v, radius * vy v, radius * vz v])
                 (ns @ [vx v, vy v, vz v])
                 (ts @ [real lon / real segments, real lat / real segments]))
         else sphere_vertex_loop radius segments (Suc lat) 0 ps ns ts)
      else (ps, ns, ts))"
  by pat_completeness auto
termination
  by (relation "measures [\<lambda>(r, seg, lat, lon, p, n, t). Suc seg - lat,
                          \<lambda>(r, seg, lat, lon, p, n, t). Suc seg - lon]") auto

declare sphere_vertex_loop.simps [simp del]

text \<open>The index loops: \<open>lat\<close> and \<open>lon\<close> from 0 below \<open>segments\<close>, each step pushing
  the two triangles of one grid cell onto \<^verbatim>\<open>indices\<close> (here \<open>is\<close>).\<close>

function sphere_index_loop :: "nat \<Rightarrow> nat \<Rightarrow> nat \<Rightarrow> nat list \<Rightarrow> nat list" where
  "sphere_index_loop segments lat lon is =
     (if lat < segments then
        (if lon < segments then
           (let first = lat * (segments + 1) + lon; second = first + segments + 1
            in sphere_index_loop segments lat (Suc lon)
                 (is @ [first, second, first + 1] @ [second, second + 1, first + 1]))
         else sphere_index_loop segments (Suc lat) 0 is)
      else is)"
  by pat_completeness auto
termination
  by (relation "measures [\<lambda>(seg, lat, lon, acc). seg - lat, \<lambda>(seg, lat, lon, acc). seg - lon]") auto

declare sphere_index_loop.simps [simp del]

definition createSphere :: "real \<Rightarrow> nat \<Rightarrow> mesh" where
  "createSphere radius segments =
     (let (ps, ns, ts) = sphere_vertex_loop radius segments 0 0 [] [] [];
          is = sphere_index_loop segments 0 0 []
      in \<lparr>positions = ps, normals = ns, texCoords = ts, indices = map word_of_nat is\<rparr>)"

text \<open>What a row-by-row loop over an \<open>n\<close> by \<open>n\<close> grid still has to push from cell
  \<open>(lat, lon)\<close> on, when cell \<open>(l, k)\<close> pushes \<open>f l k\<close>.\<close>

definition grid_rest :: "nat \<Rightarrow> (nat \<Rightarrow> nat \<Rightarrow> 'a list) \<Rightarrow> nat \<Rightarrow> nat \<Rightarrow> 'a list" where
  "grid_rest n f lat lon =
     (if lat < n then concat (map (f lat) [lon..<n]) @ concat (map (\<lambda>l. concat (map (f l) [0..<n])) [Suc lat..<n])
      else [])"

definition createPlane :: "real \<Rightarrow> real \<Rightarrow> mesh" where
  "createPlane width height =
     (let w = width / 2; h = height / 2
      in \<lparr>positions = [-w, 0, -h,  w, 0, -h,  w, 0, h,  -w, 0, h],
          normals = [0, 1, 0,  0, 1, 0,  0, 1, 0,  0, 1, 0],
          texCoords = [0, 0,  1, 0,  1, 1,  0, 1],
          indices = [0, 1, 2,  0, 2, 3]\<rparr>)"

definition vertex_at :: "real list \<Rightarrow> nat \<Rightarrow> vec3" where
  "vertex_at a i = V3 (a ! (3 * i)) (a ! (3 * i + 1)) (a ! (3 * i + 2))"

text \<open>A triangle winds counter-clockwise seen from the side its normal points to.\<close>

definition ccw_toward :: "vec3 \<Rightarrow> vec3 \<Rightarrow> vec3 \<Rightarrow> vec3 \<Rightarrow> bool" where
  "ccw_toward a b c n \<longleftrightarrow> 0 < dot3 (cross3 (vsub b a) (vsub c a)) n"

definition mesh_triangles :: "mesh \<Rightarrow> (nat \<times> nat \<times> nat) list" where
  "mesh_triangles m =
     map (\<lambda>k. (unat (indices m ! (3 * k)), unat (indices m ! (3 * k + 1)), unat (indices m ! (3 * k + 2))))
       [0..<length (indices m) div 3]"

text \<open>A mesh \<^verbatim>\<open>createVAO\<close> can upload and \<^verbatim>\<open>drawElements(TRIANGLES, count,
  UNSIGNED_SHORT, 0)\<close> can draw without reading past a buffer: whole 3-vectors of
  positions, one normal and one texture coordinate pair per vertex, whole triangles,
  and every index naming a vertex.\<close>

definition mesh_wf :: "mesh \<Rightarrow> bool" where
  "mesh_wf m \<longleftrightarrow> length (positions m) mod 3 = 0
     \<and> length (normals m) = length (positions m)
     \<and> 3 * length (texCoords m) = 2 * length (positions m)
     \<and> length (indices m) mod 3 = 0
     \<and> (\<forall>i \<in> set (indices m). unat i < length (positions m) div 3)"

subsection \<open>The loops of createSphere\<close>

lemma grid_rest_step:
  "lat < n \<Longrightarrow> lon < n \<Longrightarrow> grid_rest n f lat lon = f lat lon @ grid_rest n f lat (Suc lon)"
  by (simp add: grid_rest_def upt_conv_Cons)

lemma grid_rest_next:
  "lat < n \<Longrightarrow> \<not> lon < n \<Longrightarrow> grid_rest n f lat lon = grid_rest n f (Suc lat) 0"
  by (cases "Suc lat < n") (simp_all add: grid_rest_def upt_conv_Cons)

lemma grid_rest_start:
  "grid_rest n f 0 0 = concat (map (\<lambda>l. concat (map (f l) [0..<n])) [0..<n])"
  by (cases n) (simp_all add: grid_rest_def upt_conv_Cons del: upt_Suc)

lemma sphere_index_loop_rest:
  "sphere_index_loop seg lat lon acc
   = acc @ grid_rest seg (\<lambda>lat lon. let first = lat * (seg + 1) + lon; second = first + seg + 1
                                   in [first, second, first + 1, second, second + 1, first + 1]) lat lon"
proof (induction seg lat lon acc rule: sphere_index_loop.induct)
  case (1 seg lat lon acc)
  show ?case
  proof (cases "lat < seg")
    case lat: True
    show ?thesis
    proof (cases "lon < seg")
      case True
      with lat "1.IH"(1) show ?thesis
        by (simp add: sphere_index_loop.simps [of seg lat lon] grid_rest_step Let_def)
    next
      case False
      with lat "1.IH"(2) show ?thesis
        by (simp add: sphere_index_loop.simps [of seg lat lon] grid_rest_next)
    qed
  next
    case False
    then show ?thesis by (simp add: sphere_index_loop.simps [of seg lat lon] grid_rest_def)
  qed
qed

lemma sphere_vertex_loop_rest:
  "sphere_vertex_loop r seg lat lon ps ns ts =
     (ps @ grid_rest (Suc seg) (\<lambda>l k. [r * vx (sphere_unit seg l k), r * vy (sphere_unit seg l k),
                                        r * vz (sphere_unit seg l k)]) lat lon,
      ns @ grid_rest (Suc seg) (\<lambda>l k. [vx (sphere_unit seg l k), vy (sphere_unit seg l k),
                                        vz (sphere_unit seg l k)]) lat lon,
      ts @ grid_rest (Suc seg) (\<lambda>l k. [real k / real seg, real l / real seg]) lat lon)"
proof (induction r seg lat lon ps ns ts rule: sphere_vertex_loop.induct)
  case (1 r seg lat lon ps ns ts)
  show ?case
  proof (cases "lat \<le> seg")
    case lat: True
    show ?thesis
    proof (cases "lon \<le> seg")
      case True
      with lat "1.IH"(1) show ?thesis
        by (simp add: sphere_vertex_loop.simps [of r seg lat lon] grid_rest_step Let_def)
    next
      case False
      with lat "1.IH"(2) show ?thesis
        by (simp add: sphere_vertex_loop.simps [of r seg lat lon] grid_rest_next)
    qed
  next
    case False
    then show ?thesis by (simp add: sphere_vertex_loop.simps [of r seg lat lon] grid_rest_def)
  qed
qed

lemma concat_concat_map: "concat (concat xss) = concat (map concat xss)"
  by (induction xss) simp_all

lemma createSphere_ref: "createSphere r seg = sphere_mesh_ref r seg"
  by (simp add: createSphere_def sphere_mesh_ref_def sphere_vertex_loop_rest sphere_index_loop_rest
      grid_rest_start sphere_index_list_def map_concat comp_def concat_concat_map Let_def del: upt_Suc)

subsection \<open>Sphere indices\<close>

lemma sphere_index_set:
  "set (sphere_index_list seg) = (\<Union>lat\<in>{..<seg}. \<Union>lon\<in>{..<seg}.
     set [lat * (seg + 1) + lon, lat * (seg + 1) + lon + seg + 1, lat * (seg + 1) + lon + 1,
          lat * (seg + 1) + lon + seg + 1, lat * (seg + 1) + lon + seg + 1 + 1, lat * (seg + 1) + lon + 1])"
  by (simp add: sphere_index_list_def Let_def atLeast0LessThan)

lemma sphere_index_lt: "i \<in> set (sphere_index_list seg) \<Longrightarrow> i < (seg + 1)\<^sup>2"
proof -
  assume "i \<in> set (sphere_index_list seg)"
  then obtain lat lon where l: "lat < seg" "lon < seg"
    and i: "i \<le> lat * (seg + 1) + lon + seg + 2"
    by (auto simp: sphere_index_set)
  have "(lat + 1) * (seg + 1) \<le> seg * (seg + 1)" using l by (intro mult_le_mono1) simp
  then have "lat * (seg + 1) + lon + seg + 2 < (seg + 1)\<^sup>2"
    using l by (simp add: power2_eq_square algebra_simps)
  with i show ?thesis by simp
qed

lemma sphere_index_max: "0 < seg \<Longrightarrow> (seg + 1)\<^sup>2 - 1 \<in> set (sphere_index_list seg)"
proof -
  assume "0 < seg"
  then obtain k where k: "seg = Suc k" by (cases seg) auto
  have "(seg + 1)\<^sup>2 - 1 = k * (seg + 1) + k + seg + 1 + 1"
    by (simp add: k power2_eq_square algebra_simps)
  moreover have "k < seg" using k by simp
  ultimately show ?thesis by (auto simp: sphere_index_set)
qed

lemma length_sphere_index_list: "length (sphere_index_list seg) = 6 * seg * seg"
  by (simp add: sphere_index_list_def length_concat comp_def Let_def sum_list_triv)

lemma sphere_indices_fit: "(\<forall>i \<in> set (sphere_index_list seg). i < 2 ^ 16) \<longleftrightarrow> seg \<le> 255"
proof
  assume a: "\<forall>i \<in> set (sphere_index_list seg). i < 2 ^ 16"
  show "seg \<le> 255"
  proof (rule ccontr)
    assume "\<not> seg \<le> 255"
    then have "0 < seg" and "256 \<le> seg" by simp_all
    then have "(seg + 1)\<^sup>2 - 1 < 2 ^ 16" using a sphere_index_max by blast
    moreover have "257 * 257 \<le> (seg + 1) * (seg + 1)" using \<open>256 \<le> seg\<close> by (intro mult_le_mono) simp_all
    ultimately show False by (simp add: power2_eq_square)
  qed
next
  assume "seg \<le> 255"
  then have "(seg + 1) * (seg + 1) \<le> 256 * 256" by (intro mult_le_mono) simp_all
  then show "\<forall>i \<in> set (sphere_index_list seg). i < 2 ^ 16"
    using sphere_index_lt by (fastforce simp: power2_eq_square)
qed

text \<open>C17. \<^verbatim>\<open>createSphere\<close>'s \<^verbatim>\<open>Uint16Array\<close> holds every index the loops compute,
  unchanged, exactly when \<open>segments \<le> 255\<close>; from 256 segments on, the largest
  indices wrap modulo \<open>2\<^sup>1\<^sup>6\<close> and the draw call reads the wrong vertices.\<close>

theorem sphere_indices_uint16:
  "map unat (indices (createSphere r seg)) = sphere_index_list seg \<longleftrightarrow> seg \<le> 255"
proof -
  have "map unat (indices (createSphere r seg)) = map (\<lambda>i. i mod 2 ^ 16) (sphere_index_list seg)"
    by (simp add: createSphere_ref sphere_mesh_ref_def Let_def unat_of_nat)
  also have "\<dots> = sphere_index_list seg \<longleftrightarrow> (\<forall>i \<in> set (sphere_index_list seg). i mod 2 ^ 16 = i)"
    by (simp add: map_idI map_eq_conv[where g = id, simplified] )
  also have "\<dots> \<longleftrightarrow> (\<forall>i \<in> set (sphere_index_list seg). i < 2 ^ 16)"
  proof -
    have "\<And>i::nat. i mod 2 ^ 16 = i \<longleftrightarrow> i < 2 ^ 16"
      by (metis mod_less mod_less_divisor zero_less_numeral zero_less_power)
    then show ?thesis by simp
  qed
  finally show ?thesis using sphere_indices_fit by simp
qed

text \<open>C35. Every index \<^verbatim>\<open>createSphere\<close> computes names one of its \<open>(segments + 1)\<^sup>2\<close>
  vertices, and there are \<open>6 * segments\<^sup>2\<close> of them (two triangles per grid cell).\<close>

theorem sphere_index_bounds:
  "(\<forall>i \<in> set (sphere_index_list seg). i < (seg + 1)\<^sup>2)
   \<and> length (indices (createSphere r seg)) = 6 * seg * seg
   \<and> length (positions (createSphere r seg)) = 3 * (seg + 1)\<^sup>2"
proof (intro conjI)
  show "\<forall>i \<in> set (sphere_index_list seg). i < (seg + 1)\<^sup>2" using sphere_index_lt by blast
  show "length (indices (createSphere r seg)) = 6 * seg * seg"
    by (simp add: createSphere_ref sphere_mesh_ref_def Let_def length_sphere_index_list)
  show "length (positions (createSphere r seg)) = 3 * (seg + 1)\<^sup>2"
    by (simp add: createSphere_ref sphere_mesh_ref_def Let_def length_concat comp_def sum_list_triv power2_eq_square)
qed

theorem sphere_index_bounds_witness:
  "length (indices (createSphere 1 32)) = 6144 \<and> length (positions (createSphere 1 32)) = 3267"
  using sphere_index_bounds [of 32 1] by simp

subsection \<open>Sphere vertices\<close>

lemma len3_sphere_unit [simp]: "len3 (sphere_unit seg lat lon) = 1"
proof -
  let ?t = "real lat * pi / real seg" and ?p = "real lon * 2 * pi / real seg"
  have "(cos ?p * sin ?t)\<^sup>2 + (cos ?t)\<^sup>2 + (sin ?p * sin ?t)\<^sup>2
      = (sin ?t)\<^sup>2 * ((cos ?p)\<^sup>2 + (sin ?p)\<^sup>2) + (cos ?t)\<^sup>2"
    by (simp add: power_mult_distrib algebra_simps del: sin_cos_squared_add sin_cos_squared_add2)
  also have "\<dots> = 1" by simp
  finally show ?thesis by (simp add: sphere_unit_def Let_def)
qed

lemma vertex_at_triples:
  "i < length vs \<Longrightarrow> vertex_at (concat (map (\<lambda>v. [f (vx v), f (vy v), f (vz v)]) vs)) i
     = V3 (f (vx (vs ! i))) (f (vy (vs ! i))) (f (vz (vs ! i)))"
proof (induction vs arbitrary: i)
  case Nil
  then show ?case by simp
next
  case (Cons v vs)
  show ?case
  proof (cases i)
    case 0
    then show ?thesis by (simp add: vertex_at_def)
  next
    case (Suc j)
    with Cons.prems have "j < length vs" by simp
    then have "vertex_at (concat (map (\<lambda>v. [f (vx v), f (vy v), f (vz v)]) vs)) j
               = V3 (f (vx (vs ! j))) (f (vy (vs ! j))) (f (vz (vs ! j)))" by (rule Cons.IH)
    then show ?thesis using Suc by (simp add: vertex_at_def nth_append)
  qed
qed

lemma sphere_vertex:
  assumes "i < (seg + 1)\<^sup>2"
  shows "len3 (vertex_at (normals (createSphere r seg)) i) = 1
         \<and> vertex_at (positions (createSphere r seg)) i = vscale r (vertex_at (normals (createSphere r seg)) i)"
proof -
  define grid where "grid = concat (map (\<lambda>lat. map (\<lambda>lon. sphere_unit seg lat lon)
                   [0..<seg + 1]) [0..<seg + 1])"
  have lg: "length grid = (seg + 1)\<^sup>2"
    by (simp add: grid_def length_concat comp_def sum_list_triv power2_eq_square)
  have unit: "len3 (grid ! i) = 1"
  proof -
    have "grid ! i \<in> set grid" using assms lg by simp
    then show ?thesis by (auto simp: grid_def)
  qed
  have nn: "normals (createSphere r seg) = concat (map (\<lambda>v. [vx v, vy v, vz v]) grid)"
    and pp: "positions (createSphere r seg) = concat (map (\<lambda>v. [r * vx v, r * vy v, r * vz v]) grid)"
    by (simp_all only: createSphere_ref sphere_mesh_ref_def Let_def grid_def mesh.select_convs)
  have n: "vertex_at (normals (createSphere r seg)) i = grid ! i"
    using vertex_at_triples [of i grid "\<lambda>x. x"] assms lg unfolding nn by simp
  have p: "vertex_at (positions (createSphere r seg)) i = vscale r (grid ! i)"
    using vertex_at_triples [of i grid "\<lambda>x. r * x"] assms lg unfolding pp by (simp add: vscale_def)
  show ?thesis using n p unit by simp
qed

text \<open>C36. Every sphere normal has length 1 and every sphere position is the radius
  times its normal: the mesh is a sphere of the given radius with outward unit normals.\<close>

theorem sphere_normals_unit:
  assumes "i < (seg + 1)\<^sup>2"
  shows "len3 (vertex_at (normals (createSphere r seg)) i) = 1
         \<and> vertex_at (positions (createSphere r seg)) i = vscale r (vertex_at (normals (createSphere r seg)) i)"
  using assms by (rule sphere_vertex)

theorem sphere_normals_unit_witness:
  "(0::nat) < (32 + 1)\<^sup>2 \<and> len3 (vertex_at (normals (createSphere 1 32)) 0) = 1"
  using sphere_normals_unit [of 0 32 1] by simp

lemma mesh_wf_sphere: "mesh_wf (createSphere r seg)"
proof -
  have lp: "length (positions (createSphere r seg)) = 3 * (seg + 1)\<^sup>2"
    by (simp add: createSphere_ref sphere_mesh_ref_def Let_def length_concat comp_def sum_list_triv power2_eq_square)
  have "\<forall>i \<in> set (indices (createSphere r seg)). unat i < (seg + 1)\<^sup>2"
  proof
    fix i assume "i \<in> set (indices (createSphere r seg))"
    then obtain n where n: "n \<in> set (sphere_index_list seg)" and i: "i = word_of_nat n"
      by (auto simp: createSphere_ref sphere_mesh_ref_def Let_def)
    have "unat i = n mod 2 ^ 16" by (simp add: i unat_of_nat)
    also have "\<dots> \<le> n" by (rule mod_less_eq_dividend)
    also have "\<dots> < (seg + 1)\<^sup>2" using n by (rule sphere_index_lt)
    finally show "unat i < (seg + 1)\<^sup>2" .
  qed
  moreover have "length (indices (createSphere r seg)) mod 3 = 0"
    by (simp add: createSphere_ref sphere_mesh_ref_def Let_def length_sphere_index_list)
  ultimately show ?thesis
    by (simp add: mesh_wf_def lp) (simp add: createSphere_ref sphere_mesh_ref_def Let_def length_concat comp_def
        sum_list_triv power2_eq_square)
qed

lemma mesh_wf_cube: "mesh_wf createCube"
  by (simp add: mesh_wf_def createCube_def)

lemma mesh_wf_plane: "mesh_wf (createPlane w h)"
  by (simp add: mesh_wf_def createPlane_def Let_def)

subsection \<open>Cube and plane\<close>

text \<open>C37. The cube mesh is well formed for \<^verbatim>\<open>drawElements\<close>: 24 vertices with unit
  normals, 36 indices all below 24, and each of its 12 triangles winds
  counter-clockwise seen from the side its face normal points to (outward).\<close>

theorem cube_mesh_valid:
  "length (positions createCube) = 72 \<and> length (normals createCube) = 72
   \<and> length (texCoords createCube) = 48 \<and> length (indices createCube) = 36
   \<and> (\<forall>i \<in> set (indices createCube). unat i < 24)
   \<and> (\<forall>i < 24. len3 (vertex_at (normals createCube) i) = 1)
   \<and> (\<forall>(a, b, c) \<in> set (mesh_triangles createCube).
        ccw_toward (vertex_at (positions createCube) a) (vertex_at (positions createCube) b)
                   (vertex_at (positions createCube) c) (vertex_at (normals createCube) a))"
proof (intro conjI)
  show "length (positions createCube) = 72" "length (normals createCube) = 72"
       "length (texCoords createCube) = 48" "length (indices createCube) = 36"
    by (simp_all add: createCube_def)
  show "\<forall>i \<in> set (indices createCube). unat i < 24"
    by (simp add: createCube_def)
  show "\<forall>i < 24. len3 (vertex_at (normals createCube) i) = 1"
    by (simp add: createCube_def vertex_at_def less_Suc_eq numeral_eq_Suc)
  show "\<forall>(a, b, c) \<in> set (mesh_triangles createCube).
        ccw_toward (vertex_at (positions createCube) a) (vertex_at (positions createCube) b)
                   (vertex_at (positions createCube) c) (vertex_at (normals createCube) a)"
    by (simp add: mesh_triangles_def createCube_def vertex_at_def ccw_toward_def cross3_def
        dot3_def vsub_def upt_rec)
qed

theorem cube_mesh_valid_witness:
  "length (indices createCube) = 36 \<and> length (positions createCube) = 72"
  using cube_mesh_valid by simp

text \<open>C38. \<^verbatim>\<open>createVerticalPlaneMatrix(t)\<close> stands a \<^verbatim>\<open>createPlane\<close> mesh up in the
  plane \<open>x = t.x\<close>: every vertex lands there. It turns the mesh normal \<open>(0, 1, 0)\<close>
  into \<open>(-1, 0, 0)\<close>, not into the \<open>(1, 0, 0)\<close> the source comment asks for.\<close>

theorem vertical_plane_placement:
  assumes "i < 4"
  shows "wx (mat4_apply (createVerticalPlaneMatrix t) (point4 (vertex_at (positions (createPlane w h)) i))) = vx t
         \<and> mat4_apply (createVerticalPlaneMatrix t) (dir4 (vertex_at (normals (createPlane w h)) i)) = V4 (-1) 0 0 0"
  using assms
  by (auto simp: createVerticalPlaneMatrix_def createPlane_def mat4_apply_def point4_def dir4_def
      vertex_at_def Let_def less_Suc_eq numeral_eq_Suc)

theorem vertical_plane_placement_witness:
  "(3::nat) < 4 \<and>
   wx (mat4_apply (createVerticalPlaneMatrix (V3 0 2 (-3))) (point4 (vertex_at (positions (createPlane 15 10)) 3))) = 0"
  using vertical_plane_placement [of 3 "V3 0 2 (-3)" 15 10] by simp

text \<open>C16. The loops of \<^verbatim>\<open>createSphere\<close>, run as the source runs them (push by
  push, row by row), compute the reference sphere: the index loop gives the list
  comprehension over the grid cells, and the vertex loop the positions, normals and
  texture coordinates of the grid in row-major order.\<close>

theorem sphere_loops_equiv:
  "sphere_index_loop seg 0 0 [] = sphere_index_list seg
   \<and> sphere_vertex_loop r seg 0 0 [] [] []
       = (positions (sphere_mesh_ref r seg), normals (sphere_mesh_ref r seg), texCoords (sphere_mesh_ref r seg))"
  by (simp add: sphere_mesh_ref_def sphere_vertex_loop_rest sphere_index_loop_rest grid_rest_start
      sphere_index_list_def map_concat comp_def concat_concat_map Let_def del: upt_Suc)

end
