(* ===== verification/WebGL.thy ===== *)
theory WebGL
  imports Geometry
begin

text \<open>
  The WebGL2 context as the viewer uses it, and the render backend of
  \<^verbatim>\<open>framebuffer.js\<close> and \<^verbatim>\<open>shaders.js\<close>, which \<^verbatim>\<open>main.js\<close> imports but which are
  not among the sources. WebGL is a state machine: \<open>gl_state\<close> holds the part of it
  the viewer sets (bound framebuffer, viewport, current program, each program's uniform
  values, vertex array and the meshes uploaded to each, active texture unit and the
  texture on each unit, depth mask, enabled capabilities, blend function, the next free
  object handle) and a log of the draw calls, each with the state it drew in. One call
  is a \<open>gl_cmd\<close>, run by \<open>gl_exec\<close>; a list of calls by \<open>gl_run\<close>. Handles of GL
  objects are numbers allocated from \<open>gl_next_handle\<close>. The backend functions are
  modelled from the specification's render-backend interface.
\<close>

datatype uval = UMat mat4 | UVec3 vec3 | UVec4 real real real real | UInt int | UFloat real

datatype gl_cap = DEPTH_TEST | BLEND

datatype blend_factor = ONE | ZERO | SRC_ALPHA | ONE_MINUS_SRC_ALPHA

datatype gl_cmd =
    BindFramebuffer "nat option"
  | Viewport nat nat
  | ClearColor real real real real
  | Clear
  | UseProgram nat
  | Uniform string uval
  | BindVertexArray nat
  | ActiveTexture nat
  | BindTexture "nat option"
  | DrawElements nat
  | DepthMask bool
  | Enable gl_cap
  | BlendFunc blend_factor blend_factor

record draw_rec =
  d_framebuffer :: "nat option"
  d_viewport :: "nat \<times> nat"
  d_program :: "nat option"
  d_uniforms :: "string \<Rightarrow> uval option"
  d_vao :: "nat option"
  d_count :: nat
  d_units :: "nat \<Rightarrow> nat option"
  d_depth_mask :: bool
  d_enabled :: "gl_cap set"
  d_blend :: "blend_factor \<times> blend_factor"

record gl_state =
  gl_framebuffer :: "nat option"
  gl_viewport :: "nat \<times> nat"
  gl_clear_color :: "real \<times> real \<times> real \<times> real"
  gl_clears :: nat
  gl_program :: "nat option"
  gl_uniforms :: "nat \<Rightarrow> string \<Rightarrow> uval option"
  gl_vao :: "nat option"
  gl_active_unit :: nat
  gl_units :: "nat \<Rightarrow> nat option"
  gl_depth_mask :: bool
  gl_enabled :: "gl_cap set"
  gl_blend :: "blend_factor \<times> blend_factor"
  gl_vaos :: "nat \<rightharpoonup> mesh"
  gl_programs :: "nat \<rightharpoonup> string \<times> string"
  gl_next_handle :: nat
  gl_draws :: "draw_rec list"

text \<open>One GL call. A uniform with no program in use is an error in WebGL that sets
  nothing; the viewer never issues one.\<close>

fun gl_exec :: "gl_cmd \<Rightarrow> gl_state \<Rightarrow> gl_state" where
  "gl_exec (BindFramebuffer fb) s = s\<lparr>gl_framebuffer := fb\<rparr>"
| "gl_exec (Viewport w h) s = s\<lparr>gl_viewport := (w, h)\<rparr>"
| "gl_exec (ClearColor r g b a) s = s\<lparr>gl_clear_color := (r, g, b, a)\<rparr>"
| "gl_exec Clear s = s\<lparr>gl_clears := Suc (gl_clears s)\<rparr>"
| "gl_exec (UseProgram p) s = s\<lparr>gl_program := Some p\<rparr>"
| "gl_exec (Uniform n v) s =
     (case gl_program s of
        None \<Rightarrow> s
      | Some p \<Rightarrow> s\<lparr>gl_uniforms := (gl_uniforms s)(p := (gl_uniforms s p)(n \<mapsto> v))\<rparr>)"
| "gl_exec (BindVertexArray v) s = s\<lparr>gl_vao := Some v\<rparr>"
| "gl_exec (ActiveTexture u) s = s\<lparr>gl_active_unit := u\<rparr>"
| "gl_exec (BindTexture t) s = s\<lparr>gl_units := (gl_units s)(gl_active_unit s := t)\<rparr>"
| "gl_exec (DrawElements n) s =
     s\<lparr>gl_draws := gl_draws s @
        [\<lparr>d_framebuffer = gl_framebuffer s, d_viewport = gl_viewport s, d_program = gl_program s,
          d_uniforms = (case gl_program s of None \<Rightarrow> Map.empty | Some p \<Rightarrow> gl_uniforms s p),
          d_vao = gl_vao s, d_count = n, d_units = gl_units s, d_depth_mask = gl_depth_mask s,
          d_enabled = gl_enabled s, d_blend = gl_blend s\<rparr>]\<rparr>"
| "gl_exec (DepthMask b) s = s\<lparr>gl_depth_mask := b\<rparr>"
| "gl_exec (Enable cap) s = s\<lparr>gl_enabled := insert cap (gl_enabled s)\<rparr>"
| "gl_exec (BlendFunc sf df) s = s\<lparr>gl_blend := (sf, df)\<rparr>"

fun gl_run :: "gl_cmd list \<Rightarrow> gl_state \<Rightarrow> gl_state" where
  "gl_run [] s = s"
| "gl_run (c # cs) s = gl_run cs (gl_exec c s)"

record fbo =
  framebuffer :: nat
  texture :: nat
  fb_width :: nat
  fb_height :: nat

text \<open>The fatal startup errors: \<^verbatim>\<open>getContext('webgl2')\<close> returning \<^verbatim>\<open>null\<close>
  (the constructor throws), a shader that does not load or compile (\<^verbatim>\<open>loadShaders\<close>
  rethrows) and an offscreen target that cannot be created (\<^verbatim>\<open>createFramebuffer\<close>
  throws, through \<^verbatim>\<open>createFramebuffers\<close> and \<^verbatim>\<open>resize\<close>). In \<^verbatim>\<open>init()\<close> each rejects the promise and the render loop never starts.\<close>

datatype startup_error = WebGL2NotSupported | ShaderError | FramebufferError

text \<open>\<^verbatim>\<open>createFramebuffer(gl, width, height)\<close> of \<^verbatim>\<open>framebuffer.js\<close>, from the
  specification: a new framebuffer and colour texture of that size, or the failure to
  acquire them. Whether the allocation succeeds is decided by the GPU, not by the
  viewer: it is the argument \<open>ok\<close>.\<close>

definition createFramebuffer :: "bool \<Rightarrow> gl_state \<Rightarrow> nat \<Rightarrow> nat \<Rightarrow> startup_error + fbo \<times> gl_state" where
  "createFramebuffer ok s width height =
     (if ok
      then Inr (\<lparr>framebuffer = gl_next_handle s, texture = Suc (gl_next_handle s),
                 fb_width = width, fb_height = height\<rparr>,
                s\<lparr>gl_next_handle := gl_next_handle s + 2\<rparr>)
      else Inl FramebufferError)"

text \<open>A fresh WebGL2 context: WebGL's initial values.\<close>

definition initial_gl :: "nat \<Rightarrow> nat \<Rightarrow> gl_state" where
  "initial_gl width height =
     \<lparr>gl_framebuffer = None, gl_viewport = (width, height), gl_clear_color = (0, 0, 0, 0),
      gl_clears = 0, gl_program = None, gl_uniforms = (\<lambda>_. Map.empty), gl_vao = None,
      gl_active_unit = 0, gl_units = Map.empty, gl_depth_mask = True, gl_enabled = {},
      gl_blend = (ONE, ZERO), gl_vaos = Map.empty, gl_programs = Map.empty,
      gl_next_handle = 1, gl_draws = []\<rparr>"

text \<open>What the server and the GPU decide: the text \<^verbatim>\<open>fetch\<close> delivers for each
  shader path (\<open>None\<close> when the request fails), and which pairs of vertex and fragment
  sources compile and link.\<close>

record shader_env =
  shader_file :: "string \<Rightarrow> string option"
  links :: "string \<Rightarrow> string \<Rightarrow> bool"

text \<open>\<^verbatim>\<open>loadShaderFromFile(url)\<close> of \<^verbatim>\<open>shaders.js\<close>, from the specification: the
  source text, or a failure that \<^verbatim>\<open>loadShaders\<close> reports as a shader error.\<close>

definition loadShaderFromFile :: "shader_env \<Rightarrow> string \<Rightarrow> startup_error + string" where
  "loadShaderFromFile env url =
     (case shader_file env url of None \<Rightarrow> Inl ShaderError | Some source \<Rightarrow> Inr source)"

text \<open>\<^verbatim>\<open>createProgram(gl, vertexSource, fragmentSource)\<close> of \<^verbatim>\<open>shaders.js\<close>, from
  the specification: a new program handle, linked from the two sources (recorded in
  \<open>gl_programs\<close>), or the failure to compile or link them.\<close>

definition createProgram ::
  "shader_env \<Rightarrow> gl_state \<Rightarrow> string \<Rightarrow> string \<Rightarrow> startup_error + nat \<times> gl_state" where
  "createProgram env s vertexSource fragmentSource =
     (if links env vertexSource fragmentSource
      then Inr (gl_next_handle s,
                s\<lparr>gl_programs := (gl_programs s)(gl_next_handle s \<mapsto> (vertexSource, fragmentSource)),
                  gl_next_handle := Suc (gl_next_handle s)\<rparr>)
      else Inl ShaderError)"

text \<open>\<^verbatim>\<open>loadTexture\<close> of \<^verbatim>\<open>shaders.js\<close>, from the specification: a texture handle.\<close>

definition loadTexture :: "gl_state \<Rightarrow> nat \<times> gl_state" where
  "loadTexture s = (gl_next_handle s, s\<lparr>gl_next_handle := Suc (gl_next_handle s)\<rparr>)"

subsection \<open>GL execution lemmas\<close>

lemma gl_run_append [simp]: "gl_run (xs @ ys) s = gl_run ys (gl_run xs s)"
  by (induction xs arbitrary: s) simp_all

lemma gl_run_vaos [simp]: "gl_vaos (gl_run cs s) = gl_vaos s"
proof (induction cs arbitrary: s)
  case (Cons c cs)
  then show ?case by (cases c) (simp_all split: option.splits)
qed simp

lemma gl_run_programs [simp]: "gl_programs (gl_run cs s) = gl_programs s"
proof (induction cs arbitrary: s)
  case (Cons c cs)
  then show ?case by (cases c) (simp_all split: option.splits)
qed simp

lemma gl_run_next_handle [simp]: "gl_next_handle (gl_run cs s) = gl_next_handle s"
proof (induction cs arbitrary: s)
  case (Cons c cs)
  then show ?case by (cases c) (simp_all split: option.splits)
qed simp

end
