(* ===== verification/Render.thy ===== *)
theory Render
  imports Reflection Input WebGL
begin

text \<open>
  RenderOrchestrator: the class \<^verbatim>\<open>WebGLApp\<close> of \<^verbatim>\<open>src/js/main.js\<close>, from the
  constructor and \<^verbatim>\<open>init()\<close> to the running frame loop, over the WebGL model of
  the theory \<open>WebGL\<close>. The viewer's render methods are lists of \<open>gl_cmd\<close>, run by
  \<open>gl_run\<close>.

  \<^verbatim>\<open>gl.getUniformLocation(p, name)\<close> is \<^verbatim>\<open>null\<close> for a name the shader does not use;
  the shaders are not part of the sources, so which names each program uses is the
  parameter \<open>active_uniforms\<close> of the application, and every
  \<^verbatim>\<open>if (loc.x) gl.uniform...(loc.x, ...)\<close> of the source emits its command only for an
  active name.

  \<^verbatim>\<open>main.js\<close> declares \<^verbatim>\<open>createFramebuffers\<close> twice in the class body; the
  second declaration (a target of the canvas size) is the one JavaScript keeps, and the
  one modelled.

  The lemmas compute the draw log of a frame (\<open>frame_structure\<close>, from the object
  loop lemma \<open>draw_objects_run\<close>), prove the application invariant \<open>app_inv\<close> for
  every reachable state, and derive the frame properties from them.
\<close>

record renderable =
  vao :: nat
  count :: nat
  modelMatrix :: mat4

record app =
  camera :: camera
  transparency :: real
  program :: nat
  glassProgram :: nat
  objects :: "renderable list"
  glassPlane :: renderable
  textures :: "nat list"
  glassTexture :: nat
  reflectionFBO :: fbo
  frameCount :: nat
  lastTime :: real
  fps :: int
  gl :: gl_state
  active_uniforms :: "nat \<Rightarrow> string \<Rightarrow> bool"

text \<open>\<^verbatim>\<open>if (loc) gl.uniform...(loc, value)\<close>.\<close>

definition set_uniform :: "app \<Rightarrow> nat \<Rightarrow> string \<Rightarrow> uval \<Rightarrow> gl_cmd list" where
  "set_uniform a p name v = (if active_uniforms a p name then [Uniform name v] else [])"

definition setupProgramUniforms ::
  "app \<Rightarrow> nat \<Rightarrow> mat4 \<Rightarrow> (real \<times> real \<times> real \<times> real) option \<Rightarrow> vec3 \<Rightarrow> gl_cmd list" where
  "setupProgramUniforms a p view clippingPlane lightPos =
     set_uniform a p ''uViewMatrix'' (UMat view)
     @ set_uniform a p ''uProjectionMatrix'' (UMat (projectionMatrix (camera a)))
     @ set_uniform a p ''uTexture'' (UInt 0)
     @ set_uniform a p ''uLightPosition'' (UVec3 lightPos)
     @ set_uniform a p ''uLightColor'' (UVec3 (V3 1 1 1))
     @ set_uniform a p ''uCameraPosition'' (UVec3 (position (camera a)))
     @ set_uniform a p ''uClippingPlane''
         (case clippingPlane of Some (x, y, z, w) \<Rightarrow> UVec4 x y z w | None \<Rightarrow> UVec4 0 0 0 0)"

definition setModelMatrix :: "app \<Rightarrow> nat \<Rightarrow> mat4 \<Rightarrow> gl_cmd list" where
  "setModelMatrix a p matrix = set_uniform a p ''uModelMatrix'' (UMat matrix)"

text \<open>The body of \<^verbatim>\<open>this.objects.forEach((obj, index) => ...)\<close>: the texture is
  \<^verbatim>\<open>this.textures[index]\<close>, \<^verbatim>\<open>undefined\<close> (unbinding) past the end of the array.\<close>

definition draw_object :: "app \<Rightarrow> nat \<Rightarrow> nat \<times> renderable \<Rightarrow> gl_cmd list" where
  "draw_object a p io =
     (let (index, obj) = io
      in [BindVertexArray (vao obj)] @ setModelMatrix a p (modelMatrix obj)
         @ [ActiveTexture 0, BindTexture (js_index (textures a) index), DrawElements (count obj)])"

definition draw_objects :: "app \<Rightarrow> nat \<Rightarrow> gl_cmd list" where
  "draw_objects a p = concat (map (draw_object a p) (enumerate 0 (objects a)))"

definition reflection_clipping_plane :: "real \<times> real \<times> real \<times> real" where
  "reflection_clipping_plane = (1, 0, 0, 0)"

definition renderReflectionPass :: "app \<Rightarrow> gl_cmd list" where
  "renderReflectionPass a =
     [BindFramebuffer (Some (framebuffer (reflectionFBO a))),
      Viewport (fb_width (reflectionFBO a)) (fb_height (reflectionFBO a)),
      ClearColor 0.1 0.1 0.15 1, Clear]
     @ (let reflectionView = calculateReflectionViewMatrix (camera a);
            clippingPlane = reflection_clipping_plane;
            reflectedLightPos = V3 (-5) 10 5
        in [UseProgram (program a)]
           @ setupProgramUniforms a (program a) reflectionView (Some clippingPlane) reflectedLightPos
           @ draw_objects a (program a))
     @ [BindFramebuffer None]"

definition setupGlassProgramUniforms :: "app \<Rightarrow> gl_cmd list" where
  "setupGlassProgramUniforms a =
     (let p = glassProgram a; cam = camera a
      in set_uniform a p ''uViewMatrix'' (UMat (viewMatrix cam))
         @ set_uniform a p ''uProjectionMatrix'' (UMat (projectionMatrix cam))
         @ set_uniform a p ''uGlassTexture'' (UInt 0)
         @ set_uniform a p ''uReflectionTexture'' (UInt 1)
         @ set_uniform a p ''uTransparency'' (UFloat (transparency a))
         @ set_uniform a p ''uCameraPosition'' (UVec3 (position cam))
         @ set_uniform a p ''uClippingPlane'' (UVec4 0 0 0 0)
         @ set_uniform a p ''uReflectionViewProjectionMatrix''
             (UMat (multiplyMatrices (projectionMatrix cam) (calculateReflectionViewMatrix cam))))"

definition renderMainScene :: "app \<Rightarrow> gl_cmd list" where
  "renderMainScene a =
     [Viewport (canvas_width (dom (camera a))) (canvas_height (dom (camera a))),
      ClearColor 0.05 0.05 0.1 1, Clear,
      UseProgram (program a)]
     @ setupProgramUniforms a (program a) (viewMatrix (camera a)) None (V3 5 10 5)
     @ draw_objects a (program a)
     @ [UseProgram (glassProgram a), DepthMask False]
     @ setupGlassProgramUniforms a
     @ [BindTexture (Some (texture (reflectionFBO a))),
        BindVertexArray (vao (glassPlane a))]
     @ setModelMatrix a (glassProgram a) (modelMatrix (glassPlane a))
     @ [ActiveTexture 0, BindTexture (Some (glassTexture a)),
        ActiveTexture 1, BindTexture (Some (texture (reflectionFBO a))),
        DrawElements (count (glassPlane a)),
        DepthMask True]"

text \<open>\<^verbatim>\<open>updateFPS\<close>: \<^verbatim>\<open>Math.round\<close> rounds halves up (\<open>\<lfloor>x + 1/2\<rfloor>\<close>); the text
  written to the page is not state of the model.\<close>

definition updateFPS :: "real \<Rightarrow> app \<Rightarrow> app" where
  "updateFPS now a =
     (let a = a\<lparr>frameCount := Suc (frameCount a)\<rparr>;
          delta = now - lastTime a
      in if delta \<ge> 1000
         then a\<lparr>fps := \<lfloor>real (frameCount a) * 1000 / delta + 1 / 2\<rfloor>, frameCount := 0, lastTime := now\<rparr>
         else a)"

text \<open>One call of \<^verbatim>\<open>render()\<close>, the frame the browser schedules through
  \<^verbatim>\<open>requestAnimationFrame\<close>.\<close>

definition render :: "real \<Rightarrow> app \<Rightarrow> app" where
  "render now a =
     (let a = a\<lparr>camera := update now (camera a)\<rparr>;
          a = updateFPS now a;
          a = a\<lparr>gl := gl_run (renderReflectionPass a) (gl a)\<rparr>
      in a\<lparr>gl := gl_run (renderMainScene a) (gl a)\<rparr>)"

text \<open>The second \<^verbatim>\<open>createFramebuffers\<close> of the class, the one in force.\<close>

definition createFramebuffers :: "bool \<Rightarrow> app \<Rightarrow> startup_error + app" where
  "createFramebuffers fbOk a =
     (let width = canvas_width (dom (camera a)); height = canvas_height (dom (camera a))
      in case createFramebuffer fbOk (gl a) width height of
           Inl error \<Rightarrow> Inl error
         | Inr (f, s) \<Rightarrow> Inr (a\<lparr>reflectionFBO := f, gl := s\<rparr>))"

text \<open>\<^verbatim>\<open>resize()\<close> up to its call of \<^verbatim>\<open>createFramebuffers\<close>: the canvas takes the
  container's size, the viewport and the projection follow it.\<close>

definition resize_canvas :: "nat \<Rightarrow> nat \<Rightarrow> app \<Rightarrow> app" where
  "resize_canvas clientWidth clientHeight a =
     (let cam = camera a;
          cam = cam\<lparr>dom := (dom cam)\<lparr>canvas_width := clientWidth, canvas_height := clientHeight\<rparr>\<rparr>;
          a = a\<lparr>camera := cam, gl := gl_exec (Viewport clientWidth clientHeight) (gl a)\<rparr>
      in a\<lparr>camera := updateProjectionMatrix (camera a)\<rparr>)"

definition resize :: "bool \<Rightarrow> nat \<Rightarrow> nat \<Rightarrow> app \<Rightarrow> startup_error + app" where
  "resize fbOk clientWidth clientHeight a =
     createFramebuffers fbOk (resize_canvas clientWidth clientHeight a)"

text \<open>Events of the running application: the camera's listeners, then the listeners
  \<^verbatim>\<open>setupUI\<close> added (the transparency slider, the reset button, the \<^verbatim>\<open>r\<close> key), the
  window's \<^verbatim>\<open>resize\<close> with the outcome of the framebuffer allocation it makes, and
  the animation frame. A listener that throws is abandoned: the browser reports the
  error and keeps what the listener changed before the throw, here the canvas size,
  viewport and projection of a \<^verbatim>\<open>resize()\<close> whose allocation failed.\<close>

datatype app_event =
    DomInput input_event
  | AnimationFrame
  | WindowResize nat nat bool
  | TransparencyInput nat
  | ResetButtonClick

text \<open>The window's \<^verbatim>\<open>resize\<close> listener, \<^verbatim>\<open>() => this.resize()\<close>, registered by
  \<^verbatim>\<open>init()\<close> before its first \<^verbatim>\<open>await\<close>.\<close>

definition resize_listener :: "bool \<Rightarrow> nat \<Rightarrow> nat \<Rightarrow> app \<Rightarrow> app" where
  "resize_listener fbOk w h a = (case resize fbOk w h a of Inl _ \<Rightarrow> resize_canvas w h a | Inr a' \<Rightarrow> a')"

fun app_step :: "real \<Rightarrow> app_event \<Rightarrow> app \<Rightarrow> app" where
  "app_step now (DomInput e) a =
     (let a = a\<lparr>camera := fst (camera_event e (camera a))\<rparr>
      in case e of
           KeyDown k \<Rightarrow> if k = ''r'' \<or> k = ''R'' then a\<lparr>camera := reset now (camera a)\<rparr> else a
         | _ \<Rightarrow> a)"
| "app_step now AnimationFrame a = render now a"
| "app_step now (WindowResize w h fbOk) a = resize_listener fbOk w h a"
| "app_step now (TransparencyInput v) a = a\<lparr>transparency := real v / 100\<rparr>"
| "app_step now ResetButtonClick a = a\<lparr>camera := reset now (camera a)\<rparr>"


subsection \<open>Startup\<close>

text \<open>\<^verbatim>\<open>new WebGLApp()\<close>. The fields the constructor sets to \<^verbatim>\<open>null\<close> (programs, glass
  plane, glass texture, framebuffer) hold placeholders: \<^verbatim>\<open>init()\<close> sets each before
  any read. The uniform names each program uses are the argument \<open>active\<close>.\<close>

definition WebGLApp :: "dom \<Rightarrow> real \<Rightarrow> bool \<Rightarrow> (nat \<Rightarrow> string \<Rightarrow> bool) \<Rightarrow> startup_error + app" where
  "WebGLApp canvas now webgl2 active =
     (if \<not> webgl2 then Inl WebGL2NotSupported
      else Inr \<lparr>camera = new_camera canvas now, transparency = 1 / 2, program = 0, glassProgram = 0,
                objects = [], glassPlane = \<lparr>vao = 0, count = 0, modelMatrix = []\<rparr>,
                textures = [], glassTexture = 0,
                reflectionFBO = \<lparr>framebuffer = 0, texture = 0, fb_width = 0, fb_height = 0\<rparr>,
                frameCount = 0, lastTime = now, fps = 0,
                gl = initial_gl (canvas_width canvas) (canvas_height canvas), active_uniforms = active\<rparr>)"

text \<open>The listeners in place while \<^verbatim>\<open>init()\<close> awaits the shaders: the camera's (its
  constructor registered them) and the window's \<^verbatim>\<open>resize\<close>. \<^verbatim>\<open>setupUI\<close> has not run,
  so the slider, the reset button and the \<^verbatim>\<open>r\<close> key do nothing yet, and no animation
  frame is scheduled.\<close>

fun loading_event :: "app_event \<Rightarrow> app \<Rightarrow> app" where
  "loading_event (DomInput e) a = a\<lparr>camera := fst (camera_event e (camera a))\<rparr>"
| "loading_event (WindowResize w h fbOk) a = resize_listener fbOk w h a"
| "loading_event AnimationFrame a = a"
| "loading_event (TransparencyInput v) a = a"
| "loading_event ResetButtonClick a = a"

text \<open>\<^verbatim>\<open>loadShaders()\<close> with its six \<^verbatim>\<open>await\<close>s: while the \<open>i\<close>-th is pending the
  browser delivers the events \<open>during i\<close>. A program handle is allocated when
  \<^verbatim>\<open>createProgram\<close> is called and stored in \<^verbatim>\<open>this.program\<close> (or
  \<^verbatim>\<open>this.glassProgram\<close>) when the await resumes.\<close>

definition loadShaders :: "shader_env \<Rightarrow> (nat \<Rightarrow> app_event list) \<Rightarrow> app \<Rightarrow> startup_error + app" where
  "loadShaders env during a =
     (let a = fold loading_event (during 0) a in
      case loadShaderFromFile env ''shaders/vertex.glsl'' of Inl error \<Rightarrow> Inl error | Inr vertexSource \<Rightarrow>
      let a = fold loading_event (during 1) a in
      case loadShaderFromFile env ''shaders/fragment.glsl'' of Inl error \<Rightarrow> Inl error | Inr fragmentSource \<Rightarrow>
      let a = fold loading_event (during 2) a in
      case loadShaderFromFile env ''shaders/glass.v.glsl'' of Inl error \<Rightarrow> Inl error | Inr glassVertexSource \<Rightarrow>
      let a = fold loading_event (during 3) a in
      case loadShaderFromFile env ''shaders/glass.glsl'' of Inl error \<Rightarrow> Inl error | Inr glassFragmentSource \<Rightarrow>
      case createProgram env (gl a) vertexSource fragmentSource of Inl error \<Rightarrow> Inl error | Inr (p, s) \<Rightarrow>
      let a = (fold loading_event (during 4) (a\<lparr>gl := s\<rparr>))\<lparr>program := p\<rparr> in
      case createProgram env (gl a) glassVertexSource glassFragmentSource of Inl error \<Rightarrow> Inl error | Inr (q, s) \<Rightarrow>
      Inr ((fold loading_event (during 5) (a\<lparr>gl := s\<rparr>))\<lparr>glassProgram := q\<rparr>))"

text \<open>\<^verbatim>\<open>createVAO(geometry)\<close>: a vertex array and four buffers; the vertex array keeps
  the uploaded mesh, and the binding is \<^verbatim>\<open>null\<close> again at the end.\<close>

definition createVAO :: "gl_state \<Rightarrow> mesh \<Rightarrow> nat \<times> gl_state" where
  "createVAO s geometry =
     (let vao = gl_next_handle s
      in (vao, s\<lparr>gl_vaos := (gl_vaos s)(vao \<mapsto> geometry), gl_vao := None, gl_next_handle := vao + 5\<rparr>))"

definition createGeometry :: "app \<Rightarrow> app" where
  "createGeometry a =
     (let cube = createCube; (cubeVAO, s) = createVAO (gl a) cube;
          objs = objects a @ [\<lparr>vao = cubeVAO, count = length (indices cube),
                   modelMatrix = createModelMatrix (V3 (-4) 1 (-3)) (V3 0 0 0) (V3 1.5 1.5 1.5)\<rparr>];
          sphere = createSphere 1 32; (sphereVAO, s) = createVAO s sphere;
          objs = objs @ [\<lparr>vao = sphereVAO, count = length (indices sphere),
                   modelMatrix = createModelMatrix (V3 4 1.5 (-3)) (V3 0 0 0) (V3 1.5 1.5 1.5)\<rparr>];
          plane = createPlane 15 10; (planeVAO, s) = createVAO s plane
      in a\<lparr>objects := objs,
           glassPlane := \<lparr>vao = planeVAO, count = length (indices plane),
                          modelMatrix = createVerticalPlaneMatrix (V3 0 2 (-3))\<rparr>,
           gl := s\<rparr>)"

definition createTextures :: "app \<Rightarrow> app" where
  "createTextures a =
     (let (texture, s) = loadTexture (gl a)
      in a\<lparr>textures := textures a @ [texture, texture], glassTexture := texture, gl := s\<rparr>)"

text \<open>\<^verbatim>\<open>init()\<close> up to its first frame. An exception of any step rejects the
  promise: the constructor's \<^verbatim>\<open>catch\<close> reports it and no frame is ever drawn. The
  arguments are the outcomes of the two framebuffer allocations (in \<^verbatim>\<open>resize()\<close>
  and in \<^verbatim>\<open>createFramebuffers()\<close>), the shader environment and the events
  delivered while the shaders load.\<close>

definition init ::
  "nat \<Rightarrow> nat \<Rightarrow> bool \<Rightarrow> shader_env \<Rightarrow> (nat \<Rightarrow> app_event list) \<Rightarrow> bool \<Rightarrow> real \<Rightarrow> app
   \<Rightarrow> startup_error + app" where
  "init clientWidth clientHeight fbResize env during fbInit now a =
     (case resize fbResize clientWidth clientHeight a of Inl error \<Rightarrow> Inl error | Inr a \<Rightarrow>
      let a = a\<lparr>gl := gl_run [Enable DEPTH_TEST, Enable BLEND, BlendFunc SRC_ALPHA ONE_MINUS_SRC_ALPHA] (gl a)\<rparr>
      in case loadShaders env during a of Inl error \<Rightarrow> Inl error | Inr a \<Rightarrow>
         case createFramebuffers fbInit (createTextures (createGeometry a)) of Inl error \<Rightarrow> Inl error
         | Inr a \<Rightarrow> Inr (render now a))"

text \<open>The \<^verbatim>\<open>DOMContentLoaded\<close> listener: construct the application, which runs
  \<^verbatim>\<open>init()\<close>.\<close>

definition app_start ::
  "dom \<Rightarrow> real \<Rightarrow> bool \<Rightarrow> (nat \<Rightarrow> string \<Rightarrow> bool) \<Rightarrow> nat \<Rightarrow> nat \<Rightarrow> bool \<Rightarrow> shader_env
   \<Rightarrow> (nat \<Rightarrow> app_event list) \<Rightarrow> bool \<Rightarrow> real \<Rightarrow> startup_error + app" where
  "app_start canvas t0 webgl2 active clientWidth clientHeight fbResize env during fbInit t1 =
     (case WebGLApp canvas t0 webgl2 active of
        Inl error \<Rightarrow> Inl error
      | Inr a \<Rightarrow> init clientWidth clientHeight fbResize env during fbInit t1 a)"

text \<open>The states of the running application: the result of a successful start, then
  any sequence of events and frames.\<close>

inductive app_reachable :: "app \<Rightarrow> bool" where
  start: "app_start canvas t0 webgl2 active w h fbr env during fbi t1 = Inr a \<Longrightarrow> app_reachable a"
| step: "app_reachable a \<Longrightarrow> app_reachable (app_step now e a)"

text \<open>The platform of the examples: an 800 by 600 canvas with the standard pointer-lock
  API, every uniform name active, every shader file delivered and linked, and every
  framebuffer allocation granted.\<close>

abbreviation demo_dom :: dom where
  "demo_dom \<equiv> \<lparr>canvas_width = 800, canvas_height = 600, canvas_request_lock = True,
     document_exit_lock = True\<rparr>"

abbreviation demo_env :: shader_env where
  "demo_env \<equiv> \<lparr>shader_file = \<lambda>_. Some '''', links = \<lambda>_ _. True\<rparr>"

abbreviation demo_start :: "startup_error + app" where
  "demo_start \<equiv> app_start demo_dom 0 True (\<lambda>_ _. True) 800 600 True demo_env (\<lambda>_. []) True 16"


text \<open>The clipping test the reflection pass asks of the main program's fragment
  shader (not among the sources): a world-space point survives the plane
  \<open>(a, b, c, d)\<close> when \<open>a x + b y + c z + d w \<ge> 0\<close>.\<close>

definition clip_keeps :: "real \<times> real \<times> real \<times> real \<Rightarrow> vec4 \<Rightarrow> bool" where
  "clip_keeps plane p = (let (a, b, c, d) = plane in 0 \<le> a * wx p + b * wy p + c * wz p + d * ww p)"

subsection \<open>Views of a frame\<close>

text \<open>The draw record of one iteration of the object loop, in terms of the GL state
  \<open>s\<close> the loop starts from: the loop binds the object's vertex array and model matrix
  and the texture on unit 0, and changes nothing else the draw reads.\<close>

definition object_draw :: "app \<Rightarrow> nat \<Rightarrow> gl_state \<Rightarrow> nat \<times> renderable \<Rightarrow> draw_rec" where
  "object_draw a p s io =
     (let (i, obj) = io
      in \<lparr>d_framebuffer = gl_framebuffer s, d_viewport = gl_viewport s, d_program = gl_program s,
          d_uniforms = (gl_uniforms s p)(''uModelMatrix'' :=
             if active_uniforms a p ''uModelMatrix'' then Some (UMat (modelMatrix obj))
             else gl_uniforms s p ''uModelMatrix''),
          d_vao = Some (vao obj), d_count = count obj,
          d_units = (gl_units s)(0 := js_index (textures a) i),
          d_depth_mask = gl_depth_mask s, d_enabled = gl_enabled s, d_blend = gl_blend s\<rparr>)"

text \<open>What an iteration of the loop leaves unchanged.\<close>

definition loop_agrees :: "app \<Rightarrow> nat \<Rightarrow> gl_state \<Rightarrow> gl_state \<Rightarrow> bool" where
  "loop_agrees a p s t \<longleftrightarrow>
     gl_framebuffer t = gl_framebuffer s \<and> gl_viewport t = gl_viewport s
     \<and> gl_program t = gl_program s \<and> gl_depth_mask t = gl_depth_mask s
     \<and> gl_enabled t = gl_enabled s \<and> gl_blend t = gl_blend s \<and> gl_vaos t = gl_vaos s
     \<and> (\<forall>q n. (q, n) \<noteq> (p, ''uModelMatrix'') \<longrightarrow> gl_uniforms t q n = gl_uniforms s q n)
     \<and> (\<not> active_uniforms a p ''uModelMatrix'' \<longrightarrow>
          gl_uniforms t p ''uModelMatrix'' = gl_uniforms s p ''uModelMatrix'')
     \<and> (\<forall>u. u \<noteq> 0 \<longrightarrow> gl_units t u = gl_units s u)"

text \<open>The GL state at the start of each pass's object loop, and the mirror draw.\<close>

definition reflection_setup :: "app \<Rightarrow> gl_state \<Rightarrow> gl_state" where
  "reflection_setup a s =
     gl_run (setupProgramUniforms a (program a) (calculateReflectionViewMatrix (camera a))
               (Some reflection_clipping_plane) (V3 (-5) 10 5))
       (gl_run [BindFramebuffer (Some (framebuffer (reflectionFBO a))),
                Viewport (fb_width (reflectionFBO a)) (fb_height (reflectionFBO a)),
                ClearColor 0.1 0.1 0.15 1, Clear, UseProgram (program a)] s)"

definition main_setup :: "app \<Rightarrow> gl_state \<Rightarrow> gl_state" where
  "main_setup a s =
     gl_run (setupProgramUniforms a (program a) (viewMatrix (camera a)) None (V3 5 10 5))
       (gl_run [Viewport (canvas_width (dom (camera a))) (canvas_height (dom (camera a))),
                ClearColor 0.05 0.05 0.1 1, Clear, UseProgram (program a)] s)"

definition glass_cmds :: "app \<Rightarrow> gl_cmd list" where
  "glass_cmds a =
     [UseProgram (glassProgram a), DepthMask False]
     @ setupGlassProgramUniforms a
     @ [BindTexture (Some (texture (reflectionFBO a))), BindVertexArray (vao (glassPlane a))]
     @ setModelMatrix a (glassProgram a) (modelMatrix (glassPlane a))
     @ [ActiveTexture 0, BindTexture (Some (glassTexture a)),
        ActiveTexture 1, BindTexture (Some (texture (reflectionFBO a))),
        DrawElements (count (glassPlane a)), DepthMask True]"

definition glass_draw :: "app \<Rightarrow> gl_state \<Rightarrow> draw_rec" where
  "glass_draw a t = last (gl_draws (gl_run (glass_cmds a) t))"

text \<open>The application as \<^verbatim>\<open>render()\<close> sees it once the camera and the counter are
  updated, before the two passes.\<close>

definition frame_app :: "real \<Rightarrow> app \<Rightarrow> app" where
  "frame_app now a = updateFPS now (a\<lparr>camera := update now (camera a)\<rparr>)"

subsection \<open>Invariant of the running application\<close>

text \<open>A renderable whose vertex array holds a well-formed mesh and whose count is
  that mesh's index count.\<close>

definition renderable_wf :: "gl_state \<Rightarrow> renderable \<Rightarrow> bool" where
  "renderable_wf s obj \<longleftrightarrow>
     (case gl_vaos s (vao obj) of None \<Rightarrow> False | Some m \<Rightarrow> mesh_wf m \<and> count obj = length (indices m))"

definition app_inv :: "app \<Rightarrow> bool" where
  "app_inv a \<longleftrightarrow> cam_inv (camera a)
     \<and> projectionMatrix (camera a) = projectionMatrix (updateProjectionMatrix (camera a))
     \<and> gl_framebuffer (gl a) = None \<and> gl_depth_mask (gl a)
     \<and> DEPTH_TEST \<in> gl_enabled (gl a) \<and> BLEND \<in> gl_enabled (gl a)
     \<and> gl_blend (gl a) = (SRC_ALPHA, ONE_MINUS_SRC_ALPHA)
     \<and> (\<forall>obj \<in> set (glassPlane a # objects a). renderable_wf (gl a) obj)
     \<and> length (objects a) \<le> length (textures a)
     \<and> (\<forall>t \<in> set (textures a). t < texture (reflectionFBO a))
     \<and> texture (reflectionFBO a) < gl_next_handle (gl a)
     \<and> gl_programs (gl a) (program a) \<noteq> None \<and> gl_programs (gl a) (glassProgram a) \<noteq> None"

text \<open>The draws one \<^verbatim>\<open>render()\<close> adds to the log.\<close>

definition frame_draws :: "real \<Rightarrow> app \<Rightarrow> draw_rec list" where
  "frame_draws now a = drop (length (gl_draws (gl a))) (gl_draws (gl (render now a)))"

text \<open>A draw call WebGL executes as intended: its vertex array holds a well-formed
  mesh and it draws exactly that mesh's indices, it runs a program the backend linked,
  unit 0 holds a texture, a draw into the
  reflection target does not sample that target's texture (a feedback loop), and depth
  testing and alpha blending are on.\<close>

definition draw_safe :: "app \<Rightarrow> draw_rec \<Rightarrow> bool" where
  "draw_safe a d \<longleftrightarrow>
     (case d_vao d of
        None \<Rightarrow> False
      | Some v \<Rightarrow> (case gl_vaos (gl a) v of None \<Rightarrow> False | Some m \<Rightarrow> mesh_wf m \<and> d_count d = length (indices m)))
     \<and> (case d_program d of None \<Rightarrow> False | Some p \<Rightarrow> gl_programs (gl a) p \<noteq> None)
     \<and> d_units d 0 \<noteq> None
     \<and> (d_framebuffer d = Some (framebuffer (reflectionFBO a)) \<longrightarrow> d_units d 0 \<noteq> Some (texture (reflectionFBO a)))
     \<and> DEPTH_TEST \<in> d_enabled d \<and> BLEND \<in> d_enabled d \<and> d_blend d = (SRC_ALPHA, ONE_MINUS_SRC_ALPHA)"


subsection \<open>GL execution lemmas\<close>

lemma set_uniform_run:
  "gl_uniforms (gl_run (set_uniform a p n v) s) q m =
     (if gl_program s = Some q \<and> m = n \<and> active_uniforms a p n then Some v else gl_uniforms s q m)"
  "gl_program (gl_run (set_uniform a p n v) s) = gl_program s"
  "gl_framebuffer (gl_run (set_uniform a p n v) s) = gl_framebuffer s"
  "gl_viewport (gl_run (set_uniform a p n v) s) = gl_viewport s"
  "gl_depth_mask (gl_run (set_uniform a p n v) s) = gl_depth_mask s"
  "gl_draws (gl_run (set_uniform a p n v) s) = gl_draws s"
  "gl_units (gl_run (set_uniform a p n v) s) = gl_units s"
  "gl_active_unit (gl_run (set_uniform a p n v) s) = gl_active_unit s"
  "gl_enabled (gl_run (set_uniform a p n v) s) = gl_enabled s"
  "gl_blend (gl_run (set_uniform a p n v) s) = gl_blend s"
  "gl_vaos (gl_run (set_uniform a p n v) s) = gl_vaos s"
  "gl_vao (gl_run (set_uniform a p n v) s) = gl_vao s"
  by (auto simp: set_uniform_def split: option.splits)

lemma loop_agrees_refl [simp]: "loop_agrees a p s s"
  by (simp add: loop_agrees_def)

lemma loop_agrees_trans: "loop_agrees a p s t \<Longrightarrow> loop_agrees a p t u \<Longrightarrow> loop_agrees a p s u"
  by (simp add: loop_agrees_def)

lemma object_draw_agrees: "loop_agrees a p s t \<Longrightarrow> object_draw a p t = object_draw a p s"
proof (rule ext)
  fix io
  assume h: "loop_agrees a p s t"
  have u: "(gl_uniforms t p)(''uModelMatrix'' := if active_uniforms a p ''uModelMatrix'' then Some (UMat m)
             else gl_uniforms t p ''uModelMatrix'')
         = (gl_uniforms s p)(''uModelMatrix'' := if active_uniforms a p ''uModelMatrix'' then Some (UMat m)
             else gl_uniforms s p ''uModelMatrix'')" for m
    using h by (auto simp: loop_agrees_def)
  have un: "(gl_units t)(0 := x) = (gl_units s)(0 := x)" for x
    using h by (auto simp: loop_agrees_def)
  show "object_draw a p t io = object_draw a p s io"
    using h u un by (simp add: object_draw_def loop_agrees_def split_def)
qed

lemma draw_object_run:
  assumes "gl_program s = Some p"
  shows "gl_draws (gl_run (draw_object a p io) s) = gl_draws s @ [object_draw a p s io]
         \<and> loop_agrees a p s (gl_run (draw_object a p io) s)"
proof (cases "active_uniforms a p ''uModelMatrix''")
  case True
  then show ?thesis using assms
    by (simp add: draw_object_def object_draw_def setModelMatrix_def set_uniform_def loop_agrees_def
        split_def)
next
  case False
  then show ?thesis using assms
    by (simp add: draw_object_def object_draw_def setModelMatrix_def set_uniform_def loop_agrees_def
        split_def)
qed

lemma draw_object_list_run:
  "gl_program s = Some p \<Longrightarrow>
     gl_draws (gl_run (concat (map (draw_object a p) (enumerate k xs))) s)
       = gl_draws s @ map (object_draw a p s) (enumerate k xs)
     \<and> loop_agrees a p s (gl_run (concat (map (draw_object a p) (enumerate k xs))) s)"
proof (induction xs arbitrary: s k)
  case Nil
  then show ?case by simp
next
  case (Cons x xs)
  let ?t = "gl_run (draw_object a p (k, x)) s"
  let ?rest = "concat (map (draw_object a p) (enumerate (Suc k) xs))"
  from draw_object_run [OF Cons.prems, of a "(k, x)"]
  have d1: "gl_draws ?t = gl_draws s @ [object_draw a p s (k, x)]" and g1: "loop_agrees a p s ?t" by simp_all
  then have "gl_program ?t = Some p" using Cons.prems by (simp add: loop_agrees_def)
  from Cons.IH [OF this, of "Suc k"]
  have d2: "gl_draws (gl_run ?rest ?t) = gl_draws ?t @ map (object_draw a p ?t) (enumerate (Suc k) xs)"
    and g2: "loop_agrees a p ?t (gl_run ?rest ?t)" by simp_all
  have "object_draw a p ?t = object_draw a p s" using g1 by (rule object_draw_agrees)
  then show ?case using d1 d2 loop_agrees_trans [OF g1 g2] by simp
qed

lemma draw_objects_run:
  "gl_program s = Some p \<Longrightarrow>
     gl_draws (gl_run (draw_objects a p) s) = gl_draws s @ map (object_draw a p s) (enumerate 0 (objects a))
     \<and> loop_agrees a p s (gl_run (draw_objects a p) s)"
  unfolding draw_objects_def by (rule draw_object_list_run)

lemma renderReflectionPass_split:
  "gl_run (renderReflectionPass a) s
   = gl_exec (BindFramebuffer None) (gl_run (draw_objects a (program a)) (reflection_setup a s))"
  by (simp add: renderReflectionPass_def reflection_setup_def Let_def)

lemma renderMainScene_split:
  "gl_run (renderMainScene a) s = gl_run (glass_cmds a) (gl_run (draw_objects a (program a)) (main_setup a s))"
  by (simp add: renderMainScene_def main_setup_def glass_cmds_def)

lemma reflection_setup_facts:
  "gl_framebuffer (reflection_setup a s) = Some (framebuffer (reflectionFBO a))"
  "gl_viewport (reflection_setup a s) = (fb_width (reflectionFBO a), fb_height (reflectionFBO a))"
  "gl_program (reflection_setup a s) = Some (program a)"
  "gl_depth_mask (reflection_setup a s) = gl_depth_mask s"
  "gl_enabled (reflection_setup a s) = gl_enabled s"
  "gl_blend (reflection_setup a s) = gl_blend s"
  "gl_vaos (reflection_setup a s) = gl_vaos s"
  "gl_draws (reflection_setup a s) = gl_draws s"
  "active_uniforms a (program a) ''uViewMatrix'' \<Longrightarrow>
     gl_uniforms (reflection_setup a s) (program a) ''uViewMatrix'' = Some (UMat (calculateReflectionViewMatrix (camera a)))"
  "active_uniforms a (program a) ''uClippingPlane'' \<Longrightarrow>
     gl_uniforms (reflection_setup a s) (program a) ''uClippingPlane'' = Some (UVec4 1 0 0 0)"
  "active_uniforms a (program a) ''uLightPosition'' \<Longrightarrow>
     gl_uniforms (reflection_setup a s) (program a) ''uLightPosition'' = Some (UVec3 (V3 (-5) 10 5))"
  by (simp_all add: reflection_setup_def setupProgramUniforms_def set_uniform_run reflection_clipping_plane_def)

lemma main_setup_facts:
  "gl_framebuffer (main_setup a s) = gl_framebuffer s"
  "gl_viewport (main_setup a s) = (canvas_width (dom (camera a)), canvas_height (dom (camera a)))"
  "gl_program (main_setup a s) = Some (program a)"
  "gl_depth_mask (main_setup a s) = gl_depth_mask s"
  "gl_enabled (main_setup a s) = gl_enabled s"
  "gl_blend (main_setup a s) = gl_blend s"
  "gl_vaos (main_setup a s) = gl_vaos s"
  "gl_draws (main_setup a s) = gl_draws s"
  "active_uniforms a (program a) ''uViewMatrix'' \<Longrightarrow>
     gl_uniforms (main_setup a s) (program a) ''uViewMatrix'' = Some (UMat (viewMatrix (camera a)))"
  "active_uniforms a (program a) ''uClippingPlane'' \<Longrightarrow>
     gl_uniforms (main_setup a s) (program a) ''uClippingPlane'' = Some (UVec4 0 0 0 0)"
  "active_uniforms a (program a) ''uLightPosition'' \<Longrightarrow>
     gl_uniforms (main_setup a s) (program a) ''uLightPosition'' = Some (UVec3 (V3 5 10 5))"
  by (simp_all add: main_setup_def setupProgramUniforms_def set_uniform_run)

lemma glass_run:
  "gl_draws (gl_run (glass_cmds a) t) = gl_draws t @ [glass_draw a t]"
  "gl_depth_mask (gl_run (glass_cmds a) t)"
  "gl_framebuffer (gl_run (glass_cmds a) t) = gl_framebuffer t"
  "gl_enabled (gl_run (glass_cmds a) t) = gl_enabled t"
  "gl_blend (gl_run (glass_cmds a) t) = gl_blend t"
  "gl_vaos (gl_run (glass_cmds a) t) = gl_vaos t"
  "d_framebuffer (glass_draw a t) = gl_framebuffer t"
  "d_viewport (glass_draw a t) = gl_viewport t"
  "d_program (glass_draw a t) = Some (glassProgram a)"
  "\<not> d_depth_mask (glass_draw a t)"
  "d_enabled (glass_draw a t) = gl_enabled t"
  "d_blend (glass_draw a t) = gl_blend t"
  "d_vao (glass_draw a t) = Some (vao (glassPlane a))"
  "d_units (glass_draw a t) 0 = Some (glassTexture a)"
  "d_units (glass_draw a t) 1 = Some (texture (reflectionFBO a))"
  "d_count (glass_draw a t) = count (glassPlane a)"
  "active_uniforms a (glassProgram a) ''uReflectionViewProjectionMatrix'' \<Longrightarrow>
     d_uniforms (glass_draw a t) ''uReflectionViewProjectionMatrix''
       = Some (UMat (multiplyMatrices (projectionMatrix (camera a)) (calculateReflectionViewMatrix (camera a))))"
  "active_uniforms a (glassProgram a) ''uTransparency'' \<Longrightarrow>
     d_uniforms (glass_draw a t) ''uTransparency'' = Some (UFloat (transparency a))"
  by (simp_all add: glass_draw_def glass_cmds_def setupGlassProgramUniforms_def setModelMatrix_def
      set_uniform_run Let_def)

lemma updateFPS_fields [simp]:
  "camera (updateFPS now a) = camera a" "gl (updateFPS now a) = gl a" "program (updateFPS now a) = program a"
  "glassProgram (updateFPS now a) = glassProgram a" "objects (updateFPS now a) = objects a"
  "glassPlane (updateFPS now a) = glassPlane a" "textures (updateFPS now a) = textures a"
  "glassTexture (updateFPS now a) = glassTexture a" "reflectionFBO (updateFPS now a) = reflectionFBO a"
  "transparency (updateFPS now a) = transparency a" "active_uniforms (updateFPS now a) = active_uniforms a"
  by (simp_all add: updateFPS_def Let_def)

lemma draw_object_gl [simp]: "draw_object (a\<lparr>gl := s\<rparr>) p = draw_object a p"
  by (rule ext) (simp add: draw_object_def setModelMatrix_def set_uniform_def split_def)

lemma pass_cmds_gl_indep:
  "renderReflectionPass (a\<lparr>gl := s\<rparr>) = renderReflectionPass a"
  "renderMainScene (a\<lparr>gl := s\<rparr>) = renderMainScene a"
  by (simp_all add: renderReflectionPass_def renderMainScene_def setupProgramUniforms_def
      setupGlassProgramUniforms_def draw_objects_def setModelMatrix_def set_uniform_def Let_def)

lemma render_gl:
  "gl (render now a) = gl_run (renderMainScene (frame_app now a))
                         (gl_run (renderReflectionPass (frame_app now a)) (gl a))"
  by (simp add: render_def frame_app_def Let_def pass_cmds_gl_indep)

lemma frame_app_fields [simp]:
  "camera (frame_app now a) = update now (camera a)" "gl (frame_app now a) = gl a"
  "program (frame_app now a) = program a" "glassProgram (frame_app now a) = glassProgram a"
  "objects (frame_app now a) = objects a" "glassPlane (frame_app now a) = glassPlane a"
  "textures (frame_app now a) = textures a"
  "glassTexture (frame_app now a) = glassTexture a" "reflectionFBO (frame_app now a) = reflectionFBO a"
  "transparency (frame_app now a) = transparency a" "active_uniforms (frame_app now a) = active_uniforms a"
  by (simp_all add: frame_app_def)

lemma object_draw_fields [simp]:
  "d_framebuffer (object_draw a p s io) = gl_framebuffer s"
  "d_viewport (object_draw a p s io) = gl_viewport s"
  "d_program (object_draw a p s io) = gl_program s"
  "d_depth_mask (object_draw a p s io) = gl_depth_mask s"
  "d_enabled (object_draw a p s io) = gl_enabled s"
  "d_blend (object_draw a p s io) = gl_blend s"
  "d_vao (object_draw a p s io) = Some (vao (snd io))"
  "d_count (object_draw a p s io) = count (snd io)"
  "d_units (object_draw a p s io) 0 = js_index (textures a) (fst io)"
  "n \<noteq> ''uModelMatrix'' \<Longrightarrow> d_uniforms (object_draw a p s io) n = gl_uniforms s p n"
  "active_uniforms a p ''uModelMatrix'' \<Longrightarrow>
     d_uniforms (object_draw a p s io) ''uModelMatrix'' = Some (UMat (modelMatrix (snd io)))"
  by (simp_all add: object_draw_def split_def)

text \<open>The draws of one \<^verbatim>\<open>render()\<close>, in terms of the states the two passes start from.\<close>

lemma frame_structure:
  fixes now a
  defines "a1 \<equiv> frame_app now a"
  defines "s1 \<equiv> gl_run (renderReflectionPass a1) (gl a)"
  defines "t \<equiv> gl_run (draw_objects a1 (program a)) (main_setup a1 s1)"
  shows "gl_draws (gl (render now a)) = gl_draws (gl a)
            @ map (object_draw a1 (program a) (reflection_setup a1 (gl a))) (enumerate 0 (objects a))
            @ map (object_draw a1 (program a) (main_setup a1 s1)) (enumerate 0 (objects a))
            @ [glass_draw a1 t]"
    and "gl_framebuffer s1 = None" and "gl_depth_mask s1 = gl_depth_mask (gl a)"
    and "gl_enabled s1 = gl_enabled (gl a)" and "gl_blend s1 = gl_blend (gl a)"
    and "gl_vaos s1 = gl_vaos (gl a)"
    and "loop_agrees a1 (program a) (main_setup a1 s1) t"
    and "gl (render now a) = gl_run (glass_cmds a1) t"
proof -
  have rp: "gl_program (reflection_setup a1 (gl a)) = Some (program a1)"
    and mp: "gl_program (main_setup a1 s1) = Some (program a1)"
    by (simp_all add: reflection_setup_facts main_setup_facts)
  note r = draw_objects_run [OF rp, of a1] and m = draw_objects_run [OF mp, of a1]
  show g: "gl (render now a) = gl_run (glass_cmds a1) t"
    by (simp add: render_gl renderMainScene_split a1_def s1_def t_def)
  show "loop_agrees a1 (program a) (main_setup a1 s1) t" using m by (simp add: t_def a1_def)
  show "gl_framebuffer s1 = None" by (simp add: s1_def renderReflectionPass_split)
  show "gl_depth_mask s1 = gl_depth_mask (gl a)" "gl_enabled s1 = gl_enabled (gl a)"
       "gl_blend s1 = gl_blend (gl a)" "gl_vaos s1 = gl_vaos (gl a)"
    using r by (simp_all add: s1_def renderReflectionPass_split loop_agrees_def reflection_setup_facts)
  show "gl_draws (gl (render now a)) = gl_draws (gl a)
            @ map (object_draw a1 (program a) (reflection_setup a1 (gl a))) (enumerate 0 (objects a))
            @ map (object_draw a1 (program a) (main_setup a1 s1)) (enumerate 0 (objects a))
            @ [glass_draw a1 t]"
    using r m by (simp add: g glass_run t_def s1_def renderReflectionPass_split main_setup_facts
        reflection_setup_facts a1_def)
qed

subsection \<open>The application invariant\<close>

lemma render_fields [simp]:
  "camera (render now a) = update now (camera a)" "objects (render now a) = objects a"
  "glassPlane (render now a) = glassPlane a" "textures (render now a) = textures a"
  "reflectionFBO (render now a) = reflectionFBO a" "program (render now a) = program a"
  "glassProgram (render now a) = glassProgram a"
  by (simp_all add: render_def Let_def)

lemma update_frame [simp]:
  "dom (update now c) = dom c" "projectionMatrix (update now c) = projectionMatrix c"
  by (simp_all add: update_def Let_def)

lemma reset_frame [simp]:
  "dom (reset now c) = dom c" "projectionMatrix (reset now c) = projectionMatrix c"
  by (simp_all add: reset_def)

lemma look_delta_frame [simp]:
  "dom (look_delta dx dy c) = dom c" "projectionMatrix (look_delta dx dy c) = projectionMatrix c"
  by (simp_all add: look_delta_def updateViewMatrix_def Let_def)

lemma fallback_mousemoves_frame:
  "dom (snd (fallback_mousemoves x y ls c)) = dom c
   \<and> projectionMatrix (snd (fallback_mousemoves x y ls c)) = projectionMatrix c"
  by (induction ls arbitrary: c) (simp_all add: fallback_mousemove_def split_def Let_def)

lemma camera_event_frame:
  "canvas_width (dom (fst (camera_event e c))) = canvas_width (dom c)
   \<and> canvas_height (dom (fst (camera_event e c))) = canvas_height (dom c)
   \<and> projectionMatrix (fst (camera_event e c)) = projectionMatrix c"
proof (cases e)
  case (MouseMove mx my cx cy)
  then show ?thesis
    using fallback_mousemoves_frame [of cx cy "fallback_listeners (locked_mousemove mx my c)"
        "locked_mousemove mx my c"]
    by (simp add: mousemove_def locked_mousemove_def split_def Let_def)
next
  case (CanvasClick r)
  then show ?thesis
    by (auto simp: canvas_click_def setupFallbackMouseControls_def split: lock_outcome.splits sum.splits)
qed (simp_all add: keydown_keys_def keyup_def pointerlockchange_def wheel_def Let_def split_def)

lemma proj_ok_frame:
  "canvas_width (dom c') = canvas_width (dom c) \<Longrightarrow> canvas_height (dom c') = canvas_height (dom c)
   \<Longrightarrow> projectionMatrix c' = projectionMatrix c
   \<Longrightarrow> projectionMatrix c = projectionMatrix (updateProjectionMatrix c)
   \<Longrightarrow> projectionMatrix c' = projectionMatrix (updateProjectionMatrix c')"
  by (simp add: updateProjectionMatrix_def)

lemma app_inv_render: "app_inv a \<Longrightarrow> app_inv (render now a)"
proof -
  assume inv: "app_inv a"
  let ?a1 = "frame_app now a"
  let ?s1 = "gl_run (renderReflectionPass ?a1) (gl a)"
  let ?t = "gl_run (draw_objects ?a1 (program a)) (main_setup ?a1 ?s1)"
  note f = frame_structure [of now a]
  have g: "gl (render now a) = gl_run (glass_cmds ?a1) ?t" using f by simp
  have t: "gl_framebuffer ?t = None" "gl_enabled ?t = gl_enabled (gl a)" "gl_blend ?t = gl_blend (gl a)"
    using f by (simp_all add: loop_agrees_def main_setup_facts)
  have "gl_depth_mask (gl (render now a))" "gl_framebuffer (gl (render now a)) = None"
       "gl_enabled (gl (render now a)) = gl_enabled (gl a)" "gl_blend (gl (render now a)) = gl_blend (gl a)"
       "gl_vaos (gl (render now a)) = gl_vaos (gl a)"
    unfolding g using t by (simp_all add: glass_run main_setup_facts)
  moreover have "gl_next_handle (gl (render now a)) = gl_next_handle (gl a)"
    "gl_programs (gl (render now a)) = gl_programs (gl a)" by (simp_all add: render_gl)
  moreover have "cam_inv (update now (camera a))" using inv by (simp add: app_inv_def cam_inv_update)
  moreover have "renderable_wf (gl (render now a)) = renderable_wf (gl a)"
    by (rule ext) (simp add: renderable_wf_def g main_setup_facts)
  ultimately show ?thesis using inv by (simp add: app_inv_def updateProjectionMatrix_def)
qed

lemma renderable_wf_vaos: "gl_vaos t = gl_vaos s \<Longrightarrow> renderable_wf t = renderable_wf s"
  by (rule ext) (simp add: renderable_wf_def)

lemma updateProjectionMatrix_proj_ok [simp]:
  "projectionMatrix (updateProjectionMatrix (updateProjectionMatrix c))
   = projectionMatrix (updateProjectionMatrix c)"
  by (simp add: updateProjectionMatrix_def)

lemma createFramebuffers_eq:
  "createFramebuffers fbOk a =
     (if fbOk
      then Inr (a\<lparr>reflectionFBO := \<lparr>framebuffer = gl_next_handle (gl a), texture = Suc (gl_next_handle (gl a)),
                  fb_width = canvas_width (dom (camera a)), fb_height = canvas_height (dom (camera a))\<rparr>,
                gl := (gl a)\<lparr>gl_next_handle := gl_next_handle (gl a) + 2\<rparr>\<rparr>)
      else Inl FramebufferError)"
  by (simp add: createFramebuffers_def createFramebuffer_def)

lemma createFramebuffers_Inr_iff:
  "createFramebuffers fbOk a = Inr a' \<longleftrightarrow>
     fbOk \<and> a' = a\<lparr>reflectionFBO := \<lparr>framebuffer = gl_next_handle (gl a), texture = Suc (gl_next_handle (gl a)),
                  fb_width = canvas_width (dom (camera a)), fb_height = canvas_height (dom (camera a))\<rparr>,
                gl := (gl a)\<lparr>gl_next_handle := gl_next_handle (gl a) + 2\<rparr>\<rparr>"
  by (auto simp: createFramebuffers_eq)

lemma createFramebuffers_Inr:
  assumes "createFramebuffers fbOk a = Inr a'"
  shows "camera a' = camera a" "objects a' = objects a" "glassPlane a' = glassPlane a"
    "textures a' = textures a" "program a' = program a" "glassProgram a' = glassProgram a"
    "active_uniforms a' = active_uniforms a" "gl_vaos (gl a') = gl_vaos (gl a)"
    "gl_programs (gl a') = gl_programs (gl a)"
  using assms by (auto simp: createFramebuffers_eq split: if_splits)

lemma app_inv_resize_canvas: "app_inv a \<Longrightarrow> app_inv (resize_canvas w h a)"
proof -
  assume inv: "app_inv a"
  have "cam_inv (updateProjectionMatrix ((camera a)\<lparr>dom := (dom (camera a))\<lparr>canvas_width := w, canvas_height := h\<rparr>\<rparr>))"
    using inv by (simp add: app_inv_def cam_inv_resize)
  moreover have "renderable_wf (gl (resize_canvas w h a)) = renderable_wf (gl a)"
    by (rule renderable_wf_vaos) (simp add: resize_canvas_def Let_def)
  ultimately show ?thesis using inv by (simp add: app_inv_def resize_canvas_def Let_def)
qed

lemma app_inv_createFramebuffers:
  assumes inv: "app_inv a" and r: "createFramebuffers fbOk a = Inr a'"
  shows "app_inv a'"
proof -
  have "\<forall>t \<in> set (textures a). t < Suc (gl_next_handle (gl a))"
  proof
    fix t assume "t \<in> set (textures a)"
    with inv have "t < texture (reflectionFBO a)" "texture (reflectionFBO a) < gl_next_handle (gl a)"
      by (auto simp: app_inv_def)
    then show "t < Suc (gl_next_handle (gl a))" by simp
  qed
  moreover have "renderable_wf ((gl a)\<lparr>gl_next_handle := n\<rparr>) = renderable_wf (gl a)" for n
    by (rule renderable_wf_vaos) simp
  ultimately show ?thesis using inv r by (simp add: app_inv_def createFramebuffers_Inr_iff)
qed

lemma app_inv_camera:
  "app_inv a \<Longrightarrow> cam_inv c \<Longrightarrow> dom c = dom (camera a) \<Longrightarrow> projectionMatrix c = projectionMatrix (camera a)
   \<Longrightarrow> app_inv (a\<lparr>camera := c\<rparr>)"
  by (simp add: app_inv_def updateProjectionMatrix_def)

lemma app_inv_step: "app_inv a \<Longrightarrow> app_inv (app_step now e a)"
proof (cases e)
  case (DomInput ev)
  assume inv: "app_inv a"
  let ?c = "fst (camera_event ev (camera a))"
  have fr: "canvas_width (dom ?c) = canvas_width (dom (camera a))"
     "canvas_height (dom ?c) = canvas_height (dom (camera a))"
     "projectionMatrix ?c = projectionMatrix (camera a)"
    using camera_event_frame by blast+
  have ci: "cam_inv ?c" using inv by (simp add: app_inv_def cam_inv_camera_event)
  have a1: "app_inv (a\<lparr>camera := ?c\<rparr>)"
    using inv ci fr by (simp add: app_inv_def updateProjectionMatrix_def)
  have a2: "app_inv (a\<lparr>camera := reset now ?c\<rparr>)"
    using a1 by (simp add: app_inv_def cam_inv_reset updateProjectionMatrix_def)
  have "app_step now e a = a\<lparr>camera := ?c\<rparr> \<or> app_step now e a = a\<lparr>camera := reset now ?c\<rparr>"
    using DomInput by (cases ev) (simp_all add: Let_def del: camera_event.simps)
  then show ?thesis using a1 a2 by auto
next
  case AnimationFrame
  assume "app_inv a"
  then show ?thesis using AnimationFrame by (simp add: app_inv_render)
next
  case (WindowResize w h fbOk)
  assume "app_inv a"
  then have c: "app_inv (resize_canvas w h a)" by (rule app_inv_resize_canvas)
  then show ?thesis using WindowResize app_inv_createFramebuffers [OF c]
    by (auto simp: resize_listener_def resize_def split: sum.splits)
next
  case (TransparencyInput v)
  assume "app_inv a"
  then show ?thesis using TransparencyInput by (simp add: app_inv_def)
next
  case ResetButtonClick
  assume "app_inv a"
  then show ?thesis using ResetButtonClick
    by (simp add: app_inv_def cam_inv_reset updateProjectionMatrix_def)
qed

lemma app_inv_setup:
  assumes "cam_inv (camera a)"
    and "projectionMatrix (camera a) = projectionMatrix (updateProjectionMatrix (camera a))"
    and "gl_framebuffer (gl a) = None" and "gl_depth_mask (gl a)"
    and "DEPTH_TEST \<in> gl_enabled (gl a)" and "BLEND \<in> gl_enabled (gl a)"
    and "gl_blend (gl a) = (SRC_ALPHA, ONE_MINUS_SRC_ALPHA)"
    and "objects a = []" and "textures a = []"
    and "gl_programs (gl a) (program a) \<noteq> None" and "gl_programs (gl a) (glassProgram a) \<noteq> None"
    and "createFramebuffers fbOk (createTextures (createGeometry a)) = Inr a'"
  shows "app_inv a'"
  using assms mesh_wf_cube mesh_wf_sphere [of 1 32] mesh_wf_plane [of 15 10]
  by (simp add: app_inv_def createFramebuffers_Inr_iff createTextures_def loadTexture_def
      createGeometry_def createVAO_def renderable_wf_def Let_def split_def)

subsection \<open>Startup with events during loading\<close>

lemma resize_listener_eq:
  "resize_listener fbOk w h a =
     (if fbOk then projr (createFramebuffers True (resize_canvas w h a)) else resize_canvas w h a)"
  by (simp add: resize_listener_def resize_def createFramebuffers_eq)

lemma loading_event_fields [simp]:
  "objects (loading_event e a) = objects a \<and> textures (loading_event e a) = textures a
   \<and> program (loading_event e a) = program a \<and> glassProgram (loading_event e a) = glassProgram a
   \<and> active_uniforms (loading_event e a) = active_uniforms a
   \<and> gl_programs (gl (loading_event e a)) = gl_programs (gl a)
   \<and> gl_framebuffer (gl (loading_event e a)) = gl_framebuffer (gl a)
   \<and> gl_depth_mask (gl (loading_event e a)) = gl_depth_mask (gl a)
   \<and> gl_enabled (gl (loading_event e a)) = gl_enabled (gl a)
   \<and> gl_blend (gl (loading_event e a)) = gl_blend (gl a)"
  by (cases e) (simp_all add: resize_listener_eq createFramebuffers_eq resize_canvas_def Let_def)

lemma fold_loading_fields [simp]:
  "objects (fold loading_event es a) = objects a \<and> textures (fold loading_event es a) = textures a
   \<and> program (fold loading_event es a) = program a
   \<and> glassProgram (fold loading_event es a) = glassProgram a
   \<and> active_uniforms (fold loading_event es a) = active_uniforms a
   \<and> gl_programs (gl (fold loading_event es a)) = gl_programs (gl a)
   \<and> gl_framebuffer (gl (fold loading_event es a)) = gl_framebuffer (gl a)
   \<and> gl_depth_mask (gl (fold loading_event es a)) = gl_depth_mask (gl a)
   \<and> gl_enabled (gl (fold loading_event es a)) = gl_enabled (gl a)
   \<and> gl_blend (gl (fold loading_event es a)) = gl_blend (gl a)"
  by (induction es arbitrary: a) simp_all

lemma fold_loading_next_handle: "gl_next_handle (gl a) \<le> gl_next_handle (gl (fold loading_event es a))"
proof (induction es arbitrary: a)
  case (Cons e es)
  have "gl_next_handle (gl a) \<le> gl_next_handle (gl (loading_event e a))"
    by (cases e) (simp_all add: resize_listener_eq createFramebuffers_eq resize_canvas_def Let_def)
  then show ?case using Cons.IH [of "loading_event e a"] by simp
qed simp

text \<open>What the listeners keep true of the camera while the shaders load.\<close>

lemma loading_event_camera:
  assumes "cam_inv (camera a)"
    and "projectionMatrix (camera a) = projectionMatrix (updateProjectionMatrix (camera a))"
  shows "cam_inv (camera (loading_event e a))
    \<and> projectionMatrix (camera (loading_event e a))
        = projectionMatrix (updateProjectionMatrix (camera (loading_event e a)))"
proof (cases e)
  case (DomInput ev)
  let ?c = "fst (camera_event ev (camera a))"
  have fr: "canvas_width (dom ?c) = canvas_width (dom (camera a))"
     "canvas_height (dom ?c) = canvas_height (dom (camera a))"
     "projectionMatrix ?c = projectionMatrix (camera a)"
    using camera_event_frame by blast+
  have "projectionMatrix ?c = projectionMatrix (updateProjectionMatrix ?c)"
    by (rule proj_ok_frame [OF fr assms(2)])
  moreover have "cam_inv ?c" using assms(1) by (rule cam_inv_camera_event)
  ultimately show ?thesis using DomInput by simp
next
  case (WindowResize w h fbOk)
  have "cam_inv (camera (resize_canvas w h a))"
    "projectionMatrix (camera (resize_canvas w h a))
       = projectionMatrix (updateProjectionMatrix (camera (resize_canvas w h a)))"
    using assms(1) cam_inv_resize [of "camera a"] by (simp_all add: resize_canvas_def Let_def)
  then show ?thesis using WindowResize by (simp add: resize_listener_eq createFramebuffers_eq)
qed (simp_all add: assms)


lemma fold_loading_camera:
  assumes "cam_inv (camera a)"
    and "projectionMatrix (camera a) = projectionMatrix (updateProjectionMatrix (camera a))"
  shows "cam_inv (camera (fold loading_event es a))
    \<and> projectionMatrix (camera (fold loading_event es a))
        = projectionMatrix (updateProjectionMatrix (camera (fold loading_event es a)))"
  using assms
proof (induction es arbitrary: a)
  case (Cons e es)
  then show ?case using loading_event_camera [OF Cons.prems, of e] Cons.IH [of "loading_event e a"] by simp
qed simp

text \<open>The shader files \<^verbatim>\<open>loadShaders\<close> fetches decide its outcome: it fails with
  \<open>ShaderError\<close> unless all four arrive and both pairs link, whatever events arrive
  meanwhile.\<close>

lemma loadShaders_outcome:
  "loadShaders env during a =
     (if (case (shader_file env ''shaders/vertex.glsl'', shader_file env ''shaders/fragment.glsl'',
            shader_file env ''shaders/glass.v.glsl'', shader_file env ''shaders/glass.glsl'') of
        (Some v, Some f, Some gv, Some gf) \<Rightarrow> links env v f \<and> links env gv gf
      | _ \<Rightarrow> False)
      then Inr (projr (loadShaders env during a)) else Inl ShaderError)"
  by (simp add: loadShaders_def loadShaderFromFile_def createProgram_def Let_def split: option.splits)

lemma loadShaders_Inr:
  assumes "loadShaders env during a = Inr l"
  shows "objects l = objects a \<and> textures l = textures a \<and> active_uniforms l = active_uniforms a
     \<and> gl_framebuffer (gl l) = gl_framebuffer (gl a) \<and> gl_depth_mask (gl l) = gl_depth_mask (gl a)
     \<and> gl_enabled (gl l) = gl_enabled (gl a) \<and> gl_blend (gl l) = gl_blend (gl a)
     \<and> (cam_inv (camera a) \<and> projectionMatrix (camera a) = projectionMatrix (updateProjectionMatrix (camera a))
        \<longrightarrow> cam_inv (camera l)
            \<and> projectionMatrix (camera l) = projectionMatrix (updateProjectionMatrix (camera l)))
     \<and> gl_programs (gl l) (program l)
         = Some (the (shader_file env ''shaders/vertex.glsl''), the (shader_file env ''shaders/fragment.glsl''))
     \<and> gl_programs (gl l) (glassProgram l)
         = Some (the (shader_file env ''shaders/glass.v.glsl''), the (shader_file env ''shaders/glass.glsl''))
     \<and> program l \<noteq> glassProgram l"
proof -
  obtain v f gv gf where s: "shader_file env ''shaders/vertex.glsl'' = Some v"
      "shader_file env ''shaders/fragment.glsl'' = Some f" "shader_file env ''shaders/glass.v.glsl'' = Some gv"
      "shader_file env ''shaders/glass.glsl'' = Some gf"
    using assms by (auto simp: loadShaders_def loadShaderFromFile_def Let_def split: option.splits)
  define a3 where "a3 = fold loading_event (during 3) (fold loading_event (during 2)
      (fold loading_event (during 1) (fold loading_event (during 0) a)))"
  define p where "p = gl_next_handle (gl a3)"
  define a4 where "a4 = (fold loading_event (during 4) (a3\<lparr>gl := (gl a3)\<lparr>gl_programs := (gl_programs (gl a3))(p \<mapsto> (v, f)),
      gl_next_handle := Suc p\<rparr>\<rparr>))\<lparr>program := p\<rparr>"
  define q where "q = gl_next_handle (gl a4)"
  have l: "l = (fold loading_event (during 5) (a4\<lparr>gl := (gl a4)\<lparr>gl_programs := (gl_programs (gl a4))(q \<mapsto> (gv, gf)),
      gl_next_handle := Suc q\<rparr>\<rparr>))\<lparr>glassProgram := q\<rparr>"
    using assms by (simp add: loadShaders_def loadShaderFromFile_def createProgram_def s a3_def p_def a4_def q_def
        Let_def split: if_splits)
  have "Suc p \<le> q"
    using fold_loading_next_handle [of "a3\<lparr>gl := (gl a3)\<lparr>gl_programs := (gl_programs (gl a3))(p \<mapsto> (v, f)),
      gl_next_handle := Suc p\<rparr>\<rparr>" "during 4"] by (simp add: q_def a4_def)
  then have pq: "p \<noteq> q" by simp
  have c: "cam_inv (camera (fold loading_event es x))
      \<and> projectionMatrix (camera (fold loading_event es x))
          = projectionMatrix (updateProjectionMatrix (camera (fold loading_event es x)))"
    if "cam_inv (camera x)" "projectionMatrix (camera x) = projectionMatrix (updateProjectionMatrix (camera x))"
    for x es using that by (rule fold_loading_camera)
  show ?thesis using pq s by (simp add: l a4_def a3_def c)
qed

lemma app_start_shape:
  assumes "app_start canvas t0 webgl2 active w h fbr env during fbi t1 = Inr a"
  shows "\<exists>l a'. createFramebuffers fbi (createTextures (createGeometry l)) = Inr a' \<and> a = render t1 a'
     \<and> cam_inv (camera l)
     \<and> projectionMatrix (camera l) = projectionMatrix (updateProjectionMatrix (camera l))
     \<and> gl_framebuffer (gl l) = None \<and> gl_depth_mask (gl l)
     \<and> DEPTH_TEST \<in> gl_enabled (gl l) \<and> BLEND \<in> gl_enabled (gl l)
     \<and> gl_blend (gl l) = (SRC_ALPHA, ONE_MINUS_SRC_ALPHA)
     \<and> objects l = [] \<and> textures l = [] \<and> active_uniforms l = active
     \<and> gl_programs (gl l) (program l)
         = Some (the (shader_file env ''shaders/vertex.glsl''), the (shader_file env ''shaders/fragment.glsl''))
     \<and> gl_programs (gl l) (glassProgram l)
         = Some (the (shader_file env ''shaders/glass.v.glsl''), the (shader_file env ''shaders/glass.glsl''))
     \<and> program l \<noteq> glassProgram l"
proof -
  obtain a0 where a0: "WebGLApp canvas t0 webgl2 active = Inr a0"
    and i: "init w h fbr env during fbi t1 a0 = Inr a"
    using assms by (auto simp: app_start_def split: sum.splits)
  obtain a1 l a' where r: "resize fbr w h a0 = Inr a1"
    and ls: "loadShaders env during (a1\<lparr>gl := gl_run [Enable DEPTH_TEST, Enable BLEND,
               BlendFunc SRC_ALPHA ONE_MINUS_SRC_ALPHA] (gl a1)\<rparr>) = Inr l"
    and f: "createFramebuffers fbi (createTextures (createGeometry l)) = Inr a'" and a: "a = render t1 a'"
    using i by (auto simp: init_def Let_def split: sum.splits)
  have "cam_inv (camera a1) \<and> projectionMatrix (camera a1) = projectionMatrix (updateProjectionMatrix (camera a1))
     \<and> gl_framebuffer (gl a1) = None \<and> gl_depth_mask (gl a1) \<and> objects a1 = [] \<and> textures a1 = []
     \<and> active_uniforms a1 = active"
    using a0 r cam_inv_resize [OF cam_inv_new_camera [of canvas t0]]
    by (auto simp: WebGLApp_def resize_def resize_canvas_def createFramebuffers_eq initial_gl_def Let_def
        split: if_splits)
  then show ?thesis using loadShaders_Inr [OF ls] f a by auto
qed

lemma object_draw_safe:
  assumes inv: "app_inv a" and io: "io \<in> set (enumerate 0 (objects a))"
    and s: "gl_vaos s = gl_vaos (gl a)" "gl_enabled s = gl_enabled (gl a)" "gl_blend s = gl_blend (gl a)"
      "gl_program s = Some (program a)"
    and tx: "textures a' = textures a"
  shows "draw_safe a (object_draw a' p s io)"
proof -
  obtain i obj where io': "io = (i, obj)" by (cases io)
  from io have i: "i < length (objects a)" and obj: "obj = objects a ! i"
    by (auto simp: io' in_set_enumerate_eq)
  then have "obj \<in> set (objects a)" by simp
  then have wf: "renderable_wf (gl a) obj" using inv by (simp add: app_inv_def)
  have il: "i < length (textures a)" using i inv by (simp add: app_inv_def)
  then have u: "js_index (textures a) i = Some (textures a ! i)" by (rule js_index_nth)
  have "textures a ! i < texture (reflectionFBO a)" using il inv by (simp add: app_inv_def)
  then show ?thesis using wf u inv s tx
    by (auto simp: draw_safe_def renderable_wf_def app_inv_def io' split: option.splits)
qed

lemma glass_draw_safe:
  assumes inv: "app_inv a"
    and t: "gl_framebuffer t = None" "gl_enabled t = gl_enabled (gl a)" "gl_blend t = gl_blend (gl a)"
    and g: "glassPlane a' = glassPlane a" "glassTexture a' = glassTexture a" "glassProgram a' = glassProgram a"
  shows "draw_safe a (glass_draw a' t)"
proof -
  have "renderable_wf (gl a) (glassPlane a)" using inv by (simp add: app_inv_def)
  then show ?thesis using inv t g
    by (auto simp: draw_safe_def renderable_wf_def app_inv_def glass_run split: option.splits)
qed

lemma app_inv_frame_safe: "app_inv a \<Longrightarrow> \<forall>d \<in> set (frame_draws now a). draw_safe a d"
proof -
  assume inv: "app_inv a"
  let ?a1 = "frame_app now a"
  let ?s1 = "gl_run (renderReflectionPass ?a1) (gl a)"
  let ?t = "gl_run (draw_objects ?a1 (program a)) (main_setup ?a1 ?s1)"
  note f = frame_structure [of now a]
  have fd: "frame_draws now a =
      map (object_draw ?a1 (program a) (reflection_setup ?a1 (gl a))) (enumerate 0 (objects a))
      @ map (object_draw ?a1 (program a) (main_setup ?a1 ?s1)) (enumerate 0 (objects a))
      @ [glass_draw ?a1 ?t]"
    using f by (simp add: frame_draws_def)
  have r: "draw_safe a (object_draw ?a1 (program a) (reflection_setup ?a1 (gl a)) io)"
    if "io \<in> set (enumerate 0 (objects a))" for io
    using inv that by (rule object_draw_safe) (simp_all add: reflection_setup_facts)
  have m: "draw_safe a (object_draw ?a1 (program a) (main_setup ?a1 ?s1) io)"
    if "io \<in> set (enumerate 0 (objects a))" for io
    using inv that by (rule object_draw_safe) (simp_all add: main_setup_facts f)
  have "gl_framebuffer ?t = None" "gl_enabled ?t = gl_enabled (gl a)" "gl_blend ?t = gl_blend (gl a)"
    using f by (simp_all add: loop_agrees_def main_setup_facts)
  then have g: "draw_safe a (glass_draw ?a1 ?t)"
    using inv by (intro glass_draw_safe) simp_all
  show ?thesis unfolding fd using r m g by auto
qed

lemma app_reachable_app_inv: "app_reachable a \<Longrightarrow> app_inv a"
proof (induction rule: app_reachable.induct)
  case (start canvas t0 webgl2 active w h fbr env during fbi t1 a)
  from app_start_shape [OF start] obtain l a' where "a = render t1 a'" "app_inv a'"
    by (blast intro: app_inv_setup)
  then show ?case by (simp add: app_inv_render)
next
  case (step a now e)
  from step.IH show ?case by (rule app_inv_step)
qed

lemma start_demo:
  "demo_start = Inr (projr demo_start)"
  by (simp add: app_start_def WebGLApp_def init_def loadShaders_def loadShaderFromFile_def createProgram_def
      resize_def createFramebuffers_eq Let_def)

text \<open>C3. Every state the running application can reach, whatever events arrive while
  the shaders load and with framebuffer reallocations that fail, satisfies the application invariant: the camera invariant, a
  projection matching the canvas, the default framebuffer bound with depth writes,
  depth test and alpha blending on, every object and the mirror backed by a
  well-formed mesh of its index count, a texture for every object, texture handles
  below the reflection target's, and both programs linked.\<close>

theorem reachable_app_inv: "app_reachable a \<Longrightarrow> app_inv a"
  by (rule app_reachable_app_inv)

theorem reachable_app_inv_witness:
  "app_reachable (projr demo_start)
   \<and> app_inv (projr demo_start)"
proof -
  have r: "app_reachable (projr demo_start)"
    by (rule app_reachable.start [OF start_demo])
  then show ?thesis using reachable_app_inv [OF r] by simp
qed

lemma app_start_active:
  "app_start canvas t0 webgl2 active w h fbr env during fbi t1 = Inr a \<Longrightarrow> active_uniforms a = active"
  by (drule app_start_shape) (auto simp: createTextures_def createGeometry_def render_def updateFPS_def
      Let_def split_def dest: createFramebuffers_Inr)

lemma reflection_setup_proj:
  "active_uniforms a (program a) ''uProjectionMatrix'' \<Longrightarrow>
     gl_uniforms (reflection_setup a s) (program a) ''uProjectionMatrix'' = Some (UMat (projectionMatrix (camera a)))"
  "active_uniforms a (program a) ''uProjectionMatrix'' \<Longrightarrow>
     gl_uniforms (main_setup a s) (program a) ''uProjectionMatrix'' = Some (UMat (projectionMatrix (camera a)))"
  by (simp_all add: reflection_setup_def main_setup_def setupProgramUniforms_def set_uniform_run)

lemma frame_draws_nonempty: "frame_draws now a \<noteq> []"
  using frame_structure(1) [of now a] by (simp add: frame_draws_def)

subsection \<open>The reference scene\<close>

lemma render_vaos [simp]: "gl_vaos (gl (render now a)) = gl_vaos (gl a)"
  by (simp add: render_gl)

lemma createGeometry_scene:
  assumes "objects l = []" and r: "createFramebuffers fbOk (createTextures (createGeometry l)) = Inr a'"
  shows "objects a'
           = [\<lparr>vao = gl_next_handle (gl l), count = 36,
                modelMatrix = createModelMatrix (V3 (-4) 1 (-3)) (V3 0 0 0) (V3 1.5 1.5 1.5)\<rparr>,
              \<lparr>vao = gl_next_handle (gl l) + 5, count = 6144,
                modelMatrix = createModelMatrix (V3 4 1.5 (-3)) (V3 0 0 0) (V3 1.5 1.5 1.5)\<rparr>]"
    and "glassPlane a'
           = \<lparr>vao = gl_next_handle (gl l) + 10, count = 6,
               modelMatrix = createVerticalPlaneMatrix (V3 0 2 (-3))\<rparr>"
    and "gl_vaos (gl a')
           = (gl_vaos (gl l))(gl_next_handle (gl l) \<mapsto> createCube,
               gl_next_handle (gl l) + 5 \<mapsto> createSphere 1 32, gl_next_handle (gl l) + 10 \<mapsto> createPlane 15 10)"
proof -
  note defs = createFramebuffers_Inr [OF r] createTextures_def loadTexture_def
      createGeometry_def createVAO_def Let_def split_def
  show "objects a'
           = [\<lparr>vao = gl_next_handle (gl l), count = 36,
                modelMatrix = createModelMatrix (V3 (-4) 1 (-3)) (V3 0 0 0) (V3 1.5 1.5 1.5)\<rparr>,
              \<lparr>vao = gl_next_handle (gl l) + 5, count = 6144,
                modelMatrix = createModelMatrix (V3 4 1.5 (-3)) (V3 0 0 0) (V3 1.5 1.5 1.5)\<rparr>]"
    using assms by (simp add: defs createCube_def createSphere_ref sphere_mesh_ref_def length_sphere_index_list)
  show "glassPlane a'
           = \<lparr>vao = gl_next_handle (gl l) + 10, count = 6,
               modelMatrix = createVerticalPlaneMatrix (V3 0 2 (-3))\<rparr>"
    by (simp add: defs createPlane_def)
  show "gl_vaos (gl a')
           = (gl_vaos (gl l))(gl_next_handle (gl l) \<mapsto> createCube,
               gl_next_handle (gl l) + 5 \<mapsto> createSphere 1 32, gl_next_handle (gl l) + 10 \<mapsto> createPlane 15 10)"
    by (rule ext) (simp add: defs)
qed

lemma cube_world_x:
  "\<forall>i < 24. wx (mat4_apply (createModelMatrix (V3 (-4) 1 (-3)) r (V3 1.5 1.5 1.5))
                 (point4 (vertex_at (positions createCube) i))) < 0"
  by (simp add: createModelMatrix_point createCube_def vertex_at_def less_Suc_eq numeral_eq_Suc)

lemma sphere_world_x:
  assumes "i < (32 + 1)\<^sup>2"
  shows "0 < wx (mat4_apply (createModelMatrix (V3 4 1.5 (-3)) r (V3 1.5 1.5 1.5))
                 (point4 (vertex_at (positions (createSphere 1 32)) i)))"
proof -
  let ?n = "vertex_at (normals (createSphere 1 32)) i"
  have "len3 ?n = 1" and p: "vertex_at (positions (createSphere 1 32)) i = vscale 1 ?n"
    using sphere_vertex [OF assms] by simp_all
  then have "\<bar>vx ?n\<bar> \<le> 1" using abs_vx_le_len3 [of ?n] by simp
  then show ?thesis by (simp add: createModelMatrix_point p vscale_def)
qed

text \<open>C14. After a successful start the scene is the one \<^verbatim>\<open>createGeometry\<close> describes:
  the cube and the sphere (in that order) and the mirror plane, each vertex array
  holding its mesh. Every cube vertex lies strictly on the side of the mirror that the
  reflection pass's clipping plane discards, every sphere vertex strictly on the side
  it keeps, and the mirror plane lies in \<open>x = 0\<close>: the reflection shows the sphere and
  not the cube.\<close>

theorem start_scene_sides:
  assumes "app_start canvas t0 webgl2 active w h fbr env during fbi t1 = Inr a"
  shows "length (objects a) = 2
   \<and> gl_vaos (gl a) (vao (objects a ! 0)) = Some createCube
   \<and> gl_vaos (gl a) (vao (objects a ! 1)) = Some (createSphere 1 32)
   \<and> gl_vaos (gl a) (vao (glassPlane a)) = Some (createPlane 15 10)
   \<and> (\<forall>i < 24. \<not> clip_keeps reflection_clipping_plane
          (mat4_apply (modelMatrix (objects a ! 0)) (point4 (vertex_at (positions createCube) i))))
   \<and> (\<forall>i < (32 + 1)\<^sup>2. clip_keeps reflection_clipping_plane
          (mat4_apply (modelMatrix (objects a ! 1)) (point4 (vertex_at (positions (createSphere 1 32)) i))))
   \<and> (\<forall>i < 4. wx (mat4_apply (modelMatrix (glassPlane a))
          (point4 (vertex_at (positions (createPlane 15 10)) i))) = 0)"
proof -
  from app_start_shape [OF assms] obtain l a' where
    r: "createFramebuffers fbi (createTextures (createGeometry l)) = Inr a'" and a: "a = render t1 a'"
    and o: "objects l = []"
    by blast
  note sc = createGeometry_scene [OF o r]
  have cube: "\<forall>i < 24. \<not> clip_keeps reflection_clipping_plane
          (mat4_apply (modelMatrix (objects a ! 0)) (point4 (vertex_at (positions createCube) i)))"
    using cube_world_x [of "V3 0 0 0"] by (simp add: a sc clip_keeps_def reflection_clipping_plane_def not_le)
  have sphere: "\<forall>i < (32 + 1)\<^sup>2. clip_keeps reflection_clipping_plane
          (mat4_apply (modelMatrix (objects a ! 1)) (point4 (vertex_at (positions (createSphere 1 32)) i)))"
    using sphere_world_x [of _ "V3 0 0 0"]
    by (simp add: a sc clip_keeps_def reflection_clipping_plane_def less_imp_le)
  have plane: "\<forall>i < 4. wx (mat4_apply (modelMatrix (glassPlane a))
          (point4 (vertex_at (positions (createPlane 15 10)) i))) = 0"
    by (simp add: a sc createVerticalPlaneMatrix_def createPlane_def mat4_apply_def point4_def
        vertex_at_def Let_def less_Suc_eq numeral_eq_Suc)
  show ?thesis using cube sphere plane by (simp add: a sc)
qed

subsection \<open>Frame properties\<close>

text \<open>C5. One \<^verbatim>\<open>render()\<close> appends exactly \<open>2n + 1\<close> draw calls for \<open>n\<close> objects:
  first every object, in array order, into the reflection framebuffer with its own
  viewport and the main program; then every object again into the canvas with the
  canvas viewport; then the mirror plane with the glass program and depth writes off.
  Object \<open>i\<close> is drawn with its own vertex array, index count and texture
  \<^verbatim>\<open>this.textures[i]\<close>, and the frame ends with depth writes on and the default
  framebuffer bound.\<close>

theorem frame_pass_order:
  "\<exists>R M G. gl_draws (gl (render now a)) = gl_draws (gl a) @ R @ M @ [G]
     \<and> length R = length (objects a) \<and> length M = length (objects a)
     \<and> (\<forall>i < length (objects a).
          d_framebuffer (R ! i) = Some (framebuffer (reflectionFBO a))
        \<and> d_viewport (R ! i) = (fb_width (reflectionFBO a), fb_height (reflectionFBO a))
        \<and> d_framebuffer (M ! i) = None
        \<and> d_viewport (M ! i) = (canvas_width (dom (camera a)), canvas_height (dom (camera a)))
        \<and> d_program (R ! i) = Some (program a) \<and> d_program (M ! i) = Some (program a)
        \<and> d_vao (R ! i) = Some (vao (objects a ! i)) \<and> d_vao (M ! i) = Some (vao (objects a ! i))
        \<and> d_count (R ! i) = count (objects a ! i) \<and> d_count (M ! i) = count (objects a ! i)
        \<and> d_units (R ! i) 0 = js_index (textures a) i \<and> d_units (M ! i) 0 = js_index (textures a) i
        \<and> d_depth_mask (R ! i) = gl_depth_mask (gl a) \<and> d_depth_mask (M ! i) = gl_depth_mask (gl a))
     \<and> d_framebuffer G = None \<and> d_program G = Some (glassProgram a)
     \<and> d_vao G = Some (vao (glassPlane a)) \<and> d_count G = count (glassPlane a) \<and> \<not> d_depth_mask G
     \<and> gl_depth_mask (gl (render now a)) \<and> gl_framebuffer (gl (render now a)) = None"
proof -
  let ?a1 = "frame_app now a"
  let ?s1 = "gl_run (renderReflectionPass ?a1) (gl a)"
  let ?t = "gl_run (draw_objects ?a1 (program a)) (main_setup ?a1 ?s1)"
  note f = frame_structure [of now a]
  have t: "gl_framebuffer ?t = None" using f by (simp add: loop_agrees_def main_setup_facts)
  have "gl_depth_mask (gl (render now a))" "gl_framebuffer (gl (render now a)) = None"
    using f t by (simp_all add: glass_run)
  then show ?thesis
    using f t by (intro exI conjI) (auto simp: main_setup_facts reflection_setup_facts glass_run nth_enumerate_eq)
qed

text \<open>C6. When the main program uses the view, projection, clipping-plane and light
  uniforms, every reflection-pass draw sees the reflected view of the camera as
  \<^verbatim>\<open>camera.update()\<close> left it, the camera's projection, the clipping plane
  \<open>(1, 0, 0, 0)\<close> and the light mirrored in \<open>x = 0\<close>; every main-pass draw sees the
  camera's own view, the same projection, the clipping plane switched off and the light
  at \<open>(5, 10, 5)\<close>.\<close>

theorem frame_pass_uniforms:
  assumes "\<forall>n \<in> {''uViewMatrix'', ''uProjectionMatrix'', ''uClippingPlane'', ''uLightPosition''}.
             active_uniforms a (program a) n"
  shows "\<exists>R M G. gl_draws (gl (render now a)) = gl_draws (gl a) @ R @ M @ [G]
     \<and> length R = length (objects a) \<and> length M = length (objects a)
     \<and> (\<forall>d \<in> set R.
          d_uniforms d ''uViewMatrix'' = Some (UMat (calculateReflectionViewMatrix (update now (camera a))))
        \<and> d_uniforms d ''uProjectionMatrix'' = Some (UMat (projectionMatrix (camera a)))
        \<and> d_uniforms d ''uClippingPlane'' = Some (UVec4 1 0 0 0)
        \<and> d_uniforms d ''uLightPosition'' = Some (UVec3 (mirror_x (V3 5 10 5))))
     \<and> (\<forall>d \<in> set M.
          d_uniforms d ''uViewMatrix'' = Some (UMat (viewMatrix (update now (camera a))))
        \<and> d_uniforms d ''uProjectionMatrix'' = Some (UMat (projectionMatrix (camera a)))
        \<and> d_uniforms d ''uClippingPlane'' = Some (UVec4 0 0 0 0)
        \<and> d_uniforms d ''uLightPosition'' = Some (UVec3 (V3 5 10 5)))"
proof -
  let ?a1 = "frame_app now a"
  let ?s1 = "gl_run (renderReflectionPass ?a1) (gl a)"
  let ?R = "map (object_draw ?a1 (program a) (reflection_setup ?a1 (gl a))) (enumerate 0 (objects a))"
  let ?M = "map (object_draw ?a1 (program a) (main_setup ?a1 ?s1)) (enumerate 0 (objects a))"
  note f = frame_structure [of now a]
  have act: "active_uniforms ?a1 (program ?a1) ''uViewMatrix''" "active_uniforms ?a1 (program ?a1) ''uProjectionMatrix''"
    "active_uniforms ?a1 (program ?a1) ''uClippingPlane''" "active_uniforms ?a1 (program ?a1) ''uLightPosition''"
    using assms by simp_all
  have R: "\<forall>d \<in> set ?R.
          d_uniforms d ''uViewMatrix'' = Some (UMat (calculateReflectionViewMatrix (update now (camera a))))
        \<and> d_uniforms d ''uProjectionMatrix'' = Some (UMat (projectionMatrix (camera a)))
        \<and> d_uniforms d ''uClippingPlane'' = Some (UVec4 1 0 0 0)
        \<and> d_uniforms d ''uLightPosition'' = Some (UVec3 (mirror_x (V3 5 10 5)))"
    using reflection_setup_facts(9) [OF act(1)] reflection_setup_facts(10) [OF act(3)]
      reflection_setup_facts(11) [OF act(4)] reflection_setup_proj(1) [OF act(2)]
    by (simp add: mirror_x_def)
  have M: "\<forall>d \<in> set ?M.
          d_uniforms d ''uViewMatrix'' = Some (UMat (viewMatrix (update now (camera a))))
        \<and> d_uniforms d ''uProjectionMatrix'' = Some (UMat (projectionMatrix (camera a)))
        \<and> d_uniforms d ''uClippingPlane'' = Some (UVec4 0 0 0 0)
        \<and> d_uniforms d ''uLightPosition'' = Some (UVec3 (V3 5 10 5))"
    using main_setup_facts(9) [OF act(1)] main_setup_facts(10) [OF act(3)]
      main_setup_facts(11) [OF act(4)] reflection_setup_proj(2) [OF act(2)] by simp
  show ?thesis using f(1) R M by (intro exI [of _ ?R] exI [of _ ?M] exI) simp
qed

text \<open>C7. The mirror draw of a frame samples the glass texture on unit 0 and the
  reflection target's colour texture on unit 1, with depth writes off but the depth test
  and blending of the frame still on, and (where the glass program uses them) receives
  the projection times the same reflected view the reflection pass drew with, and the
  slider's transparency.\<close>

theorem frame_glass_composite:
  assumes "active_uniforms a (glassProgram a) ''uReflectionViewProjectionMatrix''"
    and "active_uniforms a (glassProgram a) ''uTransparency''"
  shows "d_units (last (gl_draws (gl (render now a)))) 0 = Some (glassTexture a)
     \<and> d_units (last (gl_draws (gl (render now a)))) 1 = Some (texture (reflectionFBO a))
     \<and> \<not> d_depth_mask (last (gl_draws (gl (render now a))))
     \<and> d_enabled (last (gl_draws (gl (render now a)))) = gl_enabled (gl a)
     \<and> d_blend (last (gl_draws (gl (render now a)))) = gl_blend (gl a)
     \<and> d_uniforms (last (gl_draws (gl (render now a)))) ''uReflectionViewProjectionMatrix''
         = Some (UMat (multiplyMatrices (projectionMatrix (camera a))
                         (calculateReflectionViewMatrix (update now (camera a)))))
     \<and> d_uniforms (last (gl_draws (gl (render now a)))) ''uTransparency'' = Some (UFloat (transparency a))"
proof -
  let ?a1 = "frame_app now a"
  let ?s1 = "gl_run (renderReflectionPass ?a1) (gl a)"
  let ?t = "gl_run (draw_objects ?a1 (program a)) (main_setup ?a1 ?s1)"
  note f = frame_structure [of now a]
  have g: "last (gl_draws (gl (render now a))) = glass_draw ?a1 ?t" using f by (simp add: glass_run)
  have t: "gl_enabled ?t = gl_enabled (gl a)" "gl_blend ?t = gl_blend (gl a)"
    using f by (simp_all add: loop_agrees_def main_setup_facts)
  have u1: "d_units (glass_draw ?a1 ?t) 1 = Some (texture (reflectionFBO a))"
    using glass_run(15) [of ?a1 ?t] by simp
  show ?thesis unfolding g using t assms u1 by (simp add: glass_run)
qed

text \<open>C4. In every state the running application can reach, every draw call of the
  next frame is safe: it reads a well-formed mesh within its buffers with exactly that
  mesh's index count, runs a linked program, samples a texture on unit 0, never samples the reflection target
  while drawing into it, and runs with depth testing and alpha blending on.\<close>

theorem reachable_frame_safe:
  "app_reachable a \<Longrightarrow> \<forall>d \<in> set (frame_draws now a). draw_safe a d"
  by (rule app_inv_frame_safe [OF app_reachable_app_inv])

text \<open>C19. The window's \<^verbatim>\<open>resize\<close> listener keeps the camera's pose and view,
  gives the canvas the container's size, sets the viewport to it and the projection to
  its aspect ratio. When the framebuffer allocation succeeds the application draws into
  a newly allocated reflection target of the canvas size; when it fails the listener throws after those changes and the application
  keeps its previous reflection target, of the previous size.\<close>

theorem resize_effect:
  "position (camera (app_step now (WindowResize w h fbOk) a)) = position (camera a)
   \<and> yaw (camera (app_step now (WindowResize w h fbOk) a)) = yaw (camera a)
   \<and> pitch (camera (app_step now (WindowResize w h fbOk) a)) = pitch (camera a)
   \<and> viewMatrix (camera (app_step now (WindowResize w h fbOk) a)) = viewMatrix (camera a)
   \<and> dom (camera (app_step now (WindowResize w h fbOk) a))
       = (dom (camera a))\<lparr>canvas_width := w, canvas_height := h\<rparr>
   \<and> projectionMatrix (camera (app_step now (WindowResize w h fbOk) a)) = perspective (real w / real h)
   \<and> gl_viewport (gl (app_step now (WindowResize w h fbOk) a)) = (w, h)
   \<and> reflectionFBO (app_step now (WindowResize w h fbOk) a)
       = (if fbOk then \<lparr>framebuffer = gl_next_handle (gl a), texture = Suc (gl_next_handle (gl a)),
                        fb_width = w, fb_height = h\<rparr>
          else reflectionFBO a)"
  by (simp add: resize_listener_eq resize_canvas_def createFramebuffers_eq updateProjectionMatrix_def Let_def)

text \<open>C20. Startup goes through the fallible steps in the order of the code: the WebGL2
  context, the framebuffer allocation of the first \<^verbatim>\<open>resize()\<close>, the four shader
  fetches and the two program links, the framebuffer allocation of
  \<^verbatim>\<open>createFramebuffers()\<close>. It ends with the error of the first step that fails, and
  succeeds, drawing its first frame, exactly when none fails; events arriving while
  the shaders load do not change the outcome.\<close>

theorem app_start_outcome:
  "app_start canvas t0 webgl2 active w h fbr env during fbi t1 =
     (if \<not> webgl2 then Inl WebGL2NotSupported
      else if \<not> fbr then Inl FramebufferError
      else if \<not> (case (shader_file env ''shaders/vertex.glsl'', shader_file env ''shaders/fragment.glsl'',
                       shader_file env ''shaders/glass.v.glsl'', shader_file env ''shaders/glass.glsl'') of
                    (Some v, Some f, Some gv, Some gf) \<Rightarrow> links env v f \<and> links env gv gf
                  | _ \<Rightarrow> False)
        then Inl ShaderError
      else if \<not> fbi then Inl FramebufferError
      else Inr (projr (app_start canvas t0 webgl2 active w h fbr env during fbi t1)))"
proof -
  define L where "L = (\<lambda>a. projr (loadShaders env during a))"
  have L: "\<And>a. loadShaders env during a =
     (if (case (shader_file env ''shaders/vertex.glsl'', shader_file env ''shaders/fragment.glsl'',
                shader_file env ''shaders/glass.v.glsl'', shader_file env ''shaders/glass.glsl'') of
            (Some v, Some f, Some gv, Some gf) \<Rightarrow> links env v f \<and> links env gv gf
          | _ \<Rightarrow> False)
      then Inr (L a) else Inl ShaderError)"
    unfolding L_def by (rule loadShaders_outcome)
  show ?thesis by (simp add: app_start_def WebGLApp_def init_def L resize_def createFramebuffers_eq Let_def)
qed

text \<open>C21. After a successful start each program is the one \<^verbatim>\<open>loadShaders\<close> means: the
  main program is linked from \<^verbatim>\<open>shaders/vertex.glsl\<close> and
  \<^verbatim>\<open>shaders/fragment.glsl\<close>, the glass program from \<^verbatim>\<open>shaders/glass.v.glsl\<close> and
  \<^verbatim>\<open>shaders/glass.glsl\<close>, as the server delivered them, and the two are distinct
  programs, even when resize events allocate handles between the two links.\<close>

theorem start_program_sources:
  assumes "app_start canvas t0 webgl2 active w h fbr env during fbi t1 = Inr a"
  shows "gl_programs (gl a) (program a)
           = Some (the (shader_file env ''shaders/vertex.glsl''), the (shader_file env ''shaders/fragment.glsl''))
   \<and> gl_programs (gl a) (glassProgram a)
           = Some (the (shader_file env ''shaders/glass.v.glsl''), the (shader_file env ''shaders/glass.glsl''))
   \<and> program a \<noteq> glassProgram a"
proof -
  from app_start_shape [OF assms] obtain l a' where
    r: "createFramebuffers fbi (createTextures (createGeometry l)) = Inr a'" and a: "a = render t1 a'"
    and p: "gl_programs (gl l) (program l)
              = Some (the (shader_file env ''shaders/vertex.glsl''), the (shader_file env ''shaders/fragment.glsl''))"
      "gl_programs (gl l) (glassProgram l)
              = Some (the (shader_file env ''shaders/glass.v.glsl''), the (shader_file env ''shaders/glass.glsl''))"
      "program l \<noteq> glassProgram l"
    by blast
  have "gl_programs (gl a) = gl_programs (gl l)" "program a = program l" "glassProgram a = glassProgram l"
    by (simp_all add: a render_gl createFramebuffers_Inr [OF r] createTextures_def loadTexture_def
        createGeometry_def createVAO_def Let_def split_def)
  then show ?thesis using p by simp
qed

lemma start_demo_active: "active_uniforms (projr demo_start) = (\<lambda>_ _. True)"
  by (rule app_start_active [OF start_demo])

theorem frame_pass_order_witness:
  "d_framebuffer (last (gl_draws (gl (render 32 (projr demo_start))))) = None"
  using frame_pass_order [of 32 "(projr demo_start)"] by auto

theorem frame_pass_uniforms_witness:
  "active_uniforms (projr demo_start) (program (projr demo_start)) ''uViewMatrix'' \<and> active_uniforms (projr demo_start) (program (projr demo_start)) ''uProjectionMatrix''
   \<and> active_uniforms (projr demo_start) (program (projr demo_start)) ''uClippingPlane'' \<and> active_uniforms (projr demo_start) (program (projr demo_start)) ''uLightPosition''
   \<and> length (gl_draws (gl (render 32 (projr demo_start)))) = length (gl_draws (gl (projr demo_start))) + 2 * length (objects (projr demo_start)) + 1"
proof -
  have h: "\<forall>n \<in> {''uViewMatrix'', ''uProjectionMatrix'', ''uClippingPlane'', ''uLightPosition''}.
      active_uniforms (projr demo_start) (program (projr demo_start)) n" by (simp add: start_demo_active)
  from frame_pass_uniforms [OF h, of 32] show ?thesis using h by auto
qed

theorem frame_glass_composite_witness:
  "active_uniforms (projr demo_start) (glassProgram (projr demo_start)) ''uReflectionViewProjectionMatrix''
   \<and> active_uniforms (projr demo_start) (glassProgram (projr demo_start)) ''uTransparency''
   \<and> d_units (last (gl_draws (gl (render 32 (projr demo_start))))) 1 = Some (texture (reflectionFBO (projr demo_start)))"
proof -
  have h: "active_uniforms (projr demo_start) (glassProgram (projr demo_start)) ''uReflectionViewProjectionMatrix''"
    "active_uniforms (projr demo_start) (glassProgram (projr demo_start)) ''uTransparency''" by (simp_all add: start_demo_active)
  from frame_glass_composite [OF h, of 32] show ?thesis using h by simp
qed

theorem reachable_frame_safe_witness:
  "app_reachable (projr demo_start)
   \<and> DEPTH_TEST \<in> d_enabled (last (frame_draws 32 (projr demo_start)))
   \<and> d_units (last (frame_draws 32 (projr demo_start))) 0 \<noteq> None"
proof -
  have r: "app_reachable (projr demo_start)" by (rule app_reachable.start [OF start_demo])
  have "frame_draws 32 (projr demo_start) \<noteq> []" by (rule frame_draws_nonempty)
  then have "last (frame_draws 32 (projr demo_start)) \<in> set (frame_draws 32 (projr demo_start))" by simp
  with reachable_frame_safe [OF r] show ?thesis using r by (simp add: draw_safe_def)
qed

theorem start_scene_sides_witness:
  "demo_start = Inr (projr demo_start)
   \<and> gl_vaos (gl (projr demo_start)) (vao (objects (projr demo_start) ! 1)) = Some (createSphere 1 32)"
  using start_scene_sides [OF start_demo] start_demo by simp

theorem start_program_sources_witness:
  "gl_programs (gl (projr demo_start)) (program (projr demo_start)) = Some ('''', '''')
   \<and> gl_programs (gl (projr demo_start)) (glassProgram (projr demo_start)) = Some ('''', '''')
   \<and> program (projr demo_start) \<noteq> glassProgram (projr demo_start)"
  using start_program_sources [OF start_demo] by simp

end
