(* ===== verification/Spec2Isabelle.thy ===== *)
theory Spec2Isabelle
  imports Render
begin

text \<open>
  Verification development of the glass-reflection viewer of \<^verbatim>\<open>src/js\<close>: a
  free-flying camera (\<^verbatim>\<open>camera.js\<close>) in a scene of a cube, a sphere and a vertical
  semi-transparent mirror at \<open>x = 0\<close> (\<^verbatim>\<open>geometry.js\<close>, \<^verbatim>\<open>main.js\<close>). Each frame the
  application (\<^verbatim>\<open>WebGLApp\<close> of \<^verbatim>\<open>main.js\<close>) advances the camera, renders the scene
  seen from the mirrored camera into an offscreen framebuffer with a clipping plane,
  renders the scene from the camera to the canvas, and draws the mirror with depth
  writes off, sampling the offscreen image.

  \<^bold>\<open>How the parts interact.\<close> The browser delivers DOM events to the camera's
  listeners (keys, pointer lock, mouse, wheel) and to the application's
  (\<^verbatim>\<open>setupUI\<close>: slider, reset button, \<^verbatim>\<open>r\<close> key; window resize), and calls
  \<^verbatim>\<open>render()\<close> once per display refresh. The camera keeps its state (pose, speed,
  held keys, pointer-lock flag, one closure state per fallback registration) and its
  two matrices; the application reads the camera's matrices and position, issues
  WebGL calls, and reads nothing back from WebGL.

  \<^bold>\<open>Theories, leaves first.\<close>
  \<^item> \<open>Prelude\<close>: \<open>vec3\<close>, \<open>vec4\<close> and \<open>mat4\<close> (16 entries, column-major, as
    \<^verbatim>\<open>uniformMatrix4fv(loc, false, m)\<close> reads them), the inline vector operations of
    the source (\<open>vadd\<close>, \<open>cross3\<close>, \<open>len3\<close>, ...), \<open>js_clamp\<close> for
    \<^verbatim>\<open>Math.max(lo, Math.min(hi, x))\<close>, \<open>js_index\<close> for array reads that may be
    \<^verbatim>\<open>undefined\<close>, and the lemma collections \<open>vec_simps\<close>, \<open>mat4_simps\<close>.
  \<^item> \<open>MatrixMath\<close>: \<open>normalize3\<close>, \<open>look_at\<close>, \<open>perspective\<close> (written out inline in
    \<^verbatim>\<open>updateViewMatrix\<close>, \<^verbatim>\<open>calculateReflectionViewMatrix\<close> and
    \<^verbatim>\<open>updateProjectionMatrix\<close>), \<open>multiplyMatrices\<close>, \<open>createModelMatrix\<close>,
    \<open>createVerticalPlaneMatrix\<close>. \<open>mat4_apply\<close> gives a matrix its GLSL meaning.
    \<open>mat4_mul_ref\<close> is the textbook column-major product. Lemmas: the unrolled
    \<^verbatim>\<open>multiplyMatrices\<close> equals the reference product, which is composition and
    is associative with the identity as unit;
    the look-at basis is orthonormal whenever the view direction is not vertical; the
    eye goes to the origin; the projection maps near and far planes to depth
    \<open>-1\<close> and \<open>1\<close> and depends on the aspect ratio in entry 0 only.
  \<^item> \<open>Camera\<close>: \<^verbatim>\<open>FlybyCamera\<close> as the record \<open>camera\<close> (the canvas and the browser's
    pointer-lock API as the record \<open>dom\<close>); \<open>new_camera\<close> (constructor),
    \<open>updateViewMatrix\<close>, \<open>updateProjectionMatrix\<close>, \<open>update\<close>, \<open>reset\<close>,
    \<open>getForward\<close>, \<open>getPosition\<close>, and the listener bodies \<open>look_delta\<close> and
    \<open>wheel\<close>. The invariant \<open>cam_inv\<close> (pitch in \<open>[-89, 89]\<close>, speed in
    \<open>[0.5, 20]\<close>, sensitivity \<open>0.1\<close>, view matrix up to date) is preserved by every
    method. \<open>move_intent\<close> is the specification's movement (held intents' directions
    summed). Lemmas: the stored view is orthonormal; \<open>update\<close> refines the
    specified movement, clamps the time step to 100 ms, is frame-rate independent
    below the clamp and the identity on a zero step, and strafes along the view's
    right axis; the look and wheel clamps; \<open>reset\<close> restores the spawn pose.
  \<^item> \<open>Input\<close>: the camera's DOM listeners as \<open>camera_event\<close> over the datatype
    \<open>input_event\<close>, with the pointer-lock requests as \<open>effect\<close>s and the click's
    \<^verbatim>\<open>TypeError\<close> as \<open>Inl\<close>; every fallback registration is an element of
    \<open>fallback_listeners\<close>. \<open>cam_reachable\<close> is the inductive set of camera states the
    application reaches (constructor, events, frames, resets, resizes); the camera
    invariant holds on it by rule induction. Lemmas: the input-mode behaviour of the
    specification where the code has it, and where it does not (\<open>n\<close> fallback
    registrations turn the camera \<open>n\<close> times as far; with the legacy lock API no event
    sequence ever installs a fallback; once a lock is lost, no event short of a click or
    a new lock turns the camera). \<open>camera_events\<close>
    runs a sequence of events: pressing and releasing a key that was up restores the
    camera exactly, and every click outcome leaves the camera with some look control
    or in its previous mode.
  \<^item> \<open>Reflection\<close>: \<open>calculateReflectionViewMatrix\<close>, whose inline look-at is
    \<open>reflection_look_at\<close> (proved equal to \<open>look_at\<close> for every up vector); the main
    lemma shows the matrix equals the camera's view matrix conjugated by the mirror
    \<open>diag(-1, 1, 1, 1)\<close>, so the reflection pass renders the mirror image of the
    world.
  \<^item> \<open>Geometry\<close>: \<open>createCube\<close>, \<open>createSphere\<close>, \<open>createPlane\<close> of \<^verbatim>\<open>geometry.js\<close>,
    the index array as a list of \<open>16 word\<close> (\<^verbatim>\<open>Uint16Array\<close>). The nested
    \<^verbatim>\<open>for\<close> loops of \<^verbatim>\<open>createSphere\<close> are the recursive functions
    \<open>sphere_vertex_loop\<close> and \<open>sphere_index_loop\<close> with their counters and the
    arrays they push to as arguments; they are proved total and equal to the
    comprehension \<open>sphere_mesh_ref\<close>, on which the mesh lemmas are stated. \<open>mesh_wf\<close> says a mesh
    can be drawn without reading past a buffer. Lemmas: every generated mesh is well
    formed; the sphere's indices survive the 16-bit conversion exactly when
    \<open>segments \<le> 255\<close>; sphere normals are unit and positions are radius times normal;
    the cube's triangles wind outward; the mirror matrix stands the plane in
    \<open>x = t.x\<close>.
  \<^item> \<open>WebGL\<close>: the WebGL2 context as the state record \<open>gl_state\<close> and the command
    datatype \<open>gl_cmd\<close> run by \<open>gl_exec\<close> / \<open>gl_run\<close>, with a log of draw calls
    (\<open>draw_rec\<close>: everything a draw reads) and the sources each linked program was
    built from; and the render backend the sources import but do not contain:
    \<open>createFramebuffer\<close> (which may fail), \<open>loadShaderFromFile\<close>,
    \<open>createProgram\<close> and \<open>loadTexture\<close>, over \<open>shader_env\<close>, the files the server
    delivers and the source pairs that link. \<open>startup_error\<close> lists the fatal errors.
  \<^item> \<open>Render\<close>: \<^verbatim>\<open>WebGLApp\<close>. The render methods are command lists
    (\<open>renderReflectionPass\<close>, \<open>renderMainScene\<close>, \<open>setupProgramUniforms\<close>,
    \<open>setupGlassProgramUniforms\<close>, \<open>draw_object\<close>); \<open>render\<close>, \<open>updateFPS\<close>,
    \<open>resize_canvas\<close> / \<open>resize\<close>, \<open>createFramebuffers\<close> update the record \<open>app\<close>
    (the last two return \<open>Inl FramebufferError\<close> when the allocation fails); the
    startup is \<open>WebGLApp\<close> (constructor), \<open>init\<close>, \<open>loadShaders\<close>,
    \<open>createGeometry\<close>, \<open>createVAO\<close>, \<open>createTextures\<close> and \<open>app_start\<close>, each
    fallible step's error ending it. While \<^verbatim>\<open>loadShaders\<close> awaits, the camera's
    listeners and the window's \<open>resize_listener\<close> already run (\<open>loading_event\<close>,
    one list of events per \<^verbatim>\<open>await\<close>); \<open>app_step\<close> is every event after startup, a
    resize whose allocation throws keeping what the listener changed before the throw. \<open>app_reachable\<close> is the
    inductive set of running states and \<open>app_inv\<close> its invariant. Lemmas: the draws of
    a frame are the objects in order into the reflection target, the objects into the
    canvas, then the mirror, each with the uniforms, textures and depth-mask state the
    specification's pipeline demands; every draw of every reachable frame is safe and
    runs a linked program, failed reallocations included; a resize either moves to a new
    target of the canvas size or keeps the old one; startup fails with the error of
    its first failing step; the programs are linked from the right shader files; the reference scene lies on the sides of the
    mirror the clipping plane expects.

  \<^bold>\<open>Numbers.\<close> \<^verbatim>\<open>Float32Array\<close> entries and JavaScript numbers are exact reals:
  rounding is not modelled, so the theorems state the exact-arithmetic design of the
  code. Trigonometry and square roots are HOL's \<open>sin\<close>, \<open>cos\<close>, \<open>tan\<close>, \<open>sqrt\<close>;
  \<^verbatim>\<open>Math.round\<close> is \<open>\<lfloor>x + 1/2\<rfloor>\<close>. The canvas size is a natural number and the
  aspect ratio a real quotient (HOL's \<open>x / 0 = 0\<close> where JavaScript gives
  \<open>Infinity\<close> or \<open>NaN\<close>; no theorem depends on a zero height). Index arrays are
  \<open>16 word\<close>, so the \<^verbatim>\<open>Uint16Array\<close> wrap-around is part of the model.

  \<^bold>\<open>Bounds and fuel.\<close> None are needed. Every loop of the sources is a bounded
  \<^verbatim>\<open>for\<close> or \<^verbatim>\<open>forEach\<close> over a finite range or array. The two nested loops
  of \<^verbatim>\<open>createSphere\<close> are \<open>function\<close>s whose recursion descends in the
  lexicographic measure \<open>(segments + 1 - lat, segments + 1 - lon)\<close> (proved well
  founded, so they are defined on every input); the others are \<open>map\<close> and
  \<open>concat\<close> over \<open>[0..<n]\<close> or structurally recursive \<open>fun\<close>s over a list. Every
  definition is total and no theorem assumes that a call returns. The per-frame
  \<^verbatim>\<open>requestAnimationFrame\<close> loop is not a loop of the model: each frame is one
  \<open>AnimationFrame\<close> step of \<open>app_step\<close>, and reachability quantifies over all finite
  sequences of steps.

  \<^bold>\<open>From the specification, not the sources.\<close> \<^verbatim>\<open>framebuffer.js\<close> and
  \<^verbatim>\<open>shaders.js\<close> are imported by \<^verbatim>\<open>main.js\<close> but absent from the repository:
  \<open>createFramebuffer\<close>, \<open>loadShaderFromFile\<close>, \<open>createProgram\<close> and
  \<open>loadTexture\<close> allocate handles as the specification's render-backend interface
  describes. What the environment decides is an argument: whether an allocation
  succeeds (a \<open>bool\<close> per call, carried by the \<open>WindowResize\<close> event while
  running), which files the server delivers and which sources link
  (\<open>shader_env\<close>). The WebGL context (\<open>gl_exec\<close>, \<open>initial_gl\<close>) follows the
  WebGL specification for the calls the viewer makes. The shaders are not in the
  sources: which uniforms each program uses is the parameter \<open>active_uniforms\<close>, and
  the clipping test the reflection pass relies on is \<open>clip_keeps\<close>.

  \<^bold>\<open>Not modelled.\<close> Floating-point rounding; GLSL compilation and shading;
  texture decoding; the pixels of the framebuffers (the model records which draws
  happen with which state, not what they rasterise); the first, unused declaration of
  \<^verbatim>\<open>createFramebuffers\<close> (a 1024 by 1024 target), which the second replaces; the
  text the viewer writes to the page (FPS label, slider label, alerts, console).
\<close>

end
